(* ===== verification/Prelude.thy ===== *)
theory Prelude
  imports Main
begin

text \<open>
  Shared infrastructure of the development: the named collections of facts that the
  component theories fill and that their proofs use, the result type of code that may
  throw together with its sequencing operator, and the functions and facts on lists
  that several components use.
\<close>

section \<open>Fact collections\<close>

named_theorems handler_defs \<open>definitions of the handlers, for evaluation on concrete states\<close>
named_theorems frame \<open>fields a handler leaves unchanged\<close>

section \<open>Code that may throw\<close>

text \<open>
  A JavaScript expression either yields a value or throws. The model uses a sum type:
  \<open>Inl e\<close> is the thrown error, \<open>Inr v\<close> the value. \<open>and_then\<close> is the sequencing
  of two such computations: the second one is not run when the first one throws.
\<close>

type_synonym ('e, 'a) result = "'e + 'a"

definition and_then :: "('e, 'a) result \<Rightarrow> ('a \<Rightarrow> ('e, 'b) result) \<Rightarrow> ('e, 'b) result" where
  "and_then r f = (case r of Inl e \<Rightarrow> Inl e | Inr v \<Rightarrow> f v)"

definition throws :: "('e, 'a) result \<Rightarrow> bool" where
  "throws r = (case r of Inl _ \<Rightarrow> True | Inr _ \<Rightarrow> False)"

section \<open>Lists\<close>

text \<open>
  \<open>join sep xs\<close> is the concatenation of the strings \<open>xs\<close> with \<open>sep\<close> between
  neighbours, the result of \<^verbatim>\<open>Array.prototype.join\<close> on strings. \<open>remove_nth i xs\<close>
  is \<open>xs\<close> without its element at position \<open>i\<close>.
\<close>

fun join :: "'a list \<Rightarrow> 'a list list \<Rightarrow> 'a list" where
  "join sep [] = []"
| "join sep [x] = x"
| "join sep (x # y # ys) = x @ sep @ join sep (y # ys)"

definition remove_nth :: "nat \<Rightarrow> 'a list \<Rightarrow> 'a list" where
  "remove_nth i xs = take i xs @ drop (Suc i) xs"

section \<open>Facts about code that may throw\<close>

lemma and_then_Inl [simp]: "and_then (Inl e) f = Inl e"
  by (simp add: and_then_def)

lemma and_then_Inr [simp]: "and_then (Inr v) f = f v"
  by (simp add: and_then_def)

lemma and_then_Inr_right [simp]: "and_then r Inr = r"
  by (cases r) simp_all

lemma and_then_eq_Inr_iff:
  "and_then r f = Inr w \<longleftrightarrow> (\<exists>v. r = Inr v \<and> f v = Inr w)"
  by (cases r) simp_all

lemma throws_simps [simp]: "throws (Inl e)" "\<not> throws (Inr v)"
  by (simp_all add: throws_def)

lemma throws_and_then: "throws (and_then r f) \<longleftrightarrow> throws r \<or> (\<exists>v. r = Inr v \<and> throws (f v))"
  by (cases r) simp_all

lemma not_throws_iff: "\<not> throws r \<longleftrightarrow> (\<exists>v. r = Inr v)"
  by (cases r) simp_all

section \<open>Facts about lists and numbers\<close>

lemma find_in_set: "List.find P xs = Some x \<Longrightarrow> x \<in> set xs \<and> P x"
  by (induction xs) (auto split: if_splits)

lemma set_remove_nth:
  "i < length xs \<Longrightarrow> set xs = insert (xs ! i) (set (remove_nth i xs))"
proof -
  assume "i < length xs"
  then have "xs = take i xs @ xs ! i # drop (Suc i) xs"
    by (rule id_take_nth_drop)
  then have "set xs = set (take i xs @ xs ! i # drop (Suc i) xs)"
    by simp
  also have "\<dots> = insert (xs ! i) (set (take i xs) \<union> set (drop (Suc i) xs))"
    by auto
  finally show ?thesis
    by (simp add: remove_nth_def)
qed

lemma remove_nth_keeps:
  "i < length xs \<Longrightarrow> x \<in> set xs \<Longrightarrow> x \<noteq> xs ! i \<Longrightarrow> x \<in> set (remove_nth i xs)"
  using set_remove_nth [of i xs] by auto

lemma map_remove_nth: "map f (remove_nth i xs) = remove_nth i (map f xs)"
  by (simp add: remove_nth_def take_map drop_map)

lemma length_remove_nth: "i < length xs \<Longrightarrow> length (remove_nth i xs) = length xs - 1"
  by (simp add: remove_nth_def)

lemma filter_remove_nth:
  assumes "i < length xs"
  shows "length (filter P (remove_nth i xs)) =
     length (filter P xs) - (if P (xs ! i) then 1 else 0)"
proof -
  from assms have "xs = take i xs @ xs ! i # drop (Suc i) xs"
    by (simp add: id_take_nth_drop)
  then have "filter P xs = filter P (take i xs) @ filter P [xs ! i] @ filter P (drop (Suc i) xs)"
    by (metis append_Cons append_Nil filter_append)
  then show ?thesis by (simp add: remove_nth_def)
qed

lemma list_all_remove_nth: "list_all P xs \<Longrightarrow> list_all P (remove_nth i xs)"
  by (auto simp: remove_nth_def list_all_iff dest: in_set_takeD in_set_dropD)

lemma list_ex_remove_nth:
  assumes "list_ex P xs" and "i < length xs" and "\<not> P (xs ! i)"
  shows "list_ex P (remove_nth i xs)"
proof -
  from assms(1) obtain x where x: "x \<in> set xs" "P x"
    by (auto simp: list_ex_iff)
  with assms(3) have "x \<noteq> xs ! i" by auto
  with x(1) assms(2) have "x \<in> set (remove_nth i xs)"
    by (simp add: remove_nth_keeps)
  with x(2) show ?thesis by (auto simp: list_ex_iff)
qed

lemma lt_10_cases:
  "d < 10 \<Longrightarrow> d = 0 \<or> d = 1 \<or> d = 2 \<or> d = 3 \<or> d = 4 \<or> d = 5 \<or> d = 6 \<or> d = 7 \<or> d = 8 \<or> d = (9::nat)"
  by arith

lemma map_of_append_other:
  assumes "k \<notin> fst ` set xs"
  shows "map_of (xs @ ys) k = map_of ys k"
proof -
  from assms have "map_of xs k = None"
    by (simp add: map_of_eq_None_iff)
  then show ?thesis by (simp add: map_add_def)
qed

lemma those_eq_None_iff: "those xs = None \<longleftrightarrow> None \<in> set xs"
  by (induction xs) (auto split: option.splits)

end
