(* ===== verification/JsValue.thy ===== *)
theory JsValue
  imports Prelude
begin

text \<open>
  The values that the application handles and the JavaScript operations that
  \<^verbatim>\<open>src/App.js\<close> applies to them: the result of \<^verbatim>\<open>response.json()\<close> is a JSON value,
  the state variables hold such values, \<^verbatim>\<open>null\<close> or \<^verbatim>\<open>undefined\<close>. Each operation is
  the meaning of one operator of the source (\<^verbatim>\<open>if (v)\<close>, \<^verbatim>\<open>v.k\<close>, \<^verbatim>\<open>v?.k\<close>,
  \<^verbatim>\<open>a || b\<close>, \<^verbatim>\<open>xs.find(f)\<close>, \<^verbatim>\<open>xs.map(f)\<close>, \<^verbatim>\<open>`${v}`\<close>, \<^verbatim>\<open>v.toString()\<close>,
  \<^verbatim>\<open>v.length\<close>), defined on every value, with a thrown \<^verbatim>\<open>TypeError\<close> as the
  left injection.
\<close>

section \<open>Values and errors\<close>

text \<open>
  A number of the engine is a double. It is \<open>JNum n\<close> when its value is the integer
  \<open>n\<close> and its magnitude is below \<open>2\<^sup>5\<^sup>3\<close> (identifiers, counts): the integers
  that a double holds exactly, which print as their decimal digits. Every other number
  of a response (a rating such as \<^verbatim>\<open>7.5\<close>, a number of larger magnitude, whose printed
  digits are not those of its value) is \<open>JDec t\<close>, where \<open>t\<close> is the text that the
  engine prints for it: the program tests numbers for truth, prints them and compares
  them, and never computes with them, and a parsed response holds neither \<^verbatim>\<open>NaN\<close>
  nor an infinity. \<open>JNum n\<close> with a larger \<open>n\<close> stands for no number of the engine
  (\<open>is_json\<close> excludes it). Strings are
  lists of characters; an object is the list of its own properties in insertion order,
  looked up by the first binding of a key.
\<close>

datatype jsval =
    JUndefined
  | JNull
  | JBool bool
  | JNum int
  | JDec string
  | JStr string
  | JArr "jsval list"
  | JObj "(string \<times> jsval) list"

text \<open>
  What a \<^verbatim>\<open>catch\<close> clause of the source can receive: a \<^verbatim>\<open>TypeError\<close> of an
  expression, the rejection of \<^verbatim>\<open>fetch\<close>, the rejection of \<^verbatim>\<open>response.json()\<close>.
\<close>

datatype js_error = TypeError | NetworkFailure | SyntaxError

type_synonym 'a js = "(js_error, 'a) result"

section \<open>Operators\<close>

text \<open>\<^verbatim>\<open>ToBoolean\<close>: the test of \<^verbatim>\<open>if (v)\<close>, \<^verbatim>\<open>!v\<close>, \<^verbatim>\<open>v ? a : b\<close>, \<^verbatim>\<open>v && e\<close>, \<^verbatim>\<open>v || e\<close>.\<close>

fun truthy :: "jsval \<Rightarrow> bool" where
  "truthy JUndefined = False"
| "truthy JNull = False"
| "truthy (JBool b) = b"
| "truthy (JNum n) = (n \<noteq> 0)"
| "truthy (JDec t) = True"
| "truthy (JStr s) = (s \<noteq> [])"
| "truthy (JArr xs) = True"
| "truthy (JObj kvs) = True"

text \<open>\<^verbatim>\<open>null\<close> and \<^verbatim>\<open>undefined\<close>: the values that \<^verbatim>\<open>?.\<close> short-circuits on.\<close>

fun nullish :: "jsval \<Rightarrow> bool" where
  "nullish JUndefined = True"
| "nullish JNull = True"
| "nullish v = False"

text \<open>An own property of an object; a missing one reads as \<^verbatim>\<open>undefined\<close>.\<close>

definition own_prop :: "(string \<times> jsval) list \<Rightarrow> string \<Rightarrow> jsval" where
  "own_prop kvs k = (case map_of kvs k of None \<Rightarrow> JUndefined | Some v \<Rightarrow> v)"

text \<open>
  \<^verbatim>\<open>v.k\<close> for a data property \<open>k\<close>: a \<^verbatim>\<open>TypeError\<close> on \<^verbatim>\<open>null\<close> and
  \<^verbatim>\<open>undefined\<close>, the own property of an object, \<^verbatim>\<open>undefined\<close> on every other
  value. The property names of the source (\<^verbatim>\<open>results\<close>, \<^verbatim>\<open>videos\<close>, \<^verbatim>\<open>type\<close>,
  \<^verbatim>\<open>key\<close>, \<^verbatim>\<open>id\<close>, \<^verbatim>\<open>title\<close>, \<^verbatim>\<open>poster_path\<close>, \<dots>) are neither array indices
  nor members of a built-in prototype, for which alone arrays, strings, numbers and
  booleans answer; \<^verbatim>\<open>length\<close> has its own definition below.
\<close>

fun get_prop :: "jsval \<Rightarrow> string \<Rightarrow> jsval js" where
  "get_prop JUndefined k = Inl TypeError"
| "get_prop JNull k = Inl TypeError"
| "get_prop (JObj kvs) k = Inr (own_prop kvs k)"
| "get_prop v k = Inr JUndefined"

text \<open>\<^verbatim>\<open>v?.k\<close>: \<^verbatim>\<open>undefined\<close> where \<^verbatim>\<open>v.k\<close> would throw.\<close>

fun opt_prop :: "jsval \<Rightarrow> string \<Rightarrow> jsval" where
  "opt_prop (JObj kvs) k = own_prop kvs k"
| "opt_prop v k = JUndefined"

text \<open>\<^verbatim>\<open>a || b\<close> on values that are already evaluated.\<close>

definition js_or :: "jsval \<Rightarrow> jsval \<Rightarrow> jsval" where
  "js_or a b = (if truthy a then a else b)"

text \<open>
  \<^verbatim>\<open>xs.find(f)\<close> on the elements of an array, for a callback that may throw: the
  elements are visited in order, the first one for which the callback answers true is
  the result, an exception of the callback ends the search, and \<^verbatim>\<open>undefined\<close> is the
  result when the array is exhausted.
\<close>

fun js_find :: "(jsval \<Rightarrow> bool js) \<Rightarrow> jsval list \<Rightarrow> jsval js" where
  "js_find f [] = Inr JUndefined"
| "js_find f (x # xs) =
     (case f x of
        Inl e \<Rightarrow> Inl e
      | Inr b \<Rightarrow> if b then Inr x else js_find f xs)"

text \<open>
  \<^verbatim>\<open>xs.map(f)\<close> on the elements of an array, for a callback that may throw: the
  results in the order of the elements, or the first exception.
\<close>

fun js_map :: "(jsval \<Rightarrow> 'a js) \<Rightarrow> jsval list \<Rightarrow> 'a list js" where
  "js_map f [] = Inr []"
| "js_map f (x # xs) = and_then (f x) (\<lambda>y. and_then (js_map f xs) (\<lambda>ys. Inr (y # ys)))"

text \<open>
  \<^verbatim>\<open>v.length\<close>: the number of elements of an array, the number of characters of a
  string, the own property of an object, \<^verbatim>\<open>undefined\<close> on numbers and booleans, a
  \<^verbatim>\<open>TypeError\<close> on \<^verbatim>\<open>null\<close> and \<^verbatim>\<open>undefined\<close>.
\<close>

fun js_length :: "jsval \<Rightarrow> jsval js" where
  "js_length (JArr xs) = Inr (JNum (int (length xs)))"
| "js_length (JStr s) = Inr (JNum (int (length s)))"
| "js_length v = get_prop v ''length''"

section \<open>Conversion to strings\<close>

text \<open>The decimal digits of a natural number, most significant first.\<close>

definition digit_char :: "nat \<Rightarrow> char" where
  "digit_char d = ''0123456789'' ! d"

fun show_nat :: "nat \<Rightarrow> string" where
  "show_nat n =
     (if n < 10 then [digit_char n]
      else show_nat (n div 10) @ [digit_char (n mod 10)])"

declare show_nat.simps [simp del]

definition show_int :: "int \<Rightarrow> string" where
  "show_int i = (if i < 0 then CHR ''-'' # show_nat (nat (- i)) else show_nat (nat i))"

text \<open>
  \<^verbatim>\<open>ToString\<close>, the conversion that a template literal \<^verbatim>\<open>`${v}`\<close> applies, in two
  parts: whether it returns, and the text that it returns.

  The conversion of an object calls the \<^verbatim>\<open>toString\<close> that the object answers to.
  A value of a response has no functions, so a property of that name of its own hides
  the method of the prototype with something that cannot be called, and the conversion
  throws a \<^verbatim>\<open>TypeError\<close> (the fallback, \<^verbatim>\<open>valueOf\<close>, is not callable either or
  returns the object itself). An array converts its elements other than \<^verbatim>\<open>null\<close>
  and \<^verbatim>\<open>undefined\<close>, and throws when one of them does. Every other value converts.
\<close>

fun printable :: "jsval \<Rightarrow> bool" where
  "printable (JArr xs) = list_all (\<lambda>x. nullish x \<or> printable x) xs"
| "printable (JObj kvs) = (''toString'' \<notin> set (map fst kvs))"
| "printable v = True"

text \<open>
  The text of a value that converts: the names of \<^verbatim>\<open>undefined\<close>, \<^verbatim>\<open>null\<close> and the
  booleans, the decimal digits of an integer (those of its value, for the integers
  below \<open>2\<^sup>5\<^sup>3\<close> that \<open>JNum\<close> holds), a string itself, the elements of an array
  joined by commas (\<^verbatim>\<open>null\<close> and \<^verbatim>\<open>undefined\<close> elements as the empty string), and
  the fixed text of an object.
\<close>

fun to_string :: "jsval \<Rightarrow> string" where
  "to_string JUndefined = ''undefined''"
| "to_string JNull = ''null''"
| "to_string (JBool b) = (if b then ''true'' else ''false'')"
| "to_string (JNum n) = show_int n"
| "to_string (JDec t) = t"
| "to_string (JStr s) = s"
| "to_string (JArr xs) = join '','' (map (\<lambda>x. if nullish x then [] else to_string x) xs)"
| "to_string (JObj kvs) = ''[object Object]''"

text \<open>
  The conversion itself, as the template literals of the source apply it
  (\<^verbatim>\<open>`${v}`\<close>), and the call \<^verbatim>\<open>v.toString()\<close>, which in addition throws on
  \<^verbatim>\<open>null\<close> and \<^verbatim>\<open>undefined\<close> and agrees with the conversion on every other value
  of a response. \<^verbatim>\<open>new Date(v)\<close> and the key of an element convert their argument
  under the same condition.
\<close>

definition js_string :: "jsval \<Rightarrow> string js" where
  "js_string v = (if printable v then Inr (to_string v) else Inl TypeError)"

definition call_toString :: "jsval \<Rightarrow> string js" where
  "call_toString v = (if nullish v then Inl TypeError else js_string v)"

section \<open>The values that a JSON text denotes\<close>

text \<open>
  \<^verbatim>\<open>response.json()\<close> yields no \<^verbatim>\<open>undefined\<close>, at any depth, each object has
  one binding per key, and an integer is a \<open>JNum\<close> only below \<open>2\<^sup>5\<^sup>3\<close>.
\<close>

fun is_json :: "jsval \<Rightarrow> bool" where
  "is_json JUndefined = False"
| "is_json (JArr xs) = list_all is_json xs"
| "is_json (JObj kvs) = (distinct (map fst kvs) \<and> list_all is_json (map snd kvs))"
| "is_json (JNum n) = (\<bar>n\<bar> < 2 ^ 53)"
| "is_json v = True"

section \<open>Reading decimal digits\<close>

text \<open>
  The value of a string of decimal digits, as the date library reads the year, the
  month and the day of a date; printing a number and reading its digits gives the
  number, from which printing is injective.
\<close>

definition digit_val :: "char \<Rightarrow> nat" where
  "digit_val c = of_char c - 48"

definition read_nat :: "string \<Rightarrow> nat" where
  "read_nat s = foldl (\<lambda>acc c. 10 * acc + digit_val c) 0 s"

lemmas show_simps = show_nat.simps digit_char_def show_int_def

section \<open>Facts about the operators\<close>

lemma nullish_not_truthy: "nullish v \<Longrightarrow> \<not> truthy v"
  by (cases v) simp_all

lemma get_prop_throws_iff: "throws (get_prop v k) \<longleftrightarrow> nullish v"
  by (cases v) simp_all

lemma get_prop_nullish: "nullish v \<Longrightarrow> get_prop v k = Inl TypeError"
  by (cases v) simp_all

lemma get_prop_opt_prop: "\<not> nullish v \<Longrightarrow> get_prop v k = Inr (opt_prop v k)"
  by (cases v) simp_all

lemma opt_prop_nullish: "nullish v \<Longrightarrow> opt_prop v k = JUndefined"
  by (cases v) simp_all

lemma own_prop_Nil [simp]: "own_prop [] k = JUndefined"
  by (simp add: own_prop_def)

lemma own_prop_Cons [simp]:
  "own_prop ((k', v) # kvs) k = (if k = k' then v else own_prop kvs k)"
  by (simp add: own_prop_def)

lemma js_or_simps [simp]:
  "truthy a \<Longrightarrow> js_or a b = a" "\<not> truthy a \<Longrightarrow> js_or a b = b"
  by (simp_all add: js_or_def)

section \<open>Facts about the conversion to strings\<close>

lemma js_string_simps [simp]:
  "printable v \<Longrightarrow> js_string v = Inr (to_string v)"
  "\<not> printable v \<Longrightarrow> js_string v = Inl TypeError"
  by (simp_all add: js_string_def)

lemma and_then_js_string:
  "and_then (js_string v) f = (if printable v then f (to_string v) else Inl TypeError)"
  by simp

lemma nullish_printable: "nullish v \<Longrightarrow> printable v"
  by (cases v) simp_all

lemma not_truthy_printable: "\<not> truthy v \<Longrightarrow> printable v"
  by (cases v) simp_all

section \<open>JSON values are closed under property access\<close>

lemma is_json_own_prop:
  "is_json (JObj kvs) \<Longrightarrow> own_prop kvs k = JUndefined \<or> is_json (own_prop kvs k)"
  by (auto simp: own_prop_def list_all_iff split: option.splits dest: map_of_SomeD)

lemma is_json_opt_prop: "is_json v \<Longrightarrow> opt_prop v k = JUndefined \<or> is_json (opt_prop v k)"
  by (cases v) (simp_all add: is_json_own_prop)

section \<open>Array search\<close>

text \<open>With a callback that does not throw on the elements, the search is \<open>List.find\<close>.\<close>

lemma js_find_total:
  "\<forall>x \<in> set xs. \<not> throws (f x) \<Longrightarrow>
   js_find f xs = Inr (case List.find (\<lambda>x. f x = Inr True) xs of None \<Rightarrow> JUndefined | Some x \<Rightarrow> x)"
proof (induction xs)
  case Nil
  show ?case by simp
next
  case (Cons x xs)
  then obtain b where "f x = Inr b" by (auto simp: not_throws_iff)
  with Cons show ?case by simp
qed

lemma js_find_first:
  "\<forall>y \<in> set ys. f y = Inr False \<Longrightarrow> f x = Inr True \<Longrightarrow> js_find f (ys @ x # zs) = Inr x"
  by (induction ys) simp_all

lemma js_find_none:
  "\<forall>y \<in> set ys. f y = Inr False \<Longrightarrow> js_find f ys = Inr JUndefined"
  by (induction ys) simp_all

lemma js_find_throws:
  "\<forall>y \<in> set ys. f y = Inr False \<Longrightarrow> f x = Inl e \<Longrightarrow> js_find f (ys @ x # zs) = Inl e"
  by (induction ys) simp_all

lemma js_map_Inr:
  "js_map f xs = Inr ys \<Longrightarrow> length ys = length xs \<and> (\<forall>i < length xs. f (xs ! i) = Inr (ys ! i))"
proof (induction xs arbitrary: ys)
  case Nil
  then show ?case by simp
next
  case (Cons x xs)
  then obtain y ys' where "f x = Inr y" "js_map f xs = Inr ys'" "ys = y # ys'"
    by (auto simp: and_then_eq_Inr_iff)
  with Cons.IH [of ys'] show ?case
    by (auto simp: nth_Cons split: nat.splits)
qed

lemma js_map_throws_iff: "throws (js_map f xs) \<longleftrightarrow> (\<exists>x \<in> set xs. throws (f x))"
  by (induction xs) (auto simp: throws_and_then not_throws_iff)

section \<open>Decimal printing\<close>

lemma digit_val_digit_char: "d < 10 \<Longrightarrow> digit_val (digit_char d) = d"
  by (auto dest!: lt_10_cases simp: digit_val_def digit_char_def)

lemma digit_char_is_digit: "d < 10 \<Longrightarrow> digit_char d \<in> set ''0123456789''"
  by (auto dest!: lt_10_cases simp: digit_char_def)

lemma read_nat_snoc: "read_nat (s @ [c]) = 10 * read_nat s + digit_val c"
  by (simp add: read_nat_def)

lemma read_show_nat: "read_nat (show_nat n) = n"
proof (induction n rule: show_nat.induct)
  case (1 n)
  show ?case
  proof (cases "n < 10")
    case True
    then show ?thesis
      by (subst show_nat.simps) (simp add: read_nat_def digit_val_digit_char)
  next
    case False
    with "1.IH" have "read_nat (show_nat (n div 10)) = n div 10" by simp
    with False show ?thesis
      by (subst show_nat.simps) (simp add: read_nat_snoc digit_val_digit_char)
  qed
qed

lemma show_nat_inj: "show_nat m = show_nat n \<Longrightarrow> m = n"
  by (metis read_show_nat)

lemma show_nat_digits: "set (show_nat n) \<subseteq> set ''0123456789''"
proof (induction n rule: show_nat.induct)
  case (1 n)
  show ?case
  proof (cases "n < 10")
    case True
    then show ?thesis
      using digit_char_is_digit [of n] by (subst show_nat.simps) simp
  next
    case False
    with "1.IH" have "set (show_nat (n div 10)) \<subseteq> set ''0123456789''" by simp
    with False show ?thesis
      using digit_char_is_digit [of "n mod 10"] by (subst show_nat.simps) simp
  qed
qed

lemma show_nat_nonempty: "show_nat n \<noteq> []"
  by (subst show_nat.simps) simp

lemma show_nat_no_minus: "hd (show_nat n) \<noteq> CHR ''-''"
  using show_nat_digits [of n] show_nat_nonempty [of n]
  by (cases "show_nat n") auto

lemma show_nat_neq_minus: "show_nat n \<noteq> CHR ''-'' # s"
  using show_nat_no_minus [of n] by auto

lemma show_int_inj: "show_int i = show_int j \<Longrightarrow> i = j"
  using show_nat_neq_minus [of "nat i"] show_nat_neq_minus [of "nat j"]
  by (auto simp: show_int_def split: if_splits dest!: show_nat_inj sym [of "CHR ''-'' # _"])

end
