(* ===== verification/Catalog.thy ===== *)
theory Catalog
  imports JsValue
begin

text \<open>
  The remote catalog as \<^verbatim>\<open>src/App.js\<close> uses it: the three request addresses that the
  handlers build, the ways in which \<^verbatim>\<open>await fetch(url)\<close> followed by
  \<^verbatim>\<open>await response.json()\<close> can end, and the reference shapes of the documents that
  the service sends. The service itself is not modelled: its answer is an input of the
  handler that resumes when the request settles.
\<close>

section \<open>Requests\<close>

text \<open>
  The function that issued a request decides which code resumes when it settles.
\<close>

datatype caller = SearchMovies | FetchPopularMovies | FetchMovieDetails

type_synonym request = "caller \<times> string"

text \<open>
  The addresses are template literals: the key and the query, which are strings, are
  spliced in as they are, and the movie identifier as the text that its conversion to a
  string gives, which is the argument of \<open>details_url\<close>.
\<close>

definition search_url :: "string \<Rightarrow> string \<Rightarrow> string" where
  "search_url api_key q =
     ''https://api.themoviedb.org/3/search/movie?api_key='' @ api_key @ ''&query='' @ q"

definition popular_url :: "string \<Rightarrow> string" where
  "popular_url api_key = ''https://api.themoviedb.org/3/movie/popular?api_key='' @ api_key"

definition details_url :: "string \<Rightarrow> string \<Rightarrow> string" where
  "details_url api_key movieId =
     ''https://api.themoviedb.org/3/movie/'' @ movieId @ ''?api_key='' @ api_key
       @ ''&append_to_response=videos,watch/providers''"

section \<open>Settled requests\<close>

text \<open>
  \<^verbatim>\<open>fetch\<close> rejects (no connection), or it resolves and \<^verbatim>\<open>response.json()\<close>
  rejects (the body is not JSON), or the body parses to a value. A response with an
  error status resolves like any other: its body is what counts.
\<close>

datatype fetch_result = Rejected | Unparsable | Body jsval

definition await_json :: "fetch_result \<Rightarrow> jsval js" where
  "await_json r =
     (case r of
        Rejected \<Rightarrow> Inl NetworkFailure
      | Unparsable \<Rightarrow> Inl SyntaxError
      | Body data \<Rightarrow> Inr data)"

section \<open>Reference shapes of the documents\<close>

text \<open>
  What the service documents for its answers, as far as the application reads them: a
  page of results is an object whose \<^verbatim>\<open>results\<close> is an array of movies, each with
  an \<^verbatim>\<open>id\<close>, and with an \<^verbatim>\<open>id\<close>, a \<^verbatim>\<open>poster_path\<close> and a
  \<^verbatim>\<open>release_date\<close> that convert to strings; a detail document is an object whose
  \<^verbatim>\<open>videos.results\<close>, when present, is an array of objects with a string
  \<^verbatim>\<open>key\<close>, and whose list of subscription providers for the region, when present,
  is an array of entries other than \<^verbatim>\<open>null\<close> with a \<^verbatim>\<open>provider_id\<close> and a
  \<^verbatim>\<open>logo_path\<close> that convert to strings. These are the weakest shapes with which
  the application works, far weaker than the types that the service documents. The
  predicates are hypotheses of theorems about well-behaved answers; the handlers are
  defined on every \<open>fetch_result\<close>.
\<close>

fun is_object :: "jsval \<Rightarrow> bool" where
  "is_object (JObj kvs) = True"
| "is_object v = False"

fun is_array :: "jsval \<Rightarrow> bool" where
  "is_array (JArr xs) = True"
| "is_array v = False"

fun elements :: "jsval \<Rightarrow> jsval list" where
  "elements (JArr xs) = xs"
| "elements v = []"

definition object_array :: "jsval \<Rightarrow> bool" where
  "object_array v \<longleftrightarrow> is_array v \<and> list_all is_object (elements v)"

definition has_id :: "jsval \<Rightarrow> bool" where
  "has_id v \<longleftrightarrow> \<not> nullish (opt_prop v ''id'')"

definition listable :: "jsval \<Rightarrow> bool" where
  "listable v \<longleftrightarrow>
     has_id v \<and> printable (opt_prop v ''id'') \<and> printable (opt_prop v ''poster_path'') \<and>
     printable (opt_prop v ''release_date'')"

definition movie_array :: "jsval \<Rightarrow> bool" where
  "movie_array v \<longleftrightarrow> is_array v \<and> list_all listable (elements v)"

definition linkable :: "jsval \<Rightarrow> bool" where
  "linkable v \<longleftrightarrow>
     \<not> nullish v \<and> printable (opt_prop v ''provider_id'') \<and>
     printable (opt_prop v ''logo_path'')"

definition link_array :: "jsval \<Rightarrow> bool" where
  "link_array v \<longleftrightarrow> is_array v \<and> list_all linkable (elements v)"

definition results_page :: "jsval \<Rightarrow> bool" where
  "results_page data \<longleftrightarrow> is_json data \<and> is_object data \<and> movie_array (opt_prop data ''results'')"

text \<open>The two paths of a detail document that the application reads.\<close>

definition video_results :: "jsval \<Rightarrow> jsval" where
  "video_results data = opt_prop (opt_prop data ''videos'') ''results''"

definition us_flatrate :: "jsval \<Rightarrow> jsval" where
  "us_flatrate data =
     opt_prop (opt_prop (opt_prop (opt_prop data ''watch/providers'') ''results'') ''US'') ''flatrate''"

fun is_string :: "jsval \<Rightarrow> bool" where
  "is_string (JStr s) = True"
| "is_string v = False"

fun is_number :: "jsval \<Rightarrow> bool" where
  "is_number (JNum n) = True"
| "is_number v = False"

definition numeric_id :: "jsval \<Rightarrow> bool" where
  "numeric_id item \<longleftrightarrow> is_number (opt_prop item ''id'')"

definition string_or_absent :: "jsval \<Rightarrow> bool" where
  "string_or_absent v \<longleftrightarrow> nullish v \<or> is_string v"

definition detail_document :: "jsval \<Rightarrow> bool" where
  "detail_document data \<longleftrightarrow>
     is_json data \<and> is_object data \<and>
     (nullish (video_results data) \<or>
        object_array (video_results data) \<and>
        list_all (\<lambda>v. string_or_absent (opt_prop v ''key'')) (elements (video_results data))) \<and>
     (nullish (us_flatrate data) \<or> link_array (us_flatrate data))"

section \<open>Facts\<close>

lemma await_json_simps [simp]:
  "await_json Rejected = Inl NetworkFailure"
  "await_json Unparsable = Inl SyntaxError"
  "await_json (Body data) = Inr data"
  by (simp_all add: await_json_def)

lemma is_object_not_nullish: "is_object v \<Longrightarrow> \<not> nullish v"
  by (cases v) simp_all

lemma is_array_truthy: "is_array v \<Longrightarrow> truthy v"
  by (cases v) simp_all

lemma object_array_JArr [simp]: "object_array (JArr xs) \<longleftrightarrow> list_all is_object xs"
  by (simp add: object_array_def)

lemma object_array_elements:
  "object_array v \<Longrightarrow> v = JArr (elements v) \<and> list_all (\<lambda>x. \<not> nullish x) (elements v)"
  by (cases v) (auto simp: object_array_def list_all_iff is_object_not_nullish)

lemma elements_nullish [simp]: "nullish v \<Longrightarrow> elements v = []"
  by (cases v) simp_all

lemma has_id_is_object: "has_id v \<Longrightarrow> is_object v"
  by (cases v) (simp_all add: has_id_def)

lemma listable_has_id: "listable v \<Longrightarrow> has_id v"
  by (simp add: listable_def)

lemma listable_printable:
  assumes "listable v"
  shows "printable (opt_prop v ''id'')" and "printable (opt_prop v ''poster_path'')"
    and "printable (opt_prop v ''release_date'')"
  using assms by (simp_all add: listable_def)

lemma listable_is_object: "listable v \<Longrightarrow> is_object v"
  by (simp add: listable_def has_id_is_object)

lemma movie_array_JArr [simp]: "movie_array (JArr xs) \<longleftrightarrow> list_all listable xs"
  by (simp add: movie_array_def)

lemma link_array_JArr [simp]: "link_array (JArr xs) \<longleftrightarrow> list_all linkable xs"
  by (simp add: link_array_def)

lemma link_array_is_array: "link_array v \<Longrightarrow> is_array v"
  by (simp add: link_array_def)

lemma link_array_elements: "link_array v \<Longrightarrow> v = JArr (elements v)"
  by (cases v) (simp_all add: link_array_def)

lemma is_string_printable: "is_string v \<Longrightarrow> printable v"
  by (cases v) simp_all

lemma is_number_printable: "is_number v \<Longrightarrow> printable v"
  by (cases v) simp_all

lemma string_or_absent_printable: "string_or_absent v \<Longrightarrow> printable v"
  by (auto simp: string_or_absent_def nullish_printable is_string_printable)

lemma movie_array_is_array: "movie_array v \<Longrightarrow> is_array v"
  by (simp add: movie_array_def)

lemma results_page_truthy: "results_page data \<Longrightarrow> truthy (opt_prop data ''results'')"
  by (simp add: results_page_def is_array_truthy movie_array_is_array)

lemma is_number_iff: "is_number v \<longleftrightarrow> (\<exists>n. v = JNum n)"
  by (cases v) simp_all

lemma numeric_id_has_id: "numeric_id item \<Longrightarrow> has_id item"
  by (auto simp: numeric_id_def has_id_def is_number_iff)

lemma to_string_inj_on_numbers:
  "is_number v \<Longrightarrow> is_number w \<Longrightarrow> to_string v = to_string w \<Longrightarrow> v = w"
  by (auto simp: is_number_iff dest: show_int_inj)

lemma question_mark_not_in_number: "CHR ''?'' \<notin> set (show_int n)"
  using show_nat_digits [of "nat n"] show_nat_digits [of "nat (- n)"]
  by (auto simp: show_int_def)

section \<open>Properties of the request addresses\<close>

lemma details_url_inj:
  assumes "details_url k (show_int i) = details_url k (show_int j)"
  shows "i = j"
proof -
  from assms have "show_int i @ ''?'' @ rest = show_int j @ ''?'' @ rest"
    if "rest = ''api_key='' @ k @ ''&append_to_response=videos,watch/providers''" for rest
    using that by (simp add: details_url_def)
  then have "show_int i = show_int j"
    using question_mark_not_in_number [of i] question_mark_not_in_number [of j]
    by (auto simp: append_eq_append_conv2 append_eq_Cons_conv Cons_eq_append_conv)
  then show ?thesis by (rule show_int_inj)
qed

text \<open>
  C36. The addresses carry the identifier and the query as they are. The texts of two
  numeric identifiers give the same detail address only when the identifiers are equal,
  so the details of one movie are never asked for under the address of another. The
  search address is the fixed prefix followed by the characters of the query without
  any encoding, so a query that contains \<^verbatim>\<open>&\<close> adds parameters of its own to the
  request.
\<close>

theorem addresses_carry_id_and_query:
  "(details_url k (to_string (JNum i)) = details_url k (to_string (JNum j)) \<longleftrightarrow> i = j) \<and>
   js_string (JNum i) = Inr (to_string (JNum i)) \<and>
   details_url ''k'' (to_string (JNum 12)) =
     ''https://api.themoviedb.org/3/movie/12?api_key=k&append_to_response=videos,watch/providers'' \<and>
   search_url k (q @ ''&'' @ extra) = search_url k q @ ''&'' @ extra \<and>
   search_url ''k'' ''a&page=2'' =
     ''https://api.themoviedb.org/3/search/movie?api_key=k&query=a&page=2''"
  by (auto dest: details_url_inj) (simp_all add: search_url_def details_url_def show_simps)

end
