(* ===== verification/ViewState.thy ===== *)
theory ViewState
  imports Catalog
begin

text \<open>
  The state of the screen: the eight \<^verbatim>\<open>useState\<close> variables of \<^verbatim>\<open>App\<close>, with the
  values that the source initialises them with. A setter call \<^verbatim>\<open>setX(v)\<close> of the
  source is the record update \<open>s\<lparr>x := v\<rparr>\<close>: every setter call of \<^verbatim>\<open>src/App.js\<close>
  passes a value, none passes an updater function, so the order of the calls within a
  handler only matters where an exception can come between them.
\<close>

section \<open>State\<close>

text \<open>
  \<open>query\<close> and \<open>error\<close> only ever hold strings and are kept as such; the others
  hold what a response or the caller provides, and are values.
\<close>

record view_state =
  query :: string
  movies :: jsval
  loading :: bool
  error :: string
  selectedMovie :: jsval
  modalVisible :: bool
  trailerUrl :: jsval
  downloadLinks :: jsval

definition initial_state :: view_state where
  "initial_state =
     \<lparr> query = [], movies = JArr [], loading = False, error = [],
       selectedMovie = JNull, modalVisible = False, trailerUrl = JNull,
       downloadLinks = JArr [] \<rparr>"

section \<open>Well-formed states\<close>

text \<open>
  The state that the render functions can draw without an exception, with answers of
  the documented shapes: the list is an array of movies that can be listed, the links
  are an array of providers that can be drawn, the trailer is a string or absent, the
  selected movie is a movie that can be listed or absent.
\<close>

definition well_formed :: "view_state \<Rightarrow> bool" where
  "well_formed s \<longleftrightarrow>
     movie_array (movies s) \<and>
     (selectedMovie s = JNull \<or> listable (selectedMovie s)) \<and>
     string_or_absent (trailerUrl s) \<and>
     link_array (downloadLinks s)"

section \<open>Facts\<close>

lemma initial_state_simps [simp]:
  "query initial_state = []"
  "movies initial_state = JArr []"
  "loading initial_state = False"
  "error initial_state = []"
  "selectedMovie initial_state = JNull"
  "modalVisible initial_state = False"
  "trailerUrl initial_state = JNull"
  "downloadLinks initial_state = JArr []"
  by (simp_all add: initial_state_def)

lemma well_formed_initial: "well_formed initial_state"
  by (simp add: well_formed_def string_or_absent_def)

end
