(* ===== verification/Handlers.thy ===== *)
theory Handlers
  imports ViewState
begin

text \<open>
  The handlers of \<^verbatim>\<open>App\<close> in \<^verbatim>\<open>src/App.js\<close>. An \<^verbatim>\<open>async\<close> function runs in
  segments that end at an \<^verbatim>\<open>await\<close>: the first segment runs when the handler is
  called and ends by issuing a request; the second one runs when the request has
  settled and receives its outcome. Each segment is one definition, a function from the
  state at its start to the state at its end, together with what it hands to the
  environment (a request, a logged error). \<^verbatim>\<open>fetch\<close> and \<^verbatim>\<open>response.json()\<close> are
  awaited back to back with no state access between them, so both are one outcome.
  The API key is a parameter of the handlers that build an address.
\<close>

section \<open>Search and popular list\<close>

text \<open>
  \<^verbatim>\<open>searchMovies\<close> up to its \<^verbatim>\<open>fetch\<close> call: nothing happens on an empty query;
  otherwise the loading flag is set and the search request is issued with the query of
  the state.
\<close>

definition searchMovies :: "string \<Rightarrow> view_state \<Rightarrow> view_state \<times> request option" where
  "searchMovies api_key s =
     (if query s = [] then (s, None)
      else (s\<lparr>loading := True\<rparr>, Some (SearchMovies, search_url api_key (query s))))"

text \<open>
  The body of the \<^verbatim>\<open>try\<close> block of both list handlers after the document has
  arrived: reading \<^verbatim>\<open>data.results\<close> throws on \<^verbatim>\<open>null\<close>; a truthy value replaces
  the list and clears the error; any other value changes nothing.
\<close>

definition store_results :: "jsval \<Rightarrow> view_state \<Rightarrow> view_state js" where
  "store_results data s =
     and_then (get_prop data ''results'') (\<lambda>results.
       Inr (if truthy results then s\<lparr>movies := results, error := []\<rparr> else s))"

text \<open>
  \<^verbatim>\<open>try\<close>, \<^verbatim>\<open>catch\<close> and \<^verbatim>\<open>finally\<close> of a list handler, with the message of its
  \<^verbatim>\<open>catch\<close> clause: an exception anywhere in the \<^verbatim>\<open>try\<close> block sets the error
  message, and the loading flag is cleared on every path.
\<close>

definition list_settled :: "string \<Rightarrow> fetch_result \<Rightarrow> view_state \<Rightarrow> view_state" where
  "list_settled message r s =
     (case and_then (await_json r) (\<lambda>data. store_results data s) of
        Inl err \<Rightarrow> s\<lparr>error := message\<rparr>
      | Inr s' \<Rightarrow> s')
     \<lparr>loading := False\<rparr>"

definition searchMovies_settled :: "fetch_result \<Rightarrow> view_state \<Rightarrow> view_state" where
  "searchMovies_settled = list_settled ''Failed to fetch movies''"

text \<open>\<^verbatim>\<open>fetchPopularMovies\<close>: no guard, a fixed address, its own message.\<close>

definition fetchPopularMovies :: "string \<Rightarrow> view_state \<Rightarrow> view_state \<times> request option" where
  "fetchPopularMovies api_key s =
     (s\<lparr>loading := True\<rparr>, Some (FetchPopularMovies, popular_url api_key))"

definition fetchPopularMovies_settled :: "fetch_result \<Rightarrow> view_state \<Rightarrow> view_state" where
  "fetchPopularMovies_settled = list_settled ''Failed to fetch popular movies''"

text \<open>
  The outcomes on which the \<^verbatim>\<open>catch\<close> clause of a list handler runs: a rejected
  request, a body that is not JSON, the document \<^verbatim>\<open>null\<close>.
\<close>

definition list_fails :: "fetch_result \<Rightarrow> bool" where
  "list_fails r \<longleftrightarrow> (case r of Body data \<Rightarrow> nullish data | _ \<Rightarrow> True)"

section \<open>Details of a movie\<close>

text \<open>The callback of the trailer search: \<^verbatim>\<open>vid => vid.type === 'Trailer'\<close>.\<close>

definition is_trailer :: "jsval \<Rightarrow> bool js" where
  "is_trailer vid = and_then (get_prop vid ''type'') (\<lambda>t. Inr (t = JStr ''Trailer''))"

text \<open>
  \<^verbatim>\<open>data.videos?.results?.find(...)\<close>: reading \<^verbatim>\<open>data.videos\<close> throws on
  \<^verbatim>\<open>null\<close>; the chain ends with \<^verbatim>\<open>undefined\<close> when \<^verbatim>\<open>videos\<close> or its
  \<^verbatim>\<open>results\<close> is \<^verbatim>\<open>null\<close> or \<^verbatim>\<open>undefined\<close>; on an array the search runs; any other
  value has no \<^verbatim>\<open>find\<close> method, and the call throws.
\<close>

definition find_trailer :: "jsval \<Rightarrow> jsval js" where
  "find_trailer data =
     and_then (get_prop data ''videos'') (\<lambda>videos.
       let results = opt_prop videos ''results'' in
       if nullish results then Inr JUndefined
       else (case results of
               JArr vids \<Rightarrow> js_find is_trailer vids
             | _ \<Rightarrow> Inl TypeError))"

text \<open>
  \<^verbatim>\<open>data['watch/providers']?.results?.US?.flatrate || []\<close>: the first access is a
  plain one, each later step ends the chain on \<^verbatim>\<open>null\<close> and \<^verbatim>\<open>undefined\<close>, and a
  falsy outcome is replaced by the empty array.
\<close>

definition flatrate_providers :: "jsval \<Rightarrow> jsval js" where
  "flatrate_providers data =
     and_then (get_prop data ''watch/providers'') (\<lambda>wp.
       Inr (js_or (opt_prop (opt_prop (opt_prop wp ''results'') ''US'') ''flatrate'') (JArr [])))"

text \<open>
  The statements of the \<^verbatim>\<open>try\<close> block of \<^verbatim>\<open>fetchMovieDetails\<close> after the document
  has arrived, in their order: the trailer is searched and its key stored, then the
  providers are read and stored. The result is the state at the end of the block or at
  the exception, with the exception.
\<close>

definition store_details :: "jsval \<Rightarrow> view_state \<Rightarrow> view_state \<times> js_error option" where
  "store_details data s =
     (case find_trailer data of
        Inl err \<Rightarrow> (s, Some err)
      | Inr trailer \<Rightarrow>
          let s1 = s\<lparr>trailerUrl := opt_prop trailer ''key''\<rparr> in
          (case flatrate_providers data of
             Inl err \<Rightarrow> (s1, Some err)
           | Inr links \<Rightarrow> (s1\<lparr>downloadLinks := links\<rparr>, None)))"

text \<open>
  \<^verbatim>\<open>fetchMovieDetails\<close> up to its \<^verbatim>\<open>fetch\<close> call (no state is touched), and from
  there on: the \<^verbatim>\<open>catch\<close> clause passes the exception to \<^verbatim>\<open>console.error\<close> and
  sets nothing. The address is built inside the \<^verbatim>\<open>try\<close> block: for an identifier
  whose conversion to a string throws, the error is the result (the \<^verbatim>\<open>catch\<close>
  clause logs it), and no request is issued.
\<close>

definition fetchMovieDetails :: "string \<Rightarrow> jsval \<Rightarrow> request js" where
  "fetchMovieDetails api_key movieId =
     and_then (js_string movieId) (\<lambda>movieId_text.
       Inr (FetchMovieDetails, details_url api_key movieId_text))"

definition fetchMovieDetails_settled ::
    "fetch_result \<Rightarrow> view_state \<Rightarrow> view_state \<times> js_error option" where
  "fetchMovieDetails_settled r s =
     (case await_json r of
        Inl err \<Rightarrow> (s, Some err)
      | Inr data \<Rightarrow> store_details data s)"

section \<open>The modal\<close>

text \<open>
  \<^verbatim>\<open>openMovieModal\<close> up to the \<^verbatim>\<open>await\<close>: the movie is selected and the modal
  shown, then \<^verbatim>\<open>movie.id\<close> is read, which throws on \<^verbatim>\<open>null\<close> and \<^verbatim>\<open>undefined\<close>
  after the two setters have run, and \<^verbatim>\<open>fetchMovieDetails\<close> is called with it.
  Nothing follows the \<^verbatim>\<open>await\<close>. The second component of the result is the
  exception that leaves \<^verbatim>\<open>openMovieModal\<close> (the outer \<open>Inl\<close>), or what
  \<^verbatim>\<open>fetchMovieDetails\<close> did: the error that it caught and logged, or the request.
\<close>

definition openMovieModal ::
    "string \<Rightarrow> jsval \<Rightarrow> view_state \<Rightarrow> view_state \<times> request js js" where
  "openMovieModal api_key movie s =
     (s\<lparr>selectedMovie := movie, modalVisible := True\<rparr>,
      and_then (get_prop movie ''id'') (\<lambda>movieId. Inr (fetchMovieDetails api_key movieId)))"

text \<open>The handler of the Close button and of the request to close the modal.\<close>

definition closeModal :: "view_state \<Rightarrow> view_state" where
  "closeModal s = s\<lparr>modalVisible := False\<rparr>"

text \<open>\<^verbatim>\<open>onChangeText={setQuery}\<close>: the text of the input field becomes the query.\<close>

definition setQuery :: "string \<Rightarrow> view_state \<Rightarrow> view_state" where
  "setQuery text s = s\<lparr>query := text\<rparr>"

section \<open>Reference definitions\<close>

text \<open>
  The trailer of a list of videos as the specification describes it: the first video
  whose type is \<^verbatim>\<open>Trailer\<close>, if there is one.
\<close>

definition first_trailer :: "jsval list \<Rightarrow> jsval" where
  "first_trailer vids =
     (case List.find (\<lambda>v. opt_prop v ''type'' = JStr ''Trailer'') vids of
        None \<Rightarrow> JUndefined
      | Some v \<Rightarrow> v)"

text \<open>Documents used as concrete inputs.\<close>

definition batman_page :: jsval where
  "batman_page = JObj [(''page'', JNum 1), (''results'',
     JArr [JObj [(''id'', JNum 268), (''title'', JStr ''Batman''),
                 (''release_date'', JStr ''1989-06-23''),
                 (''vote_average'', JDec ''7.2'')]])]"

definition unauthorized :: jsval where
  "unauthorized = JObj [(''status_code'', JNum 7),
     (''status_message'', JStr ''Invalid API key: You must be granted a valid key.''),
     (''success'', JBool False)]"

definition teaser_then_trailer :: jsval where
  "teaser_then_trailer = JObj [(''id'', JNum 5), (''videos'', JObj [(''results'',
     JArr [JObj [(''type'', JStr ''Teaser''), (''key'', JStr ''x'')],
           JObj [(''type'', JStr ''Trailer''), (''key'', JStr ''y'')]])])]"

definition teaser_only :: jsval where
  "teaser_only = JObj [(''id'', JNum 5), (''videos'', JObj [(''results'',
     JArr [JObj [(''type'', JStr ''Teaser''), (''key'', JStr ''x'')],
           JObj [(''type'', JStr ''Clip''), (''key'', JStr ''z'')]])])]"

definition videos_not_a_list :: jsval where
  "videos_not_a_list = JObj [(''id'', JNum 5), (''videos'', JObj [(''results'', JStr ''none'')])]"

lemmas handler_unfolds [handler_defs] =
  searchMovies_def store_results_def list_settled_def searchMovies_settled_def
  fetchPopularMovies_def fetchPopularMovies_settled_def is_trailer_def find_trailer_def
  flatrate_providers_def store_details_def fetchMovieDetails_def
  fetchMovieDetails_settled_def openMovieModal_def closeModal_def setQuery_def

section \<open>Facts about the list handlers\<close>

lemma store_results_simps:
  "nullish data \<Longrightarrow> store_results data s = Inl TypeError"
  "\<not> nullish data \<Longrightarrow> truthy (opt_prop data ''results'') \<Longrightarrow>
     store_results data s = Inr (s\<lparr>movies := opt_prop data ''results'', error := []\<rparr>)"
  "\<not> nullish data \<Longrightarrow> \<not> truthy (opt_prop data ''results'') \<Longrightarrow> store_results data s = Inr s"
  by (simp_all add: store_results_def get_prop_nullish get_prop_opt_prop)

lemma list_settled_failure:
  "list_fails r \<Longrightarrow> list_settled message r s = s\<lparr>error := message, loading := False\<rparr>"
  by (cases r) (simp_all add: list_settled_def list_fails_def store_results_simps)

lemma list_settled_success:
  "\<not> nullish data \<Longrightarrow> truthy (opt_prop data ''results'') \<Longrightarrow>
   list_settled message (Body data) s =
     s\<lparr>movies := opt_prop data ''results'', error := [], loading := False\<rparr>"
  by (simp add: list_settled_def store_results_simps)

lemma list_settled_no_results:
  "\<not> nullish data \<Longrightarrow> \<not> truthy (opt_prop data ''results'') \<Longrightarrow>
   list_settled message (Body data) s = s\<lparr>loading := False\<rparr>"
  by (simp add: list_settled_def store_results_simps)

lemma list_settled_cases [case_names failure success ignored]:
  obtains
    "list_fails r" "list_settled message r s = s\<lparr>error := message, loading := False\<rparr>"
  | data where "r = Body data" "\<not> nullish data" "truthy (opt_prop data ''results'')"
      "list_settled message r s =
         s\<lparr>movies := opt_prop data ''results'', error := [], loading := False\<rparr>"
  | data where "r = Body data" "\<not> nullish data" "\<not> truthy (opt_prop data ''results'')"
      "list_settled message r s = s\<lparr>loading := False\<rparr>"
proof (cases "list_fails r")
  case True
  then show ?thesis using that(1) by (simp add: list_settled_failure)
next
  case False
  then obtain data where r: "r = Body data" "\<not> nullish data"
    by (cases r) (simp_all add: list_fails_def)
  then show ?thesis
    using that(2,3) by (cases "truthy (opt_prop data ''results'')")
      (simp_all add: list_settled_success list_settled_no_results)
qed

lemma list_settled_loading: "loading (list_settled message r s) = False"
  by (rule list_settled_cases [of r message s]) simp_all

lemma list_settled_frame [frame]:
  "query (list_settled message r s) = query s"
  "selectedMovie (list_settled message r s) = selectedMovie s"
  "modalVisible (list_settled message r s) = modalVisible s"
  "trailerUrl (list_settled message r s) = trailerUrl s"
  "downloadLinks (list_settled message r s) = downloadLinks s"
  by (rule list_settled_cases [of r message s]; simp)+

lemma settled_frame [frame]:
  "query (searchMovies_settled r s) = query s"
  "selectedMovie (searchMovies_settled r s) = selectedMovie s"
  "modalVisible (searchMovies_settled r s) = modalVisible s"
  "trailerUrl (searchMovies_settled r s) = trailerUrl s"
  "downloadLinks (searchMovies_settled r s) = downloadLinks s"
  "query (fetchPopularMovies_settled r s) = query s"
  "selectedMovie (fetchPopularMovies_settled r s) = selectedMovie s"
  "modalVisible (fetchPopularMovies_settled r s) = modalVisible s"
  "trailerUrl (fetchPopularMovies_settled r s) = trailerUrl s"
  "downloadLinks (fetchPopularMovies_settled r s) = downloadLinks s"
  by (simp_all add: searchMovies_settled_def fetchPopularMovies_settled_def list_settled_frame)

lemma searchMovies_fields [frame]:
  "query (fst (searchMovies k s)) = query s"
  "movies (fst (searchMovies k s)) = movies s"
  "loading (fst (searchMovies k s)) \<longleftrightarrow> loading s \<or> query s \<noteq> []"
  "error (fst (searchMovies k s)) = error s"
  "selectedMovie (fst (searchMovies k s)) = selectedMovie s"
  "modalVisible (fst (searchMovies k s)) = modalVisible s"
  "trailerUrl (fst (searchMovies k s)) = trailerUrl s"
  "downloadLinks (fst (searchMovies k s)) = downloadLinks s"
  by (simp_all add: searchMovies_def)

lemma fetchPopularMovies_fields [frame]:
  "query (fst (fetchPopularMovies k s)) = query s"
  "movies (fst (fetchPopularMovies k s)) = movies s"
  "loading (fst (fetchPopularMovies k s))"
  "error (fst (fetchPopularMovies k s)) = error s"
  "selectedMovie (fst (fetchPopularMovies k s)) = selectedMovie s"
  "modalVisible (fst (fetchPopularMovies k s)) = modalVisible s"
  "trailerUrl (fst (fetchPopularMovies k s)) = trailerUrl s"
  "downloadLinks (fst (fetchPopularMovies k s)) = downloadLinks s"
  by (simp_all add: fetchPopularMovies_def)

lemma openMovieModal_fields [frame]:
  "query (fst (openMovieModal k item s)) = query s"
  "movies (fst (openMovieModal k item s)) = movies s"
  "loading (fst (openMovieModal k item s)) = loading s"
  "error (fst (openMovieModal k item s)) = error s"
  "selectedMovie (fst (openMovieModal k item s)) = item"
  "modalVisible (fst (openMovieModal k item s))"
  "trailerUrl (fst (openMovieModal k item s)) = trailerUrl s"
  "downloadLinks (fst (openMovieModal k item s)) = downloadLinks s"
  by (simp_all add: openMovieModal_def)

lemma fetchMovieDetails_eq:
  "fetchMovieDetails k movieId =
     (if printable movieId then Inr (FetchMovieDetails, details_url k (to_string movieId))
      else Inl TypeError)"
  by (simp add: fetchMovieDetails_def)

lemma openMovieModal_eq:
  "openMovieModal k movie s =
     (s\<lparr>selectedMovie := movie, modalVisible := True\<rparr>,
      if nullish movie then Inl TypeError
      else Inr (fetchMovieDetails k (opt_prop movie ''id'')))"
  by (simp add: openMovieModal_def get_prop_opt_prop get_prop_nullish)

lemma closeModal_fields [frame]:
  "query (closeModal s) = query s"
  "movies (closeModal s) = movies s"
  "loading (closeModal s) = loading s"
  "error (closeModal s) = error s"
  "selectedMovie (closeModal s) = selectedMovie s"
  "\<not> modalVisible (closeModal s)"
  "trailerUrl (closeModal s) = trailerUrl s"
  "downloadLinks (closeModal s) = downloadLinks s"
  by (simp_all add: closeModal_def)

lemma setQuery_fields [frame]:
  "query (setQuery t s) = t"
  "movies (setQuery t s) = movies s"
  "loading (setQuery t s) = loading s"
  "error (setQuery t s) = error s"
  "selectedMovie (setQuery t s) = selectedMovie s"
  "modalVisible (setQuery t s) = modalVisible s"
  "trailerUrl (setQuery t s) = trailerUrl s"
  "downloadLinks (setQuery t s) = downloadLinks s"
  by (simp_all add: setQuery_def)

lemma error_list_settled: "error (list_settled message r s) \<in> {[], message, error s}"
  by (rule list_settled_cases [of r message s]) simp_all

lemma list_handlers_loading [simp]:
  "\<not> loading (searchMovies_settled r s)" "\<not> loading (fetchPopularMovies_settled r s)"
  by (simp_all add: searchMovies_settled_def fetchPopularMovies_settled_def list_settled_loading)

lemma error_settled:
  "error (searchMovies_settled r s) \<in> {[], ''Failed to fetch movies'', error s}"
  "error (fetchPopularMovies_settled r s) \<in> {[], ''Failed to fetch popular movies'', error s}"
  unfolding searchMovies_settled_def fetchPopularMovies_settled_def
  by (rule error_list_settled)+

section \<open>Facts about the detail handler\<close>

lemma flatrate_providers_eq:
  "\<not> nullish data \<Longrightarrow> flatrate_providers data = Inr (js_or (us_flatrate data) (JArr []))"
  by (simp add: flatrate_providers_def us_flatrate_def get_prop_opt_prop)

lemma find_trailer_not_nullish: "find_trailer data = Inr t \<Longrightarrow> \<not> nullish data"
  by (cases data) (simp_all add: find_trailer_def)

lemma find_trailer_eq:
  "\<not> nullish data \<Longrightarrow>
   find_trailer data =
     (if nullish (video_results data) then Inr JUndefined
      else case video_results data of JArr vids \<Rightarrow> js_find is_trailer vids | _ \<Rightarrow> Inl TypeError)"
  by (simp add: find_trailer_def video_results_def get_prop_opt_prop Let_def)

lemma store_details_eq:
  "store_details data s =
     (case find_trailer data of
        Inl err \<Rightarrow> (s, Some err)
      | Inr trailer \<Rightarrow>
          (s\<lparr>trailerUrl := opt_prop trailer ''key'',
             downloadLinks := js_or (us_flatrate data) (JArr [])\<rparr>, None))"
  by (auto simp: store_details_def Let_def flatrate_providers_eq
      dest: find_trailer_not_nullish split: sum.splits)

lemma is_trailer_simps:
  "nullish vid \<Longrightarrow> is_trailer vid = Inl TypeError"
  "\<not> nullish vid \<Longrightarrow> is_trailer vid = Inr (opt_prop vid ''type'' = JStr ''Trailer'')"
  by (simp_all add: is_trailer_def get_prop_nullish get_prop_opt_prop)

lemma fetchMovieDetails_settled_frame [frame]:
  "query (fst (fetchMovieDetails_settled r s)) = query s"
  "movies (fst (fetchMovieDetails_settled r s)) = movies s"
  "loading (fst (fetchMovieDetails_settled r s)) = loading s"
  "error (fst (fetchMovieDetails_settled r s)) = error s"
  "selectedMovie (fst (fetchMovieDetails_settled r s)) = selectedMovie s"
  "modalVisible (fst (fetchMovieDetails_settled r s)) = modalVisible s"
  by (simp_all add: fetchMovieDetails_settled_def store_details_eq split: sum.splits)

lemma js_find_is_trailer:
  assumes "list_all (\<lambda>v. \<not> nullish v) vids"
  shows "js_find is_trailer vids = Inr (first_trailer vids)"
proof -
  from assms have "\<forall>x \<in> set vids. \<not> throws (is_trailer x)"
    by (simp add: list_all_iff is_trailer_simps)
  then have "js_find is_trailer vids =
      Inr (case List.find (\<lambda>x. is_trailer x = Inr True) vids of None \<Rightarrow> JUndefined | Some x \<Rightarrow> x)"
    by (rule js_find_total)
  moreover have "List.find (\<lambda>x. is_trailer x = Inr True) vids =
      List.find (\<lambda>v. opt_prop v ''type'' = JStr ''Trailer'') vids"
    using assms by (intro find_cong) (auto simp: list_all_iff is_trailer_simps)
  ultimately show ?thesis by (simp add: first_trailer_def)
qed

lemma find_trailer_document:
  assumes "detail_document data"
  shows "find_trailer data = Inr (first_trailer (elements (video_results data)))"
proof (cases "nullish (video_results data)")
  case True
  with assms show ?thesis
    by (simp add: find_trailer_eq detail_document_def is_object_not_nullish first_trailer_def)
next
  case False
  with assms have "object_array (video_results data)"
    by (simp add: detail_document_def)
  from object_array_elements [OF this] False assms show ?thesis
    by (cases "video_results data")
      (simp_all add: find_trailer_eq detail_document_def is_object_not_nullish js_find_is_trailer)
qed

lemma first_trailer_key:
  "list_all (\<lambda>v. string_or_absent (opt_prop v ''key'')) vids \<Longrightarrow>
   string_or_absent (opt_prop (first_trailer vids) ''key'')"
  by (auto simp: first_trailer_def list_all_iff string_or_absent_def
      split: option.splits dest: find_in_set)

lemma detail_document_links:
  "detail_document data \<Longrightarrow> link_array (js_or (us_flatrate data) (JArr []))"
  by (auto simp: detail_document_def js_or_def nullish_not_truthy is_array_truthy
      link_array_is_array)

lemma detail_document_trailer:
  assumes "detail_document data"
  shows "string_or_absent (opt_prop (first_trailer (elements (video_results data))) ''key'')"
proof (cases "nullish (video_results data)")
  case True
  then show ?thesis by (simp add: first_trailer_def string_or_absent_def)
next
  case False
  with assms show ?thesis
    by (intro first_trailer_key) (simp add: detail_document_def)
qed

lemma results_page_batman: "results_page batman_page"
  by (simp add: results_page_def batman_page_def has_id_def listable_def)

lemma detail_document_example: "detail_document teaser_then_trailer"
  by (simp add: detail_document_def teaser_then_trailer_def video_results_def us_flatrate_def
      string_or_absent_def)

section \<open>Properties of the list handlers\<close>

text \<open>
  C1. A successful search shows what the service sent: when the document is a page of
  results, the list becomes its \<^verbatim>\<open>results\<close> array, in the order of the service,
  the error message is cleared and the loading flag is off; no other field changes.
\<close>

theorem searchMovies_settled_success:
  "results_page data \<Longrightarrow>
   searchMovies_settled (Body data) s =
     s\<lparr>movies := opt_prop data ''results'', error := [], loading := False\<rparr>"
  by (simp add: searchMovies_settled_def list_settled_success results_page_def
      results_page_truthy is_object_not_nullish)

theorem searchMovies_settled_success_witness:
  "results_page batman_page \<and>
   movies (searchMovies_settled (Body batman_page)
     (initial_state\<lparr>loading := True, error := ''Failed to fetch movies''\<rparr>)) =
     JArr [JObj [(''id'', JNum 268), (''title'', JStr ''Batman''),
                 (''release_date'', JStr ''1989-06-23''),
                 (''vote_average'', JDec ''7.2'')]] \<and>
   error (searchMovies_settled (Body batman_page)
     (initial_state\<lparr>loading := True, error := ''Failed to fetch movies''\<rparr>)) = []"
  using searchMovies_settled_success [OF results_page_batman,
      of "initial_state\<lparr>loading := True, error := ''Failed to fetch movies''\<rparr>"]
  by (simp add: results_page_batman) (simp add: batman_page_def)

text \<open>
  C2. A failed list request is reported and loses nothing: when the request is rejected,
  the body is not JSON or the document is \<^verbatim>\<open>null\<close>, each list handler sets its own
  message and clears the loading flag, and the list of movies and every other field
  stay as they were.
\<close>

theorem list_request_failure:
  "list_fails r \<Longrightarrow>
   searchMovies_settled r s = s\<lparr>error := ''Failed to fetch movies'', loading := False\<rparr> \<and>
   fetchPopularMovies_settled r s =
     s\<lparr>error := ''Failed to fetch popular movies'', loading := False\<rparr>"
  by (simp add: searchMovies_settled_def fetchPopularMovies_settled_def list_settled_failure)

theorem list_request_failure_witness:
  "list_fails Rejected \<and>
   searchMovies_settled Rejected (initial_state\<lparr>movies := JArr [JNum 1], loading := True\<rparr>) =
     initial_state\<lparr>movies := JArr [JNum 1], error := ''Failed to fetch movies''\<rparr> \<and>
   fetchPopularMovies_settled Rejected (initial_state\<lparr>movies := JArr [JNum 1], loading := True\<rparr>) =
     initial_state\<lparr>movies := JArr [JNum 1], error := ''Failed to fetch popular movies''\<rparr>"
  using list_request_failure [of Rejected "initial_state\<lparr>movies := JArr [JNum 1], loading := True\<rparr>"]
  by (simp add: list_fails_def initial_state_def)

text \<open>
  C19. An answer without results is dropped silently: when the document is an object
  whose \<^verbatim>\<open>results\<close> is missing or falsy, as the error documents of the service are,
  neither list handler sets an error message or touches the list; only the loading flag
  changes. An earlier error message therefore stays on screen, and a refused API key
  shows no error at all.
\<close>

theorem error_document_sets_no_error:
  "is_object data \<Longrightarrow> \<not> truthy (opt_prop data ''results'') \<Longrightarrow>
   searchMovies_settled (Body data) s = s\<lparr>loading := False\<rparr> \<and>
   fetchPopularMovies_settled (Body data) s = s\<lparr>loading := False\<rparr>"
  by (simp add: searchMovies_settled_def fetchPopularMovies_settled_def
      list_settled_no_results is_object_not_nullish)

theorem error_document_sets_no_error_witness:
  "is_object unauthorized \<and> \<not> truthy (opt_prop unauthorized ''results'') \<and>
   error (searchMovies_settled (Body unauthorized) (initial_state\<lparr>loading := True\<rparr>)) = [] \<and>
   movies (searchMovies_settled (Body unauthorized) (initial_state\<lparr>loading := True\<rparr>)) = JArr []"
  using error_document_sets_no_error [of unauthorized "initial_state\<lparr>loading := True\<rparr>"]
  by (simp add: unauthorized_def)

section \<open>Properties of the detail handler\<close>

text \<open>
  C3. The trailer search agrees with its specification: for a detail document of the
  documented shape, the handler stores the key of the first video whose type is
  \<^verbatim>\<open>Trailer\<close> (nothing when there is none) and the subscription providers of the
  region (the empty array when there are none), logs nothing and changes no other
  field.
\<close>

theorem trailer_search_is_first_match:
  assumes "detail_document data"
  shows "fetchMovieDetails_settled (Body data) s =
    (s\<lparr>trailerUrl := opt_prop (first_trailer (elements (video_results data))) ''key'',
       downloadLinks := js_or (us_flatrate data) (JArr [])\<rparr>, None)"
  using assms by (simp add: fetchMovieDetails_settled_def store_details_eq find_trailer_document)

theorem trailer_search_is_first_match_witness:
  "detail_document teaser_then_trailer \<and>
   fetchMovieDetails_settled (Body teaser_then_trailer) initial_state =
     (initial_state\<lparr>trailerUrl := JStr ''y'', downloadLinks := JArr []\<rparr>, None)"
  using trailer_search_is_first_match [OF detail_document_example, of initial_state]
  by (simp add: detail_document_example)
    (simp add: teaser_then_trailer_def video_results_def us_flatrate_def first_trailer_def)

text \<open>
  C4. A failed detail request changes nothing on screen: whenever the handler logs an
  error (a rejected request, an unparsable body, a document on which an access throws),
  the state after it is the state before it; in particular no error message is set and
  the trailer key is not stored without the providers.
\<close>

theorem details_failure_changes_nothing:
  "snd (fetchMovieDetails_settled r s) \<noteq> None \<Longrightarrow> fst (fetchMovieDetails_settled r s) = s"
  by (auto simp: fetchMovieDetails_settled_def store_details_eq split: sum.splits)

theorem details_failure_changes_nothing_witness:
  "snd (fetchMovieDetails_settled (Body JNull) (initial_state\<lparr>trailerUrl := JStr ''old''\<rparr>))
     \<noteq> None \<and>
   fst (fetchMovieDetails_settled (Body JNull) (initial_state\<lparr>trailerUrl := JStr ''old''\<rparr>)) =
     initial_state\<lparr>trailerUrl := JStr ''old''\<rparr>"
  using details_failure_changes_nothing
    [of "Body JNull" "initial_state\<lparr>trailerUrl := JStr ''old''\<rparr>"]
  by (simp add: fetchMovieDetails_settled_def store_details_def find_trailer_def)

text \<open>
  C28. A video list that is not an array is an error, not an empty list: when
  \<^verbatim>\<open>videos.results\<close> of the document is neither absent nor an array, the call of
  \<^verbatim>\<open>find\<close> throws, the error is logged and the state is unchanged.
\<close>

theorem results_not_an_array_throws:
  "\<not> nullish data \<Longrightarrow> \<not> nullish (video_results data) \<Longrightarrow> \<not> is_array (video_results data) \<Longrightarrow>
   fetchMovieDetails_settled (Body data) s = (s, Some TypeError)"
  by (cases "video_results data")
    (simp_all add: fetchMovieDetails_settled_def store_details_eq find_trailer_eq)

theorem results_not_an_array_throws_witness:
  "\<not> nullish videos_not_a_list \<and> \<not> nullish (video_results videos_not_a_list) \<and>
   \<not> is_array (video_results videos_not_a_list) \<and>
   fetchMovieDetails_settled (Body videos_not_a_list) initial_state =
     (initial_state, Some TypeError)"
  using results_not_an_array_throws [of videos_not_a_list initial_state]
  by (simp add: videos_not_a_list_def video_results_def)

section \<open>Properties of the modal handlers\<close>

text \<open>
  C27. Opening a movie requests the details of that movie: for a movie that is not
  \<^verbatim>\<open>null\<close> or \<^verbatim>\<open>undefined\<close>, the request goes to the detail address of the text
  of its \<^verbatim>\<open>id\<close>. For \<^verbatim>\<open>null\<close> and \<^verbatim>\<open>undefined\<close> reading the \<^verbatim>\<open>id\<close>
  throws after the modal has been made visible; for an \<^verbatim>\<open>id\<close> whose conversion
  to a string throws, the error is caught and logged; no request is issued in either
  case, and the modal stays open on the movie.
\<close>

theorem openMovieModal_request:
  "openMovieModal api_key movie s =
     (s\<lparr>selectedMovie := movie, modalVisible := True\<rparr>,
      if nullish movie then Inl TypeError
      else if printable (opt_prop movie ''id'')
      then Inr (Inr (FetchMovieDetails,
             details_url api_key (to_string (opt_prop movie ''id''))))
      else Inr (Inl TypeError))"
  by (simp add: openMovieModal_eq fetchMovieDetails_eq)

end
