(* ===== verification/View.thy ===== *)
theory View
  imports ViewState
begin

text \<open>
  What \<^verbatim>\<open>App\<close> of \<^verbatim>\<open>src/App.js\<close> returns for a state: the tree of elements of its
  \<^verbatim>\<open>return\<close> statement, with the three render helpers
  (\<^verbatim>\<open>renderMovieItem\<close>, \<^verbatim>\<open>renderTrailerSection\<close>, \<^verbatim>\<open>renderDownloadOptions\<close>).
  An element is a constructor named after its component, with the properties that the
  source gives it; a style is the name under which the style sheet holds it; a handler
  is the action that it performs when the platform calls it. A render function throws
  where an expression of the source does, and the tree is its result otherwise.
\<close>

section \<open>Elements\<close>

text \<open>
  The handlers that the source attaches to elements. A closure over a value of the
  render (\<^verbatim>\<open>item\<close>, \<^verbatim>\<open>trailerUrl\<close>, \<^verbatim>\<open>selectedMovie\<close>) carries that value: its
  body runs when the element is pressed.
\<close>

datatype action =
    SetQuery
  | RunSearchMovies
  | RunFetchPopularMovies
  | RunOpenMovieModal jsval
  | RunCloseModal
  | WatchTrailer jsval
  | WatchProvider jsval

text \<open>
  The children of a \<^verbatim>\<open>Text\<close> element: literal text, the value of an expression in
  braces, and the year that the platform's date library computes for a value
  (\<^verbatim>\<open>new Date(v).getFullYear()\<close>), which is kept as an uninterpreted term.
\<close>

datatype part = Lit string | Interp jsval | FullYear jsval

datatype node =
    View string "node list"
  | Text string "part list"
  | TextInput string string string action
  | Button string action
  | ActivityIndicator string string
  | FlatList jsval node
  | Image string string bool
  | TouchableOpacity "string option" string action "node list"
  | WebView string bool string
  | Modal string bool bool action "node list"
  | Fragment "node list"
  | Value jsval

section \<open>Addresses built by the render functions\<close>

text \<open>
  The addresses of the images and of the player, as functions of the text that the
  conversion of the spliced value gives; the render functions convert the value first.
\<close>

definition poster_url :: "string \<Rightarrow> string" where
  "poster_url poster_path = ''https://image.tmdb.org/t/p/w500'' @ poster_path"

definition logo_url :: "string \<Rightarrow> string" where
  "logo_url logo_path = ''https://image.tmdb.org/t/p/w200'' @ logo_path"

definition embed_url :: "string \<Rightarrow> string" where
  "embed_url key = ''https://www.youtube.com/embed/'' @ key"

text \<open>
  The addresses that the two closures of the detail view hand to the link handler when
  they run: the page of the trailer, for the trailer key of the render, and the watch
  page of the selected movie, whose \<^verbatim>\<open>id\<close> is read when the closure runs. Either
  throws when the conversion of the spliced value does.
\<close>

definition trailer_page_url :: "jsval \<Rightarrow> string js" where
  "trailer_page_url key =
     and_then (js_string key) (\<lambda>key_text.
       Inr (''https://www.youtube.com/watch?v='' @ key_text))"

definition provider_page_url :: "jsval \<Rightarrow> string js" where
  "provider_page_url movie =
     and_then (get_prop movie ''id'') (\<lambda>movieId.
     and_then (js_string movieId) (\<lambda>id_text.
       Inr (''https://www.themoviedb.org/movie/'' @ id_text @ ''/watch'')))"

text \<open>
  Two conversions that the platform applies while an element is built. \<^verbatim>\<open>new Date(v)\<close>
  converts an object or an array to a primitive value first, which throws where the
  conversion to a string does; the part \<open>FullYear v\<close> stands for the year of the
  date otherwise. The \<^verbatim>\<open>key\<close> of an element is kept as a string: a key other than
  \<^verbatim>\<open>undefined\<close> is converted when the element is created.
\<close>

definition year_part :: "jsval \<Rightarrow> part js" where
  "year_part release_date =
     (if \<not> truthy release_date then Inr (Lit ''Unknown year'')
      else if printable release_date then Inr (FullYear release_date)
      else Inl TypeError)"

definition element_key :: "jsval \<Rightarrow> string option js" where
  "element_key v =
     (if v = JUndefined then Inr None
      else and_then (js_string v) (\<lambda>key_text. Inr (Some key_text)))"

section \<open>Render helpers\<close>

text \<open>
  \<^verbatim>\<open>renderMovieItem\<close>: a row of the list. The properties of the item are read in the
  order of the source; the first access throws on \<^verbatim>\<open>null\<close> and \<^verbatim>\<open>undefined\<close>, and
  the poster path and the release date are converted where they are used.
\<close>

definition renderMovieItem :: "jsval \<Rightarrow> node js" where
  "renderMovieItem item =
     and_then (get_prop item ''poster_path'') (\<lambda>poster_path.
     and_then (js_string poster_path) (\<lambda>poster_text.
     and_then (get_prop item ''title'') (\<lambda>title.
     and_then (get_prop item ''release_date'') (\<lambda>release_date.
     and_then (year_part release_date) (\<lambda>year.
       Inr (TouchableOpacity None ''movieItem'' (RunOpenMovieModal item)
         [Image ''poster'' (poster_url poster_text) True,
          View ''movieInfo''
            [Text ''title'' [Interp title],
             Text ''year'' [year]]]))))))"

text \<open>\<^verbatim>\<open>keyExtractor\<close> of the list: \<^verbatim>\<open>item.id.toString()\<close>.\<close>

definition key_of :: "jsval \<Rightarrow> string js" where
  "key_of item = and_then (get_prop item ''id'') call_toString"

text \<open>
  \<^verbatim>\<open>renderTrailerSection\<close>: the placeholder on a falsy trailer key, the player
  otherwise, whose address holds the text of the key. The closure of the button
  converts the key again when it runs.
\<close>

definition renderTrailerSection :: "view_state \<Rightarrow> node js" where
  "renderTrailerSection s =
     (if \<not> truthy (trailerUrl s) then Inr (Text ''noTrailer'' [Lit ''No trailer available''])
      else and_then (js_string (trailerUrl s)) (\<lambda>key_text.
        Inr (View ''trailerContainer''
          [WebView ''trailerVideo'' True (embed_url key_text),
           Button ''Watch Full Trailer on YouTube'' (WatchTrailer (trailerUrl s))])))"

text \<open>
  One provider of \<^verbatim>\<open>renderDownloadOptions\<close>: the callback of its \<^verbatim>\<open>map\<close>. The
  children are built before the button, whose key is converted last.
\<close>

definition render_service :: "view_state \<Rightarrow> jsval \<Rightarrow> node js" where
  "render_service s service =
     and_then (get_prop service ''provider_id'') (\<lambda>provider_id.
     and_then (get_prop service ''logo_path'') (\<lambda>logo_path.
     and_then (js_string logo_path) (\<lambda>logo_text.
     and_then (get_prop service ''provider_name'') (\<lambda>provider_name.
     and_then (element_key provider_id) (\<lambda>key.
       Inr (TouchableOpacity key ''serviceButton'' (WatchProvider (selectedMovie s))
         [Image ''serviceLogo'' (logo_url logo_text) False,
          Text ''serviceName'' [Interp provider_name]]))))))"

text \<open>
  \<^verbatim>\<open>renderDownloadOptions\<close>: \<^verbatim>\<open>null\<close> when the length of the links is \<open>0\<close>;
  otherwise the heading and one button per link, where \<^verbatim>\<open>map\<close> exists on arrays only.
\<close>

definition renderDownloadOptions :: "view_state \<Rightarrow> node js" where
  "renderDownloadOptions s =
     and_then (js_length (downloadLinks s)) (\<lambda>n.
       if n = JNum 0 then Inr (Value JNull)
       else (case downloadLinks s of
               JArr services \<Rightarrow>
                 and_then (js_map (render_service s) services) (\<lambda>buttons.
                   Inr (View ''downloadSection''
                     (Text ''sectionTitle'' [Lit ''Available On:''] # buttons)))
             | _ \<Rightarrow> Inl TypeError))"

section \<open>The screen\<close>

text \<open>
  The conditional below the buttons: the spinner while loading, else the error message
  when there is one, else the list with its placeholder for an empty list.
\<close>

definition list_section :: "view_state \<Rightarrow> node" where
  "list_section s =
     (if loading s then ActivityIndicator ''large'' ''#0000ff''
      else if error s \<noteq> [] then Text ''error'' [Interp (JStr (error s))]
      else FlatList (movies s) (Text ''empty'' [Lit ''No movies found'']))"

text \<open>
  The content of the modal: the falsy value itself when no movie is selected, else the
  fragment with the poster, the title, the trailer section, the providers, the
  overview, the rating, the release date, the disclaimer and the Close button.
\<close>

definition modal_content :: "view_state \<Rightarrow> node js" where
  "modal_content s =
     (if \<not> truthy (selectedMovie s) then Inr (Value (selectedMovie s))
      else
        and_then (get_prop (selectedMovie s) ''poster_path'') (\<lambda>poster_path.
        and_then (js_string poster_path) (\<lambda>poster_text.
        and_then (get_prop (selectedMovie s) ''title'') (\<lambda>title.
        and_then (renderTrailerSection s) (\<lambda>trailer.
        and_then (renderDownloadOptions s) (\<lambda>options.
        and_then (get_prop (selectedMovie s) ''overview'') (\<lambda>overview.
        and_then (get_prop (selectedMovie s) ''vote_average'') (\<lambda>vote_average.
        and_then (get_prop (selectedMovie s) ''release_date'') (\<lambda>release_date.
          Inr (Fragment
            [Image ''modalPoster'' (poster_url poster_text) False,
             Text ''modalTitle'' [Interp title],
             trailer,
             options,
             Text ''modalOverview'' [Interp overview],
             Text ''modalRating'' [Lit ''Rating: '', Interp vote_average, Lit ''/10''],
             Text ''modalDate'' [Lit ''Release Date: '', Interp release_date],
             Text ''disclaimer''
               [Lit ''This app does not support piracy. Please use official streaming services.''],
             Button ''Close'' RunCloseModal]))))))))))"

text \<open>The \<^verbatim>\<open>return\<close> statement of \<^verbatim>\<open>App\<close>.\<close>

definition render :: "view_state \<Rightarrow> node js" where
  "render s =
     and_then (modal_content s) (\<lambda>content.
       Inr (View ''container''
         [TextInput ''input'' ''Search for movies...'' (query s) SetQuery,
          View ''buttonContainer''
            [Button ''Search Movies'' RunSearchMovies,
             Button ''Popular Movies'' RunFetchPopularMovies],
          list_section s,
          Modal ''slide'' False (modalVisible s) RunCloseModal
            [View ''modalContainer'' [content]]]))"

text \<open>
  The rows that the list component produces from its data by \<^verbatim>\<open>keyExtractor\<close> and
  \<^verbatim>\<open>renderItem\<close>, for data that is an array: each row with its key.
\<close>

definition list_rows :: "jsval list \<Rightarrow> (string \<times> node) list js" where
  "list_rows items =
     js_map (\<lambda>item. and_then (key_of item) (\<lambda>k.
               and_then (renderMovieItem item) (\<lambda>row. Inr (k, row)))) items"

section \<open>Reference trees\<close>

text \<open>
  The row of an item, the button of a provider and the trailer section as the source
  draws them when nothing throws: the trees against which the render helpers are
  checked.
\<close>

definition movie_row :: "jsval \<Rightarrow> node" where
  "movie_row item =
     TouchableOpacity None ''movieItem'' (RunOpenMovieModal item)
       [Image ''poster'' (poster_url (to_string (opt_prop item ''poster_path''))) True,
        View ''movieInfo''
          [Text ''title'' [Interp (opt_prop item ''title'')],
           Text ''year''
             [if truthy (opt_prop item ''release_date'') then FullYear (opt_prop item ''release_date'')
              else Lit ''Unknown year'']]]"

definition key_text :: "jsval \<Rightarrow> string option" where
  "key_text v = (if v = JUndefined then None else Some (to_string v))"

definition service_button :: "view_state \<Rightarrow> jsval \<Rightarrow> node" where
  "service_button s service =
     TouchableOpacity (key_text (opt_prop service ''provider_id'')) ''serviceButton''
       (WatchProvider (selectedMovie s))
       [Image ''serviceLogo'' (logo_url (to_string (opt_prop service ''logo_path''))) False,
        Text ''serviceName'' [Interp (opt_prop service ''provider_name'')]]"

definition trailer_section :: "view_state \<Rightarrow> node" where
  "trailer_section s =
     (if \<not> truthy (trailerUrl s) then Text ''noTrailer'' [Lit ''No trailer available'']
      else View ''trailerContainer''
        [WebView ''trailerVideo'' True (embed_url (to_string (trailerUrl s))),
         Button ''Watch Full Trailer on YouTube'' (WatchTrailer (trailerUrl s))])"

definition detail_view :: "view_state \<Rightarrow> node \<Rightarrow> node" where
  "detail_view s options =
     Fragment
       [Image ''modalPoster''
          (poster_url (to_string (opt_prop (selectedMovie s) ''poster_path''))) False,
        Text ''modalTitle'' [Interp (opt_prop (selectedMovie s) ''title'')],
        trailer_section s,
        options,
        Text ''modalOverview'' [Interp (opt_prop (selectedMovie s) ''overview'')],
        Text ''modalRating''
          [Lit ''Rating: '', Interp (opt_prop (selectedMovie s) ''vote_average''), Lit ''/10''],
        Text ''modalDate''
          [Lit ''Release Date: '', Interp (opt_prop (selectedMovie s) ''release_date'')],
        Text ''disclaimer''
          [Lit ''This app does not support piracy. Please use official streaming services.''],
        Button ''Close'' RunCloseModal]"

text \<open>
  The selected movies whose detail view can be drawn: nothing is selected, or the
  poster path of the selection and the trailer key convert to strings.
\<close>

definition shows_details :: "view_state \<Rightarrow> bool" where
  "shows_details s \<longleftrightarrow>
     \<not> truthy (selectedMovie s) \<or>
     printable (opt_prop (selectedMovie s) ''poster_path'') \<and> printable (trailerUrl s)"

text \<open>Items used as concrete inputs.\<close>

definition no_poster :: jsval where
  "no_poster = JObj [(''id'', JNum 7), (''title'', JStr ''Untitled''), (''poster_path'', JNull)]"

definition two_rows :: "jsval list" where
  "two_rows = [JObj [(''id'', JNum 1)], JObj [(''id'', JNum 12)]]"

definition unprintable_id :: jsval where
  "unprintable_id = JObj [(''id'', JObj [(''toString'', JNum 1)]), (''title'', JStr ''Odd'')]"

section \<open>Facts about the render functions\<close>

lemma year_part_eq:
  "year_part v =
     (if printable v then Inr (if truthy v then FullYear v else Lit ''Unknown year'')
      else Inl TypeError)"
  by (auto simp: year_part_def not_truthy_printable)

lemma element_key_eq:
  "element_key v = (if printable v then Inr (key_text v) else Inl TypeError)"
  by (auto simp: element_key_def key_text_def)

lemma trailer_page_url_eq:
  "trailer_page_url key =
     (if printable key then Inr (''https://www.youtube.com/watch?v='' @ to_string key)
      else Inl TypeError)"
  by (simp add: trailer_page_url_def and_then_js_string)

lemma provider_page_url_eq:
  "provider_page_url movie =
     (if \<not> nullish movie \<and> printable (opt_prop movie ''id'')
      then Inr (''https://www.themoviedb.org/movie/'' @ to_string (opt_prop movie ''id'')
             @ ''/watch'')
      else Inl TypeError)"
  by (cases "nullish movie")
    (simp_all add: provider_page_url_def get_prop_nullish get_prop_opt_prop and_then_js_string)

lemma renderMovieItem_eq:
  "renderMovieItem item =
     (if \<not> nullish item \<and> printable (opt_prop item ''poster_path'') \<and>
         printable (opt_prop item ''release_date'')
      then Inr (movie_row item) else Inl TypeError)"
  by (cases "nullish item")
    (auto simp: renderMovieItem_def movie_row_def get_prop_nullish get_prop_opt_prop
      year_part_eq and_then_js_string)

lemma key_of_eq:
  "key_of item =
     (if has_id item \<and> printable (opt_prop item ''id'')
      then Inr (to_string (opt_prop item ''id'')) else Inl TypeError)"
  by (cases "nullish item")
    (auto simp: key_of_def has_id_def get_prop_nullish get_prop_opt_prop opt_prop_nullish
      call_toString_def)

lemma has_id_not_nullish: "has_id item \<Longrightarrow> \<not> nullish item"
  by (cases item) (simp_all add: has_id_def)

lemma listable_not_nullish: "listable item \<Longrightarrow> \<not> nullish item"
  by (simp add: listable_def has_id_not_nullish)

lemma list_rows_eq:
  "list_rows items =
     (if list_all listable items
      then Inr (map (\<lambda>item. (to_string (opt_prop item ''id''), movie_row item)) items)
      else Inl TypeError)"
proof (induction items)
  case Nil
  show ?case by (simp add: list_rows_def)
next
  case (Cons item items)
  then show ?case
    by (auto simp: list_rows_def key_of_eq renderMovieItem_eq listable_def has_id_not_nullish)
qed

lemma render_service_eq:
  "render_service s service =
     (if linkable service then Inr (service_button s service) else Inl TypeError)"
  by (cases "nullish service")
    (auto simp: render_service_def service_button_def linkable_def get_prop_nullish
      get_prop_opt_prop element_key_eq and_then_js_string)

lemma js_map_render_service:
  "js_map (render_service s) services =
     (if list_all linkable services then Inr (map (service_button s) services)
      else Inl TypeError)"
  by (induction services) (simp_all add: render_service_eq)

lemma renderTrailerSection_eq:
  "renderTrailerSection s =
     (if printable (trailerUrl s) then Inr (trailer_section s) else Inl TypeError)"
  by (auto simp: renderTrailerSection_def trailer_section_def not_truthy_printable)

lemma renderDownloadOptions_array:
  "downloadLinks s = JArr services \<Longrightarrow>
   renderDownloadOptions s =
     (if services = [] then Inr (Value JNull)
      else if list_all linkable services
      then Inr (View ''downloadSection''
             (Text ''sectionTitle'' [Lit ''Available On:''] # map (service_button s) services))
      else Inl TypeError)"
  by (simp add: renderDownloadOptions_def js_map_render_service)

lemma renderDownloadOptions_link_array:
  assumes "link_array (downloadLinks s)"
  shows "renderDownloadOptions s =
     Inr (if elements (downloadLinks s) = [] then Value JNull
          else View ''downloadSection''
             (Text ''sectionTitle'' [Lit ''Available On:'']
                # map (service_button s) (elements (downloadLinks s))))"
  using assms link_array_elements [OF assms]
  by (cases "downloadLinks s") (simp_all add: renderDownloadOptions_array)

lemma renderDownloadOptions_Inr:
  assumes "renderDownloadOptions s = Inr options"
  shows "options = Value JNull \<or>
    (\<exists>services. downloadLinks s = JArr services \<and>
       options = View ''downloadSection''
         (Text ''sectionTitle'' [Lit ''Available On:''] # map (service_button s) services))"
proof (cases "downloadLinks s")
  case (JArr services)
  with assms show ?thesis
    by (auto simp: renderDownloadOptions_array split: if_splits)
qed (use assms in \<open>auto simp: renderDownloadOptions_def own_prop_def split: if_splits option.splits\<close>)

lemma modal_content_eq:
  "modal_content s =
     (if \<not> truthy (selectedMovie s) then Inr (Value (selectedMovie s))
      else if \<not> shows_details s then Inl TypeError
      else and_then (renderDownloadOptions s) (\<lambda>options. Inr (detail_view s options)))"
proof (cases "truthy (selectedMovie s)")
  case True
  then have "\<not> nullish (selectedMovie s)"
    using nullish_not_truthy by blast
  with True show ?thesis
    by (auto simp: modal_content_def detail_view_def get_prop_opt_prop shows_details_def
        renderTrailerSection_eq and_then_js_string)
next
  case False
  then show ?thesis by (simp add: modal_content_def)
qed

lemma modal_content_cases [consumes 1, case_names none details]:
  assumes "modal_content s = Inr content"
  obtains "\<not> truthy (selectedMovie s)" "content = Value (selectedMovie s)"
  | options where "truthy (selectedMovie s)" "shows_details s"
      "renderDownloadOptions s = Inr options" "content = detail_view s options"
  using assms by (auto simp: modal_content_eq and_then_eq_Inr_iff split: if_splits)

lemma render_Inr:
  assumes "render s = Inr tree"
  obtains content where "modal_content s = Inr content"
    "tree = View ''container''
       [TextInput ''input'' ''Search for movies...'' (query s) SetQuery,
        View ''buttonContainer''
          [Button ''Search Movies'' RunSearchMovies,
           Button ''Popular Movies'' RunFetchPopularMovies],
        list_section s,
        Modal ''slide'' False (modalVisible s) RunCloseModal
          [View ''modalContainer'' [content]]]"
  using assms by (auto simp: render_def and_then_eq_Inr_iff)

lemma render_throws_iff:
  "throws (render s) \<longleftrightarrow>
     truthy (selectedMovie s) \<and> (\<not> shows_details s \<or> throws (renderDownloadOptions s))"
  by (auto simp: render_def modal_content_eq throws_and_then)

lemma well_formed_shows_details: "well_formed s \<Longrightarrow> shows_details s"
  by (auto simp: well_formed_def shows_details_def listable_def string_or_absent_printable)

lemma render_well_formed: "well_formed s \<Longrightarrow> \<not> throws (render s)"
  by (simp add: render_throws_iff well_formed_shows_details well_formed_def
      renderDownloadOptions_link_array)

section \<open>Properties of the render functions\<close>

text \<open>
  C35. A movie without a poster asks the image server for a path that does not exist:
  when \<^verbatim>\<open>poster_path\<close> of an item is \<^verbatim>\<open>null\<close> or missing, the row is drawn,
  and the address of its image ends in the text \<^verbatim>\<open>null\<close> or \<^verbatim>\<open>undefined\<close>.
\<close>

theorem missing_poster_requests_null_path:
  "\<not> nullish item \<Longrightarrow> nullish (opt_prop item ''poster_path'') \<Longrightarrow>
   printable (opt_prop item ''release_date'') \<Longrightarrow>
   \<exists>rest. renderMovieItem item =
     Inr (TouchableOpacity None ''movieItem'' (RunOpenMovieModal item)
       (Image ''poster''
          (if opt_prop item ''poster_path'' = JNull then ''https://image.tmdb.org/t/p/w500null''
           else ''https://image.tmdb.org/t/p/w500undefined'') True # rest))"
  by (cases "opt_prop item ''poster_path''")
    (simp_all add: renderMovieItem_eq movie_row_def poster_url_def)

theorem missing_poster_requests_null_path_witness:
  "\<not> nullish no_poster \<and> nullish (opt_prop no_poster ''poster_path'') \<and>
   printable (opt_prop no_poster ''release_date'') \<and>
   (\<exists>rest. renderMovieItem no_poster =
     Inr (TouchableOpacity None ''movieItem'' (RunOpenMovieModal no_poster)
       (Image ''poster'' ''https://image.tmdb.org/t/p/w500null'' True # rest)))"
  using missing_poster_requests_null_path [of no_poster]
  by (simp add: no_poster_def)

text \<open>
  C34. The rows of the list have distinct keys: for items with numeric identifiers that
  are pairwise different, whose poster paths and release dates convert to strings,
  every row is drawn and the keys that \<^verbatim>\<open>keyExtractor\<close> gives them are pairwise
  different.
\<close>

theorem row_keys_distinct:
  assumes "list_all numeric_id items" and "list_all listable items"
    and "distinct (map (\<lambda>item. opt_prop item ''id'') items)"
  shows "\<exists>rows. list_rows items = Inr rows \<and> length rows = length items \<and>
     distinct (map fst rows)"
proof -
  from assms(1) have "inj_on to_string (set (map (\<lambda>item. opt_prop item ''id'') items))"
    by (auto simp: inj_on_def list_all_iff numeric_id_def intro: to_string_inj_on_numbers)
  with assms(3) have "distinct (map to_string (map (\<lambda>item. opt_prop item ''id'') items))"
    by (simp only: distinct_map)
  with assms(2) show ?thesis
    by (simp add: list_rows_eq o_def)
qed

theorem row_keys_distinct_witness:
  "list_all numeric_id two_rows \<and> list_all listable two_rows \<and>
   distinct (map (\<lambda>item. opt_prop item ''id'') two_rows) \<and>
   (\<exists>rows. list_rows two_rows = Inr rows \<and> map fst rows = [''1'', ''12''])"
  using row_keys_distinct [of two_rows]
  by (simp add: two_rows_def numeric_id_def list_rows_eq has_id_def listable_def show_simps)

text \<open>
  C9. Drawing fails on exactly the values that have no text. The list draws its rows
  if and only if every item has an \<^verbatim>\<open>id\<close> other than \<^verbatim>\<open>null\<close> and
  \<^verbatim>\<open>undefined\<close>, and its \<^verbatim>\<open>id\<close>, poster path and release date convert to
  strings. The \<^verbatim>\<open>return\<close> statement of \<^verbatim>\<open>App\<close> throws if and only if a movie is
  selected and the poster path of the movie or the trailer key does not convert, or
  the providers are neither a value of length \<open>0\<close> nor an array of providers
  other than \<^verbatim>\<open>null\<close> and \<^verbatim>\<open>undefined\<close> whose \<^verbatim>\<open>provider_id\<close> and logo path
  convert. No other part of the state and no other field of a response makes a render
  function throw.
\<close>

theorem rendering_throws_iff:
  "(throws (list_rows items) \<longleftrightarrow> \<not> list_all listable items) \<and>
   (throws (render s) \<longleftrightarrow>
      truthy (selectedMovie s) \<and>
      \<not> (printable (opt_prop (selectedMovie s) ''poster_path'') \<and> printable (trailerUrl s) \<and>
         (js_length (downloadLinks s) = Inr (JNum 0) \<or>
          (\<exists>services. downloadLinks s = JArr services \<and> list_all linkable services))))"
proof -
  have "throws (renderDownloadOptions s) \<longleftrightarrow>
      \<not> (js_length (downloadLinks s) = Inr (JNum 0) \<or>
         (\<exists>services. downloadLinks s = JArr services \<and> list_all linkable services))"
  proof (cases "downloadLinks s")
    case (JArr services)
    then show ?thesis by (simp add: renderDownloadOptions_array)
  qed (auto simp: renderDownloadOptions_def throws_and_then)
  then show ?thesis
    by (auto simp: list_rows_eq render_throws_iff shows_details_def)
qed

theorem rendering_throws_iff_witness:
  "throws (list_rows [unprintable_id]) \<and> \<not> throws (list_rows two_rows) \<and>
   \<not> throws (render (initial_state\<lparr>selectedMovie := no_poster\<rparr>)) \<and>
   throws (render (initial_state\<lparr>selectedMovie := no_poster, downloadLinks := JStr ''x''\<rparr>)) \<and>
   throws (render (initial_state
     \<lparr>selectedMovie := no_poster, trailerUrl := JObj [(''toString'', JNull)]\<rparr>))"
  using rendering_throws_iff [of "[unprintable_id]" initial_state]
    rendering_throws_iff [of two_rows "initial_state\<lparr>selectedMovie := no_poster\<rparr>"]
    rendering_throws_iff [of "[]"
      "initial_state\<lparr>selectedMovie := no_poster, downloadLinks := JStr ''x''\<rparr>"]
    rendering_throws_iff [of "[]" "initial_state
      \<lparr>selectedMovie := no_poster, trailerUrl := JObj [(''toString'', JNull)]\<rparr>"]
  by (simp add: unprintable_id_def two_rows_def no_poster_def initial_state_def listable_def
      has_id_def)

end
