(* ===== verification/App.thy ===== *)
theory App
  imports Handlers View
begin

text \<open>
  The running application: the view state of \<^verbatim>\<open>App\<close> together with what it has handed
  to its environment (requests in flight, logged errors, pages opened), and the events
  that move it: the user types, the user presses an element that is on screen, a
  request settles. The handlers of \<^verbatim>\<open>src/App.js\<close> run to their next \<^verbatim>\<open>await\<close>
  without interruption, so each event is one step. Requests settle in any order, with
  any outcome.
\<close>

section \<open>State\<close>

record app =
  view :: view_state
  pending :: "request list"
  console :: "js_error list"
  opened :: "string list"
  unhandled :: "js_error list"

definition initial_app :: app where
  "initial_app = \<lparr> view = initial_state, pending = [], console = [], opened = [], unhandled = [] \<rparr>"

datatype event =
    ChangeText string
  | Press action
  | Settle nat fetch_result

section \<open>What is on screen\<close>

text \<open>
  The actions of the elements of a tree that are outside every modal, and those of the
  elements inside a visible modal, its close request included. A modal that is not
  visible mounts nothing.
\<close>

fun behind :: "node \<Rightarrow> action list" where
  "behind (View st cs) = concat (map behind cs)"
| "behind (TextInput st ph v a) = [a]"
| "behind (Button t a) = [a]"
| "behind (TouchableOpacity k st a cs) = a # concat (map behind cs)"
| "behind (Fragment cs) = concat (map behind cs)"
| "behind (Modal an tr vis a cs) = []"
| "behind n = []"

fun in_modal :: "node \<Rightarrow> action list" where
  "in_modal (View st cs) = concat (map in_modal cs)"
| "in_modal (TouchableOpacity k st a cs) = concat (map in_modal cs)"
| "in_modal (Fragment cs) = concat (map in_modal cs)"
| "in_modal (Modal an tr vis a cs) = (if vis then a # concat (map behind cs) else [])"
| "in_modal n = []"

text \<open>
  The actions of the rows that the list component mounts for a list element: one row
  per item of array data, each rendered by \<^verbatim>\<open>renderMovieItem\<close> under the key of
  \<^verbatim>\<open>keyExtractor\<close>.
\<close>

fun row_actions :: "node \<Rightarrow> action list js" where
  "row_actions (FlatList data placeholder) =
     and_then (list_rows (elements data)) (\<lambda>rows.
       Inr (concat (map (\<lambda>(k, row). behind row) rows)))"
| "row_actions n = Inr []"

text \<open>
  What the user can trigger in a state: the modal, which is opaque and covers the
  screen, takes every touch while it is visible; otherwise the elements of the screen
  and the rows of the list do. Nothing can be triggered when rendering throws.
\<close>

definition available :: "view_state \<Rightarrow> action list js" where
  "available s =
     and_then (render s) (\<lambda>tree.
     and_then (row_actions (list_section s)) (\<lambda>rows.
       Inr (if in_modal tree \<noteq> [] then in_modal tree else behind tree @ rows)))"

definition can :: "action \<Rightarrow> app \<Rightarrow> bool" where
  "can act a = (case available (view a) of Inl err \<Rightarrow> False | Inr acts \<Rightarrow> act \<in> set acts)"

section \<open>Steps\<close>

definition issue :: "request option \<Rightarrow> app \<Rightarrow> app" where
  "issue req a = (case req of None \<Rightarrow> a | Some q \<Rightarrow> a\<lparr>pending := pending a @ [q]\<rparr>)"

text \<open>
  What pressing an element does: the handler runs on the view state, and its request,
  if any, joins the requests in flight. An exception that leaves a handler is recorded
  as unhandled; the state changes that precede it stay. An exception that
  \<^verbatim>\<open>fetchMovieDetails\<close> catches before its request is issued is logged.
\<close>

fun perform :: "string \<Rightarrow> action \<Rightarrow> app \<Rightarrow> app" where
  "perform k SetQuery a = a"
| "perform k RunSearchMovies a =
     (case searchMovies k (view a) of (s', req) \<Rightarrow> issue req (a\<lparr>view := s'\<rparr>))"
| "perform k RunFetchPopularMovies a =
     (case fetchPopularMovies k (view a) of (s', req) \<Rightarrow> issue req (a\<lparr>view := s'\<rparr>))"
| "perform k (RunOpenMovieModal item) a =
     (case openMovieModal k item (view a) of
        (s', Inr (Inr req)) \<Rightarrow> issue (Some req) (a\<lparr>view := s'\<rparr>)
      | (s', Inr (Inl err)) \<Rightarrow> a\<lparr>view := s', console := console a @ [err]\<rparr>
      | (s', Inl err) \<Rightarrow> a\<lparr>view := s', unhandled := unhandled a @ [err]\<rparr>)"
| "perform k RunCloseModal a = a\<lparr>view := closeModal (view a)\<rparr>"
| "perform k (WatchTrailer key) a =
     (case trailer_page_url key of
        Inr url \<Rightarrow> a\<lparr>opened := opened a @ [url]\<rparr>
      | Inl err \<Rightarrow> a\<lparr>unhandled := unhandled a @ [err]\<rparr>)"
| "perform k (WatchProvider movie) a =
     (case provider_page_url movie of
        Inr url \<Rightarrow> a\<lparr>opened := opened a @ [url]\<rparr>
      | Inl err \<Rightarrow> a\<lparr>unhandled := unhandled a @ [err]\<rparr>)"

text \<open>The continuation of the handler that issued a request, on its outcome.\<close>

fun resume :: "request \<Rightarrow> fetch_result \<Rightarrow> app \<Rightarrow> app" where
  "resume (SearchMovies, url) r a = a\<lparr>view := searchMovies_settled r (view a)\<rparr>"
| "resume (FetchPopularMovies, url) r a = a\<lparr>view := fetchPopularMovies_settled r (view a)\<rparr>"
| "resume (FetchMovieDetails, url) r a =
     (case fetchMovieDetails_settled r (view a) of
        (s', None) \<Rightarrow> a\<lparr>view := s'\<rparr>
      | (s', Some err) \<Rightarrow> a\<lparr>view := s', console := console a @ [err]\<rparr>)"

text \<open>
  One event. \<open>None\<close> means that the event cannot happen in the state: the element is
  not on screen, or no such request is in flight.
\<close>

fun app_step :: "string \<Rightarrow> event \<Rightarrow> app \<Rightarrow> app option" where
  "app_step k (ChangeText t) a =
     (if can SetQuery a then Some (a\<lparr>view := setQuery t (view a)\<rparr>) else None)"
| "app_step k (Press act) a =
     (if act \<noteq> SetQuery \<and> can act a then Some (perform k act a) else None)"
| "app_step k (Settle i r) a =
     (if i < length (pending a)
      then Some (resume (pending a ! i) r (a\<lparr>pending := remove_nth i (pending a)\<rparr>))
      else None)"

text \<open>
  The same steps as a relation, one rule per kind of event, and the states that the
  application can reach from its start. The relation takes the behaviour of the service
  as a parameter: \<open>env q r\<close> says that the request \<open>q\<close> may settle with the outcome
  \<open>r\<close>.
\<close>

type_synonym service = "request \<Rightarrow> fetch_result \<Rightarrow> bool"

inductive step :: "service \<Rightarrow> string \<Rightarrow> app \<Rightarrow> event \<Rightarrow> app \<Rightarrow> bool" for env k where
  change_text: "can SetQuery a \<Longrightarrow> step env k a (ChangeText t) (a\<lparr>view := setQuery t (view a)\<rparr>)"
| press: "act \<noteq> SetQuery \<Longrightarrow> can act a \<Longrightarrow> step env k a (Press act) (perform k act a)"
| settle: "i < length (pending a) \<Longrightarrow> env (pending a ! i) r \<Longrightarrow>
     step env k a (Settle i r) (resume (pending a ! i) r (a\<lparr>pending := remove_nth i (pending a)\<rparr>))"

inductive reachable :: "service \<Rightarrow> string \<Rightarrow> app \<Rightarrow> bool" for env k where
  start: "reachable env k initial_app"
| next_step: "reachable env k a \<Longrightarrow> step env k a e a' \<Longrightarrow> reachable env k a'"

text \<open>
  Two services: one that may answer anything, and one whose documents have the
  documented shapes (a list document is a page of results or an object without
  results, such as an error document) and that may fail in any way.
\<close>

definition any_service :: service where
  "any_service q r = True"

definition list_document :: "jsval \<Rightarrow> bool" where
  "list_document data \<longleftrightarrow>
     results_page data \<or> is_object data \<and> nullish (opt_prop data ''results'')"

fun documented_service :: service where
  "documented_service (FetchMovieDetails, url) (Body data) = detail_document data"
| "documented_service (c, url) (Body data) = list_document data"
| "documented_service q r = True"

text \<open>
  Runs: a list of events from a state, each permitted by the service and possible in
  the state it meets; \<open>None\<close> when one of them is not.
\<close>

fun permits :: "service \<Rightarrow> event \<Rightarrow> app \<Rightarrow> bool" where
  "permits env (Settle i r) a = (i < length (pending a) \<and> env (pending a ! i) r)"
| "permits env e a = True"

fun run :: "service \<Rightarrow> string \<Rightarrow> event list \<Rightarrow> app \<Rightarrow> app option" where
  "run env k [] a = Some a"
| "run env k (e # es) a =
     (if permits env e a
      then (case app_step k e a of None \<Rightarrow> None | Some a' \<Rightarrow> run env k es a')
      else None)"

inductive_cases step_ChangeTextE [elim!]: "step env k a (ChangeText t) a'"
inductive_cases step_PressE [elim!]: "step env k a (Press act) a'"
inductive_cases step_SettleE [elim!]: "step env k a (Settle i r) a'"

section \<open>Facts about what is on screen\<close>

lemma behind_movie_row [simp]: "behind (movie_row item) = [RunOpenMovieModal item]"
  by (simp add: movie_row_def)

lemma behind_service_button [simp]: "behind (service_button s v) = [WatchProvider (selectedMovie s)]"
  by (simp add: service_button_def)

lemma behind_list_section [simp]: "behind (list_section s) = []"
  by (simp add: list_section_def)

lemma in_modal_list_section [simp]: "in_modal (list_section s) = []"
  by (simp add: list_section_def)

lemma behind_trailer_section:
  "behind (trailer_section s) =
     (if truthy (trailerUrl s) then [WatchTrailer (trailerUrl s)] else [])"
  by (simp add: trailer_section_def)

lemma row_actions_list_section:
  "row_actions (list_section s) =
     (if loading s \<or> error s \<noteq> [] then Inr []
      else if list_all listable (elements (movies s))
      then Inr (map RunOpenMovieModal (elements (movies s)))
      else Inl TypeError)"
  by (simp add: list_section_def list_rows_eq concat_map_singleton o_def)

lemma behind_download_options:
  "renderDownloadOptions s = Inr options \<Longrightarrow>
   set (behind options) \<subseteq> {WatchProvider (selectedMovie s)}"
  by (auto dest!: renderDownloadOptions_Inr split: if_splits)

lemma behind_modal_content:
  assumes "modal_content s = Inr content"
  shows "set (behind content) \<subseteq>
      {RunCloseModal, WatchTrailer (trailerUrl s), WatchProvider (selectedMovie s)}"
    and "behind content \<noteq> [] \<Longrightarrow> truthy (selectedMovie s)"
    and "WatchTrailer key \<in> set (behind content) \<Longrightarrow> truthy (trailerUrl s)"
    and "behind content \<noteq> [] \<Longrightarrow> shows_details s"
  using assms
  by (auto simp: modal_content_eq detail_view_def and_then_eq_Inr_iff behind_trailer_section
      split: if_splits dest!: behind_download_options)

lemma modal_action_cases:
  assumes "modal_content s = Inr content" and "act \<in> set (behind content)"
  obtains (close) "act = RunCloseModal"
  | (trailer) "act = WatchTrailer (trailerUrl s)" "truthy (trailerUrl s)"
      "truthy (selectedMovie s)" "printable (trailerUrl s)"
  | (provider) "act = WatchProvider (selectedMovie s)" "truthy (selectedMovie s)"
proof -
  note content = behind_modal_content [OF assms(1)]
  from assms(2) have "behind content \<noteq> []" by auto
  with content(2,4) have shown: "truthy (selectedMovie s)" "shows_details s" by simp_all
  from assms(2) content(1)
  consider "act = RunCloseModal" | "act = WatchTrailer (trailerUrl s)"
    | "act = WatchProvider (selectedMovie s)"
    by auto
  then show ?thesis
  proof cases
    case 2
    with assms(2) content(3) have "truthy (trailerUrl s)" by blast
    with 2 shown show ?thesis by (intro that(2)) (simp_all add: shows_details_def)
  qed (use shown in \<open>auto intro: that(1,3)\<close>)
qed

lemma available_eq:
  "available s =
     and_then (modal_content s) (\<lambda>content.
     and_then (row_actions (list_section s)) (\<lambda>rows.
       Inr (if modalVisible s then RunCloseModal # behind content
            else [SetQuery, RunSearchMovies, RunFetchPopularMovies] @ rows)))"
  by (cases "modal_content s") (simp_all add: available_def render_def)

lemma available_cases:
  assumes "available s = Inr acts"
  obtains (modal) content where "modalVisible s" "modal_content s = Inr content"
      "acts = RunCloseModal # behind content"
  | (main) "\<not> modalVisible s"
      "acts = [SetQuery, RunSearchMovies, RunFetchPopularMovies] @
         (if loading s \<or> error s \<noteq> [] then [] else map RunOpenMovieModal (elements (movies s)))"
      "loading s \<or> error s \<noteq> [] \<or> list_all listable (elements (movies s))"
  using assms
  by (auto simp: available_eq and_then_eq_Inr_iff row_actions_list_section split: if_splits)

lemma can_cases:
  assumes "can act a"
  obtains (close) "modalVisible (view a)" "act = RunCloseModal"
  | (trailer) "modalVisible (view a)" "act = WatchTrailer (trailerUrl (view a))"
      "truthy (trailerUrl (view a))" "truthy (selectedMovie (view a))"
      "printable (trailerUrl (view a))"
  | (provider) "modalVisible (view a)" "act = WatchProvider (selectedMovie (view a))"
      "truthy (selectedMovie (view a))"
  | (main) "\<not> modalVisible (view a)" "act \<in> {SetQuery, RunSearchMovies, RunFetchPopularMovies}"
  | (row) item where "\<not> modalVisible (view a)" "\<not> loading (view a)" "error (view a) = []"
      "act = RunOpenMovieModal item" "item \<in> set (elements (movies (view a)))" "has_id item"
      "listable item"
proof -
  from assms obtain acts where acts: "available (view a) = Inr acts" "act \<in> set acts"
    by (auto simp: can_def split: sum.splits)
  from acts(1) show ?thesis
  proof (cases rule: available_cases)
    case (modal content)
    show ?thesis
    proof (cases "act = RunCloseModal")
      case True
      with modal(1) show ?thesis by (rule that(1))
    next
      case False
      with acts(2) modal(3) have "act \<in> set (behind content)" by simp
      with modal(2) show ?thesis
        using modal(1) False by (cases rule: modal_action_cases) (auto intro: that(2,3))
    qed
  next
    case main
    with acts(2) show ?thesis
      using that(4,5) by (auto simp: list_all_iff listable_has_id split: if_splits)
  qed
qed

section \<open>The fields of a state after a step\<close>

lemma issue_simps [simp]:
  "view (issue req a) = view a" "console (issue req a) = console a"
  "opened (issue req a) = opened a" "unhandled (issue req a) = unhandled a"
  "pending (issue req a) = pending a @ (case req of None \<Rightarrow> [] | Some q \<Rightarrow> [q])"
  by (simp_all add: issue_def split: option.splits)

lemma view_resume:
  "view (resume q r a) =
     (case fst q of
        SearchMovies \<Rightarrow> searchMovies_settled r (view a)
      | FetchPopularMovies \<Rightarrow> fetchPopularMovies_settled r (view a)
      | FetchMovieDetails \<Rightarrow> fst (fetchMovieDetails_settled r (view a)))"
  by (cases q; cases "fst q") (auto split: prod.splits option.splits)

lemma console_resume:
  "console (resume q r a) =
     console a @
     (case fst q of
        FetchMovieDetails \<Rightarrow>
          (case snd (fetchMovieDetails_settled r (view a)) of None \<Rightarrow> [] | Some err \<Rightarrow> [err])
      | _ \<Rightarrow> [])"
  by (cases q; cases "fst q") (auto split: prod.splits option.splits)

lemma resume_rest [simp]:
  "unhandled (resume q r a) = unhandled a"
  "opened (resume q r a) = opened a"
  "pending (resume q r a) = pending a"
  by (cases q; cases "fst q"; simp split: prod.splits option.splits)+

lemma resume_frame [frame]:
  "selectedMovie (view (resume q r a)) = selectedMovie (view a)"
  "modalVisible (view (resume q r a)) = modalVisible (view a)"
  "query (view (resume q r a)) = query (view a)"
  by (simp_all add: view_resume frame split: caller.splits)

text \<open>What the handler behind a press does, on every branch.\<close>

lemmas press_eqs = searchMovies_def fetchPopularMovies_def openMovieModal_eq
  fetchMovieDetails_eq trailer_page_url_eq provider_page_url_eq

lemma view_perform:
  "view (perform k act a) =
     (case act of
        RunSearchMovies \<Rightarrow> fst (searchMovies k (view a))
      | RunFetchPopularMovies \<Rightarrow> fst (fetchPopularMovies k (view a))
      | RunOpenMovieModal item \<Rightarrow> fst (openMovieModal k item (view a))
      | RunCloseModal \<Rightarrow> closeModal (view a)
      | _ \<Rightarrow> view a)"
  by (cases act) (auto split: prod.splits sum.splits)

lemma pending_perform:
  "pending (perform k act a) =
     pending a @
     (case act of
        RunSearchMovies \<Rightarrow>
          (if query (view a) = [] then [] else [(SearchMovies, search_url k (query (view a)))])
      | RunFetchPopularMovies \<Rightarrow> [(FetchPopularMovies, popular_url k)]
      | RunOpenMovieModal item \<Rightarrow>
          (if nullish item \<or> \<not> printable (opt_prop item ''id'') then []
           else [(FetchMovieDetails, details_url k (to_string (opt_prop item ''id'')))])
      | _ \<Rightarrow> [])"
  by (cases act) (simp_all add: press_eqs)

lemma unhandled_perform:
  "unhandled (perform k act a) =
     unhandled a @
     (case act of
        RunOpenMovieModal item \<Rightarrow> (if nullish item then [TypeError] else [])
      | WatchTrailer key \<Rightarrow> (if printable key then [] else [TypeError])
      | WatchProvider movie \<Rightarrow>
          (if nullish movie \<or> \<not> printable (opt_prop movie ''id'') then [TypeError] else [])
      | _ \<Rightarrow> [])"
  by (cases act) (simp_all add: press_eqs)

lemma opened_perform:
  "opened (perform k act a) =
     opened a @
     (case act of
        WatchTrailer key \<Rightarrow>
          (case trailer_page_url key of Inl err \<Rightarrow> [] | Inr url \<Rightarrow> [url])
      | WatchProvider movie \<Rightarrow>
          (case provider_page_url movie of Inl err \<Rightarrow> [] | Inr url \<Rightarrow> [url])
      | _ \<Rightarrow> [])"
  by (cases act) (auto split: prod.splits sum.splits)

lemma console_perform:
  "console (perform k act a) =
     console a @
     (case act of
        RunOpenMovieModal item \<Rightarrow>
          (if \<not> nullish item \<and> \<not> printable (opt_prop item ''id'') then [TypeError] else [])
      | _ \<Rightarrow> [])"
  by (cases act) (simp_all add: press_eqs)

lemmas perform_fields = view_perform pending_perform unhandled_perform opened_perform
  console_perform
lemmas step_simps = perform.simps resume.simps

declare perform.simps [simp del] resume.simps [simp del]

section \<open>The step function and the step relation\<close>

lemma step_iff: "step env k a e a' \<longleftrightarrow> permits env e a \<and> app_step k e a = Some a'"
  by (cases e) (auto intro: step.intros)

lemma run_append:
  "run env k (es @ es') a = (case run env k es a of None \<Rightarrow> None | Some a' \<Rightarrow> run env k es' a')"
  by (induction es arbitrary: a) (simp_all split: option.splits)

lemma run_reachable:
  "reachable env k a \<Longrightarrow> run env k es a = Some a' \<Longrightarrow> reachable env k a'"
proof (induction es arbitrary: a)
  case Nil
  then show ?case by simp
next
  case (Cons e es)
  from Cons.prems(2) obtain b where b: "permits env e a" "app_step k e a = Some b"
      "run env k es b = Some a'"
    by (auto split: if_splits option.splits)
  then have "step env k a e b" by (simp add: step_iff)
  with Cons.prems(1) have "reachable env k b" by (rule reachable.next_step)
  then show ?case using b(3) by (rule Cons.IH)
qed

lemma reachable_run: "reachable env k a \<Longrightarrow> \<exists>es. run env k es initial_app = Some a"
proof (induction rule: reachable.induct)
  case start
  have "run env k [] initial_app = Some initial_app" by simp
  then show ?case by blast
next
  case (next_step a e a')
  then obtain es where "run env k es initial_app = Some a" by blast
  with next_step(2) have "run env k (es @ [e]) initial_app = Some a'"
    by (simp add: run_append step_iff)
  then show ?case by blast
qed

section \<open>Invariants and services\<close>

text \<open>
  What holds at the start and is kept by every step holds in every reachable state; a
  state that is reachable under a service is reachable under every service that
  permits at least the same outcomes.
\<close>

lemma reachable_invariant:
  assumes "reachable env k a" and "P initial_app"
    and "\<And>a e a'. step env k a e a' \<Longrightarrow> P a \<Longrightarrow> P a'"
  shows "P a"
  using assms(1) by (induction rule: reachable.induct) (auto intro: assms(2,3))

lemma step_mono:
  assumes "step env k a e a'" and "\<And>q r. env q r \<Longrightarrow> env' q r"
  shows "step env' k a e a'"
  using assms(1) by (cases rule: step.cases) (auto intro: step.intros assms(2))

lemma reachable_mono:
  assumes "reachable env k a" and "\<And>q r. env q r \<Longrightarrow> env' q r"
  shows "reachable env' k a"
  using assms(1)
  by (induction rule: reachable.induct) (blast intro: reachable.intros step_mono assms(2))+

end
