(* ===== verification/Invariants.thy ===== *)
theory Invariants
  imports App
begin

text \<open>
  What holds in every state that the application can reach: the invariants, the lemma
  that each step keeps each of them, and the step lemma for well-formed states under a
  service that answers with documents of the documented shapes.
\<close>

section \<open>Invariants\<close>

text \<open>A request of one of the two list handlers.\<close>

definition list_request :: "request \<Rightarrow> bool" where
  "list_request q \<longleftrightarrow> fst q \<noteq> FetchMovieDetails"

definition inv_modal :: "app \<Rightarrow> bool" where
  "inv_modal a \<longleftrightarrow>
     (selectedMovie (view a) = JNull \<or> listable (selectedMovie (view a))) \<and>
     (modalVisible (view a) \<longrightarrow> listable (selectedMovie (view a))) \<and>
     unhandled a = []"

definition inv_error :: "app \<Rightarrow> bool" where
  "inv_error a \<longleftrightarrow>
     error (view a) \<in> set [[], ''Failed to fetch movies'', ''Failed to fetch popular movies'']"

definition inv_loading :: "app \<Rightarrow> bool" where
  "inv_loading a \<longleftrightarrow> (loading (view a) \<longrightarrow> list_ex list_request (pending a))"

section \<open>Outcomes under the documented service\<close>

lemma documented_list_outcome:
  assumes "documented_service q r" and "fst q \<noteq> FetchMovieDetails"
  shows "list_fails r \<or> (\<exists>data. r = Body data \<and> list_document data)"
  using assms by (cases q; cases r; cases "fst q") (auto simp: list_fails_def)

lemma documented_detail_outcome:
  assumes "documented_service q r" and "fst q = FetchMovieDetails"
  shows "r = Rejected \<or> r = Unparsable \<or> (\<exists>data. r = Body data \<and> detail_document data)"
  using assms by (cases q; cases r) auto

section \<open>Each step keeps the invariants\<close>

lemma step_inv_modal:
  assumes "step env k a e a'" and "inv_modal a"
  shows "inv_modal a'"
  using assms(1)
proof (cases rule: step.cases)
  case (change_text t)
  with assms(2) show ?thesis by (simp add: inv_modal_def frame)
next
  case (press act)
  from press(4) show ?thesis
  proof (cases rule: can_cases)
    case provider
    with assms(2) have "listable (selectedMovie (view a))"
      by (simp add: inv_modal_def)
    then have "\<not> nullish (selectedMovie (view a))"
      "printable (opt_prop (selectedMovie (view a)) ''id'')"
      by (simp_all add: listable_not_nullish listable_def)
    with provider press assms(2) show ?thesis
      by (simp add: inv_modal_def perform_fields)
  next
    case (row item)
    then have "\<not> nullish item" by (simp add: has_id_not_nullish)
    with row press assms(2) show ?thesis
      by (simp add: inv_modal_def perform_fields frame)
  qed (use press assms(2) in \<open>auto simp: inv_modal_def perform_fields frame\<close>)
next
  case (settle i r)
  with assms(2) show ?thesis by (simp add: inv_modal_def frame)
qed

lemma step_inv_error:
  assumes "step env k a e a'" and "inv_error a"
  shows "inv_error a'"
  using assms(1)
proof (cases rule: step.cases)
  case (change_text t)
  with assms(2) show ?thesis by (simp add: inv_error_def frame)
next
  case (press act)
  with assms(2) show ?thesis
    by (cases act) (simp_all add: inv_error_def perform_fields frame)
next
  case (settle i r)
  with assms(2) error_settled [of r "view a"] show ?thesis
    by (auto simp: inv_error_def view_resume frame split: caller.splits)
qed

lemma step_inv_loading:
  assumes "step env k a e a'" and "inv_loading a"
  shows "inv_loading a'"
  using assms(1)
proof (cases rule: step.cases)
  case (change_text t)
  with assms(2) show ?thesis by (simp add: inv_loading_def frame)
next
  case (press act)
  with assms(2) show ?thesis
    by (cases act)
      (auto simp: inv_loading_def perform_fields frame list_request_def fetchMovieDetails_def)
next
  case (settle i r)
  show ?thesis
  proof (cases "list_request (pending a ! i)")
    case True
    with settle show ?thesis
      by (simp add: inv_loading_def view_resume list_request_def list_handlers_loading
          split: caller.splits)
  next
    case False
    with settle have "loading (view a') = loading (view a)"
      by (simp add: view_resume list_request_def frame)
    with settle False assms(2) show ?thesis
      by (auto simp: inv_loading_def intro: list_ex_remove_nth)
  qed
qed

section \<open>Well-formed states under a documented service\<close>

lemma well_formed_list_settled:
  assumes "well_formed s" and "documented_service (c, url) r" and "c \<noteq> FetchMovieDetails"
  shows "well_formed (list_settled message r s)"
proof (rule list_settled_cases [of r message s])
  assume "list_settled message r s = s\<lparr>error := message, loading := False\<rparr>"
  with assms(1) show ?thesis by (simp add: well_formed_def)
next
  fix data
  assume r: "r = Body data" and t: "truthy (opt_prop data ''results'')"
    and eq: "list_settled message r s =
      s\<lparr>movies := opt_prop data ''results'', error := [], loading := False\<rparr>"
  from assms(2,3) r have "list_document data" by (cases c) simp_all
  with t have "results_page data"
    by (auto simp: list_document_def nullish_not_truthy)
  with assms(1) eq show ?thesis by (simp add: well_formed_def results_page_def)
next
  assume "list_settled message r s = s\<lparr>loading := False\<rparr>"
  with assms(1) show ?thesis by (simp add: well_formed_def)
qed

lemma well_formed_details_settled:
  assumes "well_formed s" and "documented_service (FetchMovieDetails, url) r"
  shows "well_formed (fst (fetchMovieDetails_settled r s))"
proof (cases "snd (fetchMovieDetails_settled r s)")
  case None
  then obtain data where r: "r = Body data"
    by (cases r) (simp_all add: fetchMovieDetails_settled_def)
  with assms(2) have doc: "detail_document data" by simp
  then have "fetchMovieDetails_settled r s =
      (s\<lparr>trailerUrl := opt_prop (first_trailer (elements (video_results data))) ''key'',
         downloadLinks := js_or (us_flatrate data) (JArr [])\<rparr>, None)"
    unfolding r by (simp add: fetchMovieDetails_settled_def store_details_eq find_trailer_document)
  with assms(1) doc show ?thesis
    by (simp add: well_formed_def detail_document_links detail_document_trailer)
next
  case (Some err)
  then have "fst (fetchMovieDetails_settled r s) = s"
    by (auto simp: fetchMovieDetails_settled_def store_details_eq split: sum.splits)
  with assms(1) show ?thesis by simp
qed

lemma step_well_formed:
  assumes "step documented_service k a e a'" and "well_formed (view a)"
  shows "well_formed (view a')"
  using assms(1)
proof (cases rule: step.cases)
  case (change_text t)
  with assms(2) show ?thesis by (simp add: well_formed_def frame)
next
  case (press act)
  from press(4) show ?thesis
  proof (cases rule: can_cases)
    case (row item)
    with press assms(2) show ?thesis
      by (simp add: well_formed_def perform_fields frame)
  qed (use press assms(2) in \<open>auto simp: well_formed_def perform_fields frame\<close>)
next
  case (settle i r)
  obtain c url where q: "pending a ! i = (c, url)" by (cases "pending a ! i")
  with settle assms(2) show ?thesis
    by (cases c)
      (simp_all add: view_resume searchMovies_settled_def fetchPopularMovies_settled_def
        well_formed_list_settled [of _ c url] well_formed_details_settled [of _ url])
qed

lemma well_formed_available: "well_formed s \<Longrightarrow> \<not> throws (available s)"
  by (auto simp: available_eq throws_and_then row_actions_list_section modal_content_eq
      well_formed_shows_details well_formed_def renderDownloadOptions_link_array
      movie_array_def)

section \<open>Reachable states\<close>

lemma reachable_inv_modal: "reachable env k a \<Longrightarrow> inv_modal a"
  by (erule reachable_invariant) (simp add: inv_modal_def initial_app_def, erule (1) step_inv_modal)

lemma reachable_inv_error: "reachable env k a \<Longrightarrow> inv_error a"
  by (erule reachable_invariant) (simp add: inv_error_def initial_app_def, erule (1) step_inv_error)

lemma reachable_inv_loading: "reachable env k a \<Longrightarrow> inv_loading a"
  by (erule reachable_invariant) (simp add: inv_loading_def initial_app_def, erule (1) step_inv_loading)

lemma reachable_well_formed: "reachable documented_service k a \<Longrightarrow> well_formed (view a)"
  by (erule reachable_invariant) (simp add: initial_app_def well_formed_initial, erule (1) step_well_formed)

end
