(* ===== verification/Scenarios.thy ===== *)
theory Scenarios
  imports Invariants
begin

text \<open>
  Runs of the application on concrete answers of the service, and the properties of
  single steps that they are instances of: what happens when requests overlap or
  settle after the screen has moved on, what a list answer with an item that cannot
  be drawn does to the screen, and which answers can settle in either order. The
  handlers of \<^verbatim>\<open>src/App.js\<close> carry no token of the request they belong to, so each
  outcome is applied to whatever state it meets.
\<close>

section \<open>Evaluation\<close>

text \<open>The definitions that evaluating a run on concrete data unfolds.\<close>

lemmas eval_defs = can_def available_eq modal_content_eq row_actions_list_section
  detail_view_def trailer_section_def shows_details_def renderDownloadOptions_def step_simps issue_def
  handler_defs trailer_page_url_eq provider_page_url_eq
  search_url_def popular_url_def details_url_def remove_nth_def initial_app_def
  has_id_def listable_def linkable_def results_page_def list_document_def
  detail_document_def movie_array_def link_array_def
  video_results_def us_flatrate_def string_or_absent_def object_array_def any_service_def

section \<open>Documents and runs\<close>

definition alien :: jsval where
  "alien = JObj [(''id'', JNum 1), (''title'', JStr ''Alien'')]"
definition brazil :: jsval where
  "brazil = JObj [(''id'', JNum 2), (''title'', JStr ''Brazil'')]"
definition page_a :: jsval where
  "page_a = JObj [(''results'', JArr [alien])]"
definition page_b :: jsval where
  "page_b = JObj [(''results'', JArr [brazil])]"
definition page_ab :: jsval where
  "page_ab = JObj [(''results'', JArr [alien, brazil])]"
definition details_of :: "string \<Rightarrow> jsval" where
  "details_of key = JObj [(''videos'', JObj [(''results'',
      JArr [JObj [(''type'', JStr ''Trailer''), (''key'', JStr key)]])])]"

lemmas scenario_data = alien_def brazil_def page_a_def page_b_def page_ab_def details_of_def


text \<open>
  Two searches in flight, of which the second has settled: the user searches for
  \<^verbatim>\<open>a\<close>, then for \<^verbatim>\<open>b\<close> before the first answer has come, and the answer for
  \<^verbatim>\<open>b\<close> arrives first.
\<close>

definition overlapping_searches :: "event list" where
  "overlapping_searches =
     [ChangeText ''a'', Press RunSearchMovies, ChangeText ''b'', Press RunSearchMovies,
      Settle 1 (Body page_b)]"

definition second_search_settled :: app where
  "second_search_settled =
     initial_app\<lparr>view := initial_state\<lparr>query := ''b'', movies := JArr [brazil]\<rparr>,
       pending := [(SearchMovies, ''https://api.themoviedb.org/3/search/movie?api_key=k&query=a'')]\<rparr>"

text \<open>
  Two movies opened one after the other, of which the second has its details: the user
  opens the first movie, closes the modal before its details have come, opens the
  second movie, and the details of the second arrive first.
\<close>

definition two_movies_opened :: "event list" where
  "two_movies_opened =
     [Press RunFetchPopularMovies, Settle 0 (Body page_ab),
      Press (RunOpenMovieModal alien), Press RunCloseModal,
      Press (RunOpenMovieModal brazil), Settle 1 (Body (details_of ''trailer-of-brazil''))]"

definition brazil_shown :: app where
  "brazil_shown =
     initial_app\<lparr>view := initial_state\<lparr>movies := JArr [alien, brazil], selectedMovie := brazil,
         modalVisible := True, trailerUrl := JStr ''trailer-of-brazil''\<rparr>,
       pending := [(FetchMovieDetails,
         ''https://api.themoviedb.org/3/movie/1?api_key=k&append_to_response=videos,watch/providers'')]\<rparr>"

text \<open>A movie opened from the popular list, before its details have come.\<close>

definition batman :: jsval where
  "batman = JObj [(''id'', JNum 268), (''title'', JStr ''Batman''),
                  (''release_date'', JStr ''1989-06-23''), (''vote_average'', JDec ''7.2'')]"

definition open_batman :: "event list" where
  "open_batman =
     [Press RunFetchPopularMovies, Settle 0 (Body batman_page), Press (RunOpenMovieModal batman)]"

definition batman_opened :: app where
  "batman_opened =
     initial_app\<lparr>view := initial_state\<lparr>movies := JArr [batman], selectedMovie := batman,
                   modalVisible := True\<rparr>,
       pending := [(FetchMovieDetails,
         ''https://api.themoviedb.org/3/movie/268?api_key=k&append_to_response=videos,watch/providers'')]\<rparr>"

text \<open>The popular list requested, and the request rejected.\<close>

definition popular_requested :: app where
  "popular_requested =
     initial_app\<lparr>view := initial_state\<lparr>loading := True\<rparr>,
       pending := [(FetchPopularMovies, ''https://api.themoviedb.org/3/movie/popular?api_key=k'')]\<rparr>"

definition popular_failed :: app where
  "popular_failed =
     initial_app\<lparr>view := initial_state\<lparr>error := ''Failed to fetch popular movies''\<rparr>\<rparr>"

text \<open>
  A list with an entry that is \<^verbatim>\<open>null\<close>, and one with an entry whose \<^verbatim>\<open>id\<close>
  does not convert to a string.
\<close>

definition null_entry_page :: jsval where
  "null_entry_page = JObj [(''results'', JArr [alien, JNull])]"

definition odd_id_page :: jsval where
  "odd_id_page = JObj [(''results'', JArr [alien, unprintable_id])]"

text \<open>
  The states in which the list is on screen and one of its items cannot be drawn, and
  the requests in flight among which none is a list request.
\<close>

definition blocked :: "app \<Rightarrow> bool" where
  "blocked a \<longleftrightarrow>
     \<not> loading (view a) \<and> error (view a) = [] \<and>
     \<not> list_all listable (elements (movies (view a)))"

definition only_details :: "request list \<Rightarrow> bool" where
  "only_details qs \<longleftrightarrow> list_all (\<lambda>q. \<not> list_request q) qs"

section \<open>The runs reach their states\<close>

lemma run_overlapping_searches:
  "run documented_service ''k'' overlapping_searches initial_app = Some second_search_settled"
  by (simp add: overlapping_searches_def second_search_settled_def eval_defs scenario_data)

lemma run_two_movies_opened:
  "run documented_service ''k'' two_movies_opened initial_app = Some brazil_shown"
  by (simp add: two_movies_opened_def brazil_shown_def eval_defs scenario_data show_simps)

lemma run_open_batman: "run documented_service ''k'' open_batman initial_app = Some batman_opened"
  by (simp add: open_batman_def batman_opened_def batman_def batman_page_def eval_defs show_simps)

lemma run_popular_requested:
  "run documented_service ''k'' [Press RunFetchPopularMovies] initial_app = Some popular_requested"
  by (simp add: popular_requested_def eval_defs)

lemma run_popular_failed:
  "run documented_service ''k'' [Press RunFetchPopularMovies, Settle 0 Rejected] initial_app =
     Some popular_failed"
  by (simp add: popular_failed_def eval_defs)

lemma reachable_popular_requested: "reachable documented_service ''k'' popular_requested"
  using reachable.start run_popular_requested by (rule run_reachable)

lemma reachable_popular_failed: "reachable documented_service ''k'' popular_failed"
  using reachable.start run_popular_failed by (rule run_reachable)

lemma reachable_second_search_settled: "reachable documented_service ''k'' second_search_settled"
  using reachable.start run_overlapping_searches by (rule run_reachable)

lemma reachable_brazil_shown: "reachable documented_service ''k'' brazil_shown"
  using reachable.start run_two_movies_opened by (rule run_reachable)

lemma reachable_batman_opened: "reachable documented_service ''k'' batman_opened"
  using reachable.start run_open_batman by (rule run_reachable)

lemma results_page_a: "results_page page_a"
  by (simp add: results_page_def has_id_def listable_def scenario_data)

lemma detail_document_details_of: "detail_document (details_of key)"
  by (simp add: detail_document_def details_of_def video_results_def us_flatrate_def
      string_or_absent_def)

section \<open>A list that cannot be drawn\<close>

lemma blocked_throws: "blocked a \<Longrightarrow> throws (available (view a))"
  by (cases "modal_content (view a)")
    (simp_all add: blocked_def available_eq row_actions_list_section)

lemma blocked_no_action: "blocked a \<Longrightarrow> \<not> can act a"
  using blocked_throws [of a] by (cases "available (view a)") (simp_all add: can_def)

lemma blocked_step:
  assumes "blocked a" and "only_details (pending a)" and "app_step k e a = Some a'"
  shows "blocked a' \<and> only_details (pending a')"
proof (cases e)
  case (Settle i r)
  with assms(3) have i: "i < length (pending a)"
    and a': "a' = resume (pending a ! i) r (a\<lparr>pending := remove_nth i (pending a)\<rparr>)"
    by (auto split: if_splits)
  from assms(2) i have "fst (pending a ! i) = FetchMovieDetails"
    by (simp add: only_details_def list_all_length list_request_def)
  with assms(1,2) a' show ?thesis
    by (simp add: blocked_def only_details_def view_resume frame list_all_remove_nth)
qed (use assms(1,3) blocked_no_action in \<open>auto split: if_splits\<close>)

lemma blocked_run:
  "blocked a \<Longrightarrow> only_details (pending a) \<Longrightarrow> run env k es a = Some a' \<Longrightarrow> blocked a'"
proof (induction es arbitrary: a)
  case (Cons e es)
  from Cons.prems(3) obtain b where b: "app_step k e a = Some b" "run env k es b = Some a'"
    by (auto split: if_splits option.splits)
  from blocked_step [OF Cons.prems(1,2) b(1)] b(2) show ?case
    by (auto intro: Cons.IH)
qed simp

section \<open>Overlapping and late requests\<close>

text \<open>
  C13. The answer that settles last wins, whatever was asked last: when a search request
  in flight settles with a page of results, the list becomes that page, the query on
  screen stays, and the request leaves the requests in flight; nothing compares the
  answer with the current query. After two overlapping searches of which the second
  settles first, the list shows the results of the first query under the text of the
  second.
\<close>

theorem stale_search_overwrites_list:
  assumes "i < length (pending a)" and "fst (pending a ! i) = SearchMovies"
    and "results_page data"
  shows "\<exists>a'. app_step k (Settle i (Body data)) a = Some a' \<and>
     movies (view a') = opt_prop data ''results'' \<and> query (view a') = query (view a) \<and>
     pending a' = remove_nth i (pending a)"
  using assms
  by (simp add: view_resume frame searchMovies_settled_def list_settled_success
      results_page_def results_page_truthy is_object_not_nullish)

theorem stale_search_overwrites_list_witness:
  "reachable documented_service ''k'' second_search_settled \<and>
   0 < length (pending second_search_settled) \<and>
   fst (pending second_search_settled ! 0) = SearchMovies \<and> results_page page_a \<and>
   query (view second_search_settled) = ''b'' \<and>
   (\<exists>a'. app_step ''k'' (Settle 0 (Body page_a)) second_search_settled = Some a' \<and>
      movies (view a') = JArr [alien] \<and> query (view a') = ''b'' \<and> pending a' = [])"
  using stale_search_overwrites_list [of 0 second_search_settled page_a "''k''"]
  by (simp add: results_page_a reachable_second_search_settled)
    (simp add: second_search_settled_def initial_app_def remove_nth_def page_a_def)

text \<open>
  C14. Late details are shown for the wrong movie: when a detail request in flight
  settles with a detail document, its trailer key and its providers are stored whatever
  movie is selected by then and whether or not the modal is still open. After opening a second movie
  while the details of the first are in flight, the modal of the second movie can show
  the trailer of the first.
\<close>

theorem stale_details_overwrite:
  assumes "i < length (pending a)" and "fst (pending a ! i) = FetchMovieDetails"
    and "detail_document data"
  shows "\<exists>a'. app_step k (Settle i (Body data)) a = Some a' \<and>
     trailerUrl (view a') = opt_prop (first_trailer (elements (video_results data))) ''key'' \<and>
     downloadLinks (view a') = js_or (us_flatrate data) (JArr []) \<and>
     selectedMovie (view a') = selectedMovie (view a) \<and>
     modalVisible (view a') = modalVisible (view a)"
  using assms
  by (simp add: view_resume frame fetchMovieDetails_settled_def store_details_eq
      find_trailer_document)

theorem stale_details_overwrite_witness:
  "reachable documented_service ''k'' brazil_shown \<and>
   0 < length (pending brazil_shown) \<and> fst (pending brazil_shown ! 0) = FetchMovieDetails \<and>
   detail_document (details_of ''trailer-of-alien'') \<and>
   (\<exists>a'. app_step ''k'' (Settle 0 (Body (details_of ''trailer-of-alien''))) brazil_shown = Some a' \<and>
      selectedMovie (view a') = brazil \<and> trailerUrl (view a') = JStr ''trailer-of-alien'')"
  using stale_details_overwrite [of 0 brazil_shown "details_of ''trailer-of-alien''" "''k''"]
  by (simp add: detail_document_details_of reachable_brazil_shown)
    (simp add: brazil_shown_def initial_app_def details_of_def video_results_def first_trailer_def)

text \<open>
  C21. The first list request to settle hides the spinner for all of them: when a list
  request in flight settles, with any outcome, the loading flag is off afterwards and
  only that request leaves the requests in flight. With two searches in flight the
  screen stops showing the spinner while one of them is still under way.
\<close>

theorem first_settle_hides_spinner:
  assumes "i < length (pending a)" and "list_request (pending a ! i)"
  shows "\<exists>a'. app_step k (Settle i r) a = Some a' \<and> \<not> loading (view a') \<and>
     pending a' = remove_nth i (pending a)"
  using assms by (auto simp: view_resume list_request_def split: caller.splits)

theorem first_settle_hides_spinner_witness:
  "reachable documented_service ''k'' second_search_settled \<and>
   \<not> loading (view second_search_settled) \<and>
   list_ex list_request (pending second_search_settled) \<and>
   (\<exists>a'. app_step ''k'' (Settle 0 Rejected) second_search_settled = Some a' \<and>
      \<not> loading (view a') \<and> pending a' = [])"
  using first_settle_hides_spinner [of 0 second_search_settled "''k''" Rejected]
  by (simp add: reachable_second_search_settled)
    (simp add: second_search_settled_def initial_app_def list_request_def remove_nth_def)

text \<open>
  C37. One entry that the list cannot draw takes the screen away. When a list request
  settles with a document whose \<^verbatim>\<open>results\<close> is an array with an item that is not
  listable (\<^verbatim>\<open>null\<close>, an item without an \<^verbatim>\<open>id\<close>, an item whose \<^verbatim>\<open>id\<close>,
  poster path or release date does not convert to a string), the handler stores the
  array as it is, in whatever state the answer arrives; drawing the rows then throws,
  and no element of the screen can be used. When no other list request is in flight,
  this stays so for ever: after every run from that state the screen still offers
  nothing, since only the answers to detail requests can follow and they leave the list
  alone.
\<close>

theorem unlistable_entry_blocks_screen:
  assumes "i < length (pending a)" and "list_request (pending a ! i)"
    and "opt_prop data ''results'' = JArr items" and "\<not> list_all listable items"
  shows "\<exists>a'. app_step k (Settle i (Body data)) a = Some a' \<and>
      movies (view a') = JArr items \<and> throws (list_rows items) \<and>
      (\<forall>act. \<not> can act a') \<and>
      (only_details (pending a') \<longrightarrow>
         (\<forall>es a''. run env k es a' = Some a'' \<longrightarrow> (\<forall>act. \<not> can act a'')))"
proof -
  let ?a' = "resume (pending a ! i) (Body data) (a\<lparr>pending := remove_nth i (pending a)\<rparr>)"
  from assms(3) have data: "\<not> nullish data" "truthy (opt_prop data ''results'')"
    by (cases data; simp)+
  with assms(2,3) have view:
    "view ?a' = (view a)\<lparr>movies := JArr items, error := [], loading := False\<rparr>"
    by (simp add: view_resume list_request_def searchMovies_settled_def
        fetchPopularMovies_settled_def list_settled_success split: caller.splits)
  with assms(4) have "blocked ?a'"
    by (simp add: blocked_def)
  with assms(1,4) view show ?thesis
    by (auto simp: list_rows_eq dest: blocked_no_action blocked_run)
qed

theorem unlistable_entry_blocks_screen_witness:
  "list_request (pending popular_requested ! 0) \<and>
   \<not> list_all listable [alien, JNull] \<and> \<not> list_all listable [alien, unprintable_id] \<and>
   (\<exists>a. run any_service ''k'' [Press RunFetchPopularMovies, Settle 0 (Body null_entry_page)]
          initial_app = Some a \<and>
       movies (view a) = JArr [alien, JNull] \<and> pending a = [] \<and> (\<forall>act. \<not> can act a)) \<and>
   (\<exists>a. run any_service ''k'' [Press RunFetchPopularMovies, Settle 0 (Body odd_id_page)]
          initial_app = Some a \<and>
       movies (view a) = JArr [alien, unprintable_id] \<and> throws (key_of unprintable_id) \<and>
       (\<forall>act. \<not> can act a))"
proof -
  have run: "run any_service ''k'' [Press RunFetchPopularMovies, Settle 0 r] initial_app =
      app_step ''k'' (Settle 0 r) popular_requested" for r
    by (simp add: popular_requested_def eval_defs)
  have pending: "pending popular_requested = [(FetchPopularMovies, popular_url ''k'')]"
    by (simp add: popular_requested_def initial_app_def popular_url_def)
  have items: "\<not> list_all listable [alien, JNull]" "\<not> list_all listable [alien, unprintable_id]"
    by (simp_all add: listable_def has_id_def unprintable_id_def)
  from unlistable_entry_blocks_screen [of 0 popular_requested null_entry_page "[alien, JNull]"
      "''k''" any_service]
    unlistable_entry_blocks_screen [of 0 popular_requested odd_id_page
      "[alien, unprintable_id]" "''k''" any_service]
    items
  show ?thesis
    unfolding run
    by (auto simp: pending list_request_def null_entry_page_def odd_id_page_def
        remove_nth_def key_of_eq unprintable_id_def)
qed

section \<open>Answers that do not race\<close>

text \<open>
  C16. A list answer and a detail answer can settle in either order: the list handlers
  write the list, the error and the loading flag, the detail handler writes the
  trailer key and the providers, and neither reads what the other writes, so both
  orders end in the same state and log the same error. The races of the application
  are those among list requests and those among detail requests.
\<close>

theorem list_and_detail_answers_commute:
  "list_settled message r (fst (fetchMovieDetails_settled r' s)) =
     fst (fetchMovieDetails_settled r' (list_settled message r s)) \<and>
   snd (fetchMovieDetails_settled r' (list_settled message r s)) =
     snd (fetchMovieDetails_settled r' s)"
  by (rule list_settled_cases [of r message s]; cases r')
    (auto simp: list_settled_failure list_settled_success list_settled_no_results
      fetchMovieDetails_settled_def store_details_eq split: sum.splits)

end
