(* ===== verification/Controller.thy ===== *)
theory Controller
  imports Scenarios "HOL-Library.Multiset"
begin

text \<open>
  The view-state controller that the specification describes, and the sense in which
  the handlers of \<^verbatim>\<open>src/App.js\<close> implement it. The specification gives a typed
  state (an optional error, an optional selected movie, an optional trailer key,
  sequences of movies and providers) and one operation per user action and per outcome
  of a request. \<open>abs_state\<close> reads such a state off a view state of the source, and
  the refinement theorem shows that every run of the application under the documented
  service is the sequence of operations that the specification gives for its events,
  except for two kinds of steps, which \<open>conforms\<close> singles out and which are
  characterised separately. The specified controller is also given as a transition
  system, \<open>spec_step\<close>, over the specified state and the requests in flight: it
  says when an operation may happen (a movie that is opened is one of the list, an
  outcome belongs to a request in flight) and that each request is answered once. The
  application simulates it.
\<close>

section \<open>The specified state\<close>

text \<open>
  The state of the specification (its data model). Movies and providers are kept as the
  values of the response: the specification treats them as immutable once received.
\<close>

record spec_state =
  sQuery :: string
  sMovies :: "jsval list"
  sLoading :: bool
  sError :: "string option"
  sSelected :: "jsval option"
  sModalOpen :: bool
  sTrailerKey :: "string option"
  sProviders :: "jsval list"

text \<open>
  The operations of the specification: the user actions (typing, search, list of
  popular movies, open and close of the detail view, opening an external page), and
  the outcomes of the requests that they start, with what each outcome carries.
\<close>

datatype spec_op =
    Type string
  | Search
  | ListPopular
  | ListSucceeded "jsval list"
  | ListFailed string
  | OpenDetail jsval
  | DetailSucceeded "string option" "jsval list"
  | DetailFailed
  | CloseDetail
  | OpenPage

text \<open>
  The effect of an operation as the specification words it: a search with an empty
  query is a no-op; a result replaces the list and clears the error; a failure sets the
  message and keeps the list; both clear the loading flag; opening a movie selects it,
  shows the detail view and clears the trailer and the providers of the movie shown
  before; closing hides the detail view and clears nothing; a failed detail request
  changes nothing.
\<close>

fun spec_apply :: "spec_op \<Rightarrow> spec_state \<Rightarrow> spec_state" where
  "spec_apply (Type t) st = st\<lparr>sQuery := t\<rparr>"
| "spec_apply Search st = (if sQuery st = [] then st else st\<lparr>sLoading := True\<rparr>)"
| "spec_apply ListPopular st = st\<lparr>sLoading := True\<rparr>"
| "spec_apply (ListSucceeded ms) st = st\<lparr>sMovies := ms, sError := None, sLoading := False\<rparr>"
| "spec_apply (ListFailed message) st = st\<lparr>sError := Some message, sLoading := False\<rparr>"
| "spec_apply (OpenDetail m) st =
     st\<lparr>sSelected := Some m, sModalOpen := True, sTrailerKey := None, sProviders := []\<rparr>"
| "spec_apply (DetailSucceeded key providers) st =
     st\<lparr>sTrailerKey := key, sProviders := providers\<rparr>"
| "spec_apply DetailFailed st = st"
| "spec_apply CloseDetail st = st\<lparr>sModalOpen := False\<rparr>"
| "spec_apply OpenPage st = st"

section \<open>The abstraction\<close>

text \<open>
  The specified state of a view state: the empty error text is no error, \<^verbatim>\<open>null\<close>
  is no selected movie, a trailer key is present when it is a string, and a value that
  is not an array holds no movies or providers.
\<close>

fun text_of :: "jsval \<Rightarrow> string option" where
  "text_of (JStr t) = Some t"
| "text_of v = None"

definition abs_state :: "view_state \<Rightarrow> spec_state" where
  "abs_state s =
     \<lparr> sQuery = query s,
       sMovies = elements (movies s),
       sLoading = loading s,
       sError = (if error s = [] then None else Some (error s)),
       sSelected = (if nullish (selectedMovie s) then None else Some (selectedMovie s)),
       sModalOpen = modalVisible s,
       sTrailerKey = text_of (trailerUrl s),
       sProviders = elements (downloadLinks s) \<rparr>"

text \<open>
  The operation that the specification gives for the outcome of a request: a failure
  when the request is rejected, the body is not JSON or the document is \<^verbatim>\<open>null\<close>;
  otherwise a success that carries the results, or the first trailer and the
  subscription providers of the region.
\<close>

definition list_outcome :: "string \<Rightarrow> fetch_result \<Rightarrow> spec_op" where
  "list_outcome message r =
     (case r of
        Body data \<Rightarrow>
          if nullish data then ListFailed message
          else ListSucceeded (elements (opt_prop data ''results''))
      | _ \<Rightarrow> ListFailed message)"

definition detail_outcome :: "fetch_result \<Rightarrow> spec_op" where
  "detail_outcome r =
     (case r of
        Body data \<Rightarrow>
          if nullish data then DetailFailed
          else DetailSucceeded
            (text_of (opt_prop (first_trailer (elements (video_results data))) ''key''))
            (elements (us_flatrate data))
      | _ \<Rightarrow> DetailFailed)"

text \<open>The operation that the specification gives for an event of the application.\<close>

fun spec_op_of :: "app \<Rightarrow> event \<Rightarrow> spec_op" where
  "spec_op_of a (ChangeText t) = Type t"
| "spec_op_of a (Press SetQuery) = OpenPage"
| "spec_op_of a (Press RunSearchMovies) = Search"
| "spec_op_of a (Press RunFetchPopularMovies) = ListPopular"
| "spec_op_of a (Press (RunOpenMovieModal item)) = OpenDetail item"
| "spec_op_of a (Press RunCloseModal) = CloseDetail"
| "spec_op_of a (Press (WatchTrailer key)) = OpenPage"
| "spec_op_of a (Press (WatchProvider movie)) = OpenPage"
| "spec_op_of a (Settle i r) =
     (case fst (pending a ! i) of
        SearchMovies \<Rightarrow> list_outcome ''Failed to fetch movies'' r
      | FetchPopularMovies \<Rightarrow> list_outcome ''Failed to fetch popular movies'' r
      | FetchMovieDetails \<Rightarrow> detail_outcome r)"

text \<open>
  The steps on which the source follows the specification: a movie is opened while no
  details of an earlier movie are in the state, and a list request is answered with a
  page of results and not with a document without results.
\<close>

fun conforms :: "app \<Rightarrow> event \<Rightarrow> bool" where
  "conforms a (Press (RunOpenMovieModal item)) \<longleftrightarrow>
     sTrailerKey (abs_state (view a)) = None \<and> sProviders (abs_state (view a)) = []"
| "conforms a (Settle i (Body data)) \<longleftrightarrow>
     fst (pending a ! i) = FetchMovieDetails \<or> results_page data"
| "conforms a e \<longleftrightarrow> True"

text \<open>
  The operations that the specification gives for the events of a run, and the runs
  on which the source follows the specification at every event.
\<close>

fun ops_of :: "string \<Rightarrow> event list \<Rightarrow> app \<Rightarrow> spec_op list" where
  "ops_of k [] a = []"
| "ops_of k (e # es) a =
     spec_op_of a e # (case app_step k e a of None \<Rightarrow> [] | Some a' \<Rightarrow> ops_of k es a')"

fun conforming :: "string \<Rightarrow> event list \<Rightarrow> app \<Rightarrow> bool" where
  "conforming k [] a = True"
| "conforming k (e # es) a =
     (conforms a e \<and> (case app_step k e a of None \<Rightarrow> True | Some a' \<Rightarrow> conforming k es a'))"

section \<open>The specified machine\<close>

text \<open>
  The controller of the specification as a transition system. Its state is the
  specified state together with the requests in flight, by the operation that started
  them; their order is immaterial, since any of them may settle next.
\<close>

record spec_app =
  sView :: spec_state
  sInFlight :: "caller multiset"

text \<open>
  The fixed message that a failed request leaves in the state: one for each of the two
  list requests, none for the detail request, whose failures are logged only.
\<close>

fun failure_message :: "caller \<Rightarrow> string option" where
  "failure_message SearchMovies = Some ''Failed to fetch movies''"
| "failure_message FetchPopularMovies = Some ''Failed to fetch popular movies''"
| "failure_message FetchMovieDetails = None"

text \<open>
  What the specification requires of a user operation (a movie that is opened is an
  element of the list), the request that it starts (a search with an empty query
  starts none), and the requests that an outcome can belong to.
\<close>

fun precondition :: "spec_op \<Rightarrow> spec_state \<Rightarrow> bool" where
  "precondition (OpenDetail m) st \<longleftrightarrow> m \<in> set (sMovies st)"
| "precondition op st \<longleftrightarrow> True"

fun request_of :: "spec_op \<Rightarrow> spec_state \<Rightarrow> caller multiset" where
  "request_of Search st = (if sQuery st = [] then {#} else {#SearchMovies#})"
| "request_of ListPopular st = {#FetchPopularMovies#}"
| "request_of (OpenDetail m) st = {#FetchMovieDetails#}"
| "request_of op st = {#}"

fun answers :: "spec_op \<Rightarrow> caller \<Rightarrow> bool" where
  "answers (ListSucceeded ms) q \<longleftrightarrow> q \<noteq> FetchMovieDetails"
| "answers (ListFailed message) q \<longleftrightarrow> failure_message q = Some message"
| "answers (DetailSucceeded key providers) q \<longleftrightarrow> q = FetchMovieDetails"
| "answers DetailFailed q \<longleftrightarrow> q = FetchMovieDetails"
| "answers op q \<longleftrightarrow> False"

definition outcome :: "spec_op \<Rightarrow> bool" where
  "outcome op \<longleftrightarrow> list_ex (answers op) [SearchMovies, FetchPopularMovies, FetchMovieDetails]"

text \<open>
  The steps of the specified controller. A user operation whose precondition holds
  changes the state as \<open>spec_apply\<close> says and puts its request in flight. An outcome
  needs a request in flight that it can belong to, changes the state as
  \<open>spec_apply\<close> says and takes that request out: every request is answered once,
  there are no retries, and nothing is answered that was not asked. A run is a
  sequence of steps.
\<close>

inductive spec_step :: "spec_app \<Rightarrow> spec_op \<Rightarrow> spec_app \<Rightarrow> bool" where
  user: "\<not> outcome op \<Longrightarrow> precondition op (sView c) \<Longrightarrow>
     spec_step c op
       \<lparr>sView = spec_apply op (sView c), sInFlight = sInFlight c + request_of op (sView c)\<rparr>"
| settled: "q \<in># sInFlight c \<Longrightarrow> answers op q \<Longrightarrow>
     spec_step c op \<lparr>sView = spec_apply op (sView c), sInFlight = sInFlight c - {#q#}\<rparr>"

inductive spec_run :: "spec_app \<Rightarrow> spec_op list \<Rightarrow> spec_app \<Rightarrow> bool" where
  spec_run_Nil: "spec_run c [] c"
| spec_run_Cons: "spec_step c op c' \<Longrightarrow> spec_run c' ops c'' \<Longrightarrow> spec_run c (op # ops) c''"

text \<open>
  The same machine as functions: the states that an operation can lead to from a
  state (none when the operation cannot happen, one for a user operation, one for each
  kind of request in flight that an outcome can belong to), and the states at the end
  of a sequence of operations.
\<close>

definition spec_next :: "spec_op \<Rightarrow> spec_app \<Rightarrow> spec_app list" where
  "spec_next op c =
     (if outcome op
      then map (\<lambda>q. \<lparr>sView = spec_apply op (sView c), sInFlight = sInFlight c - {#q#}\<rparr>)
        (filter (\<lambda>q. q \<in># sInFlight c \<and> answers op q)
          [SearchMovies, FetchPopularMovies, FetchMovieDetails])
      else if precondition op (sView c)
      then [\<lparr>sView = spec_apply op (sView c),
             sInFlight = sInFlight c + request_of op (sView c)\<rparr>]
      else [])"

fun spec_runs :: "spec_op list \<Rightarrow> spec_app \<Rightarrow> spec_app list" where
  "spec_runs [] c = [c]"
| "spec_runs (op # ops) c = concat (map (spec_runs ops) (spec_next op c))"

text \<open>
  The state of the specified machine that an application is in: the specified state of
  its view state, and its requests in flight without their addresses and their order.
\<close>

definition abs_app :: "app \<Rightarrow> spec_app" where
  "abs_app a = \<lparr>sView = abs_state (view a), sInFlight = mset (map fst (pending a))\<rparr>"

inductive_cases spec_run_NilE [elim!]: "spec_run c [] c'"
inductive_cases spec_run_ConsE [elim!]: "spec_run c (op # ops) c'"

section \<open>Facts\<close>

lemma abs_state_simps [simp]:
  "sQuery (abs_state s) = query s"
  "sMovies (abs_state s) = elements (movies s)"
  "sLoading (abs_state s) = loading s"
  "sError (abs_state s) = (if error s = [] then None else Some (error s))"
  "sSelected (abs_state s) = (if nullish (selectedMovie s) then None else Some (selectedMovie s))"
  "sModalOpen (abs_state s) = modalVisible s"
  "sTrailerKey (abs_state s) = text_of (trailerUrl s)"
  "sProviders (abs_state s) = elements (downloadLinks s)"
  by (simp_all add: abs_state_def)

lemma elements_js_or [simp]: "elements (js_or v (JArr [])) = elements v"
  by (cases v) (simp_all add: js_or_def)

lemma abs_list_success:
  "results_page data \<Longrightarrow>
   abs_state (list_settled message (Body data) s) =
     spec_apply (ListSucceeded (elements (opt_prop data ''results''))) (abs_state s)"
  by (simp add: abs_state_def list_settled_success results_page_def results_page_truthy
      is_object_not_nullish)

lemma abs_list_failure:
  "list_fails r \<Longrightarrow> message \<noteq> [] \<Longrightarrow>
   abs_state (list_settled message r s) = spec_apply (ListFailed message) (abs_state s)"
  by (simp add: abs_state_def list_settled_failure)

lemma list_outcome_simps:
  "list_fails r \<Longrightarrow> list_outcome message r = ListFailed message"
  "results_page data \<Longrightarrow>
   list_outcome message (Body data) = ListSucceeded (elements (opt_prop data ''results''))"
  by (auto simp: list_outcome_def list_fails_def results_page_def is_object_not_nullish
      split: fetch_result.splits)

lemma abs_list_settled:
  assumes "message \<noteq> []" and "list_fails r \<or> (\<exists>data. r = Body data \<and> results_page data)"
  shows "abs_state (list_settled message r s) = spec_apply (list_outcome message r) (abs_state s)"
  using assms by (auto simp: list_outcome_simps abs_list_success abs_list_failure)

lemma abs_details_settled:
  assumes "r = Rejected \<or> r = Unparsable \<or> (\<exists>data. r = Body data \<and> detail_document data)"
  shows "abs_state (fst (fetchMovieDetails_settled r s)) =
     spec_apply (detail_outcome r) (abs_state s)"
  using assms
  by (auto simp: detail_outcome_def fetchMovieDetails_settled_def store_details_eq
      find_trailer_document abs_state_def detail_document_def is_object_not_nullish)

lemma abs_openMovieModal:
  "\<not> nullish movie \<Longrightarrow>
   abs_state (fst (openMovieModal k movie s)) =
     (abs_state s)\<lparr>sSelected := Some movie, sModalOpen := True\<rparr>"
  by (simp add: abs_state_def openMovieModal_def)

lemma abs_handlers:
  "abs_state (setQuery t s) = spec_apply (Type t) (abs_state s)"
  "abs_state (fst (searchMovies k s)) = spec_apply Search (abs_state s)"
  "abs_state (fst (fetchPopularMovies k s)) = spec_apply ListPopular (abs_state s)"
  "abs_state (closeModal s) = spec_apply CloseDetail (abs_state s)"
  by (simp_all add: abs_state_def setQuery_def searchMovies_def fetchPopularMovies_def
      closeModal_def)

lemma step_abs_state:
  assumes "step documented_service k a e a'" and "conforms a e"
  shows "abs_state (view a') = spec_apply (spec_op_of a e) (abs_state (view a))"
  using assms(1)
proof (cases rule: step.cases)
  case (change_text t)
  then show ?thesis by (simp add: abs_handlers)
next
  case (press act)
  from press(4) show ?thesis
  proof (cases rule: can_cases)
    case (row item)
    with press assms(2) show ?thesis
      by (simp add: perform_fields abs_openMovieModal has_id_not_nullish spec_state.equality)
  qed (use press in \<open>auto simp: perform_fields abs_handlers\<close>)
next
  case (settle i r)
  show ?thesis
  proof (cases "fst (pending a ! i) = FetchMovieDetails")
    case True
    with settle documented_detail_outcome [OF settle(4) True] show ?thesis
      by (simp add: view_resume abs_details_settled)
  next
    case False
    from documented_list_outcome [OF settle(4) False] assms(2) settle(1) False
    have "list_fails r \<or> (\<exists>data. r = Body data \<and> results_page data)"
      by auto
    with settle False show ?thesis
      by (cases "fst (pending a ! i)")
        (simp_all add: view_resume searchMovies_settled_def fetchPopularMovies_settled_def
          abs_list_settled)
  qed
qed

section \<open>Facts about the specified machine\<close>

lemma abs_app_simps [simp]:
  "sView (abs_app a) = abs_state (view a)"
  "sInFlight (abs_app a) = mset (map fst (pending a))"
  by (simp_all add: abs_app_def)

lemma outcome_simps [simp]:
  "outcome (ListSucceeded ms)"
  "outcome (ListFailed message) \<longleftrightarrow>
     message \<in> {''Failed to fetch movies'', ''Failed to fetch popular movies''}"
  "outcome (DetailSucceeded key providers)" "outcome DetailFailed"
  "\<not> outcome (Type t)" "\<not> outcome Search" "\<not> outcome ListPopular"
  "\<not> outcome (OpenDetail m)" "\<not> outcome CloseDetail" "\<not> outcome OpenPage"
  by (auto simp: outcome_def)

lemma mset_remove_nth:
  assumes "i < length xs"
  shows "mset (remove_nth i xs) = mset xs - {#xs ! i#}"
proof -
  from assms have "mset xs = mset (take i xs @ xs ! i # drop (Suc i) xs)"
    by (simp flip: id_take_nth_drop)
  then show ?thesis
    by (simp add: remove_nth_def)
qed

lemma answers_is_outcome: "answers op q \<Longrightarrow> outcome op"
  by (cases q) (simp_all add: outcome_def)

text \<open>The relation and the functions describe the same machine.\<close>

lemma spec_step_iff: "spec_step c op c' \<longleftrightarrow> c' \<in> set (spec_next op c)"
proof
  assume "spec_step c op c'"
  then show "c' \<in> set (spec_next op c)"
  proof (cases rule: spec_step.cases)
    case user
    then show ?thesis by (simp add: spec_next_def)
  next
    case (settled q)
    then show ?thesis
      by (cases q) (auto simp: spec_next_def answers_is_outcome)
  qed
next
  assume "c' \<in> set (spec_next op c)"
  then show "spec_step c op c'"
    by (auto simp: spec_next_def intro: spec_step.intros split: if_splits)
qed

lemma spec_run_iff: "spec_run c ops c' \<longleftrightarrow> c' \<in> set (spec_runs ops c)"
proof (induction ops arbitrary: c)
  case Nil
  show ?case by (auto intro: spec_run_Nil)
next
  case (Cons op ops)
  then show ?case
    by (auto simp: spec_step_iff intro: spec_run_Cons)
qed

text \<open>The state after a step or a run of the machine is the one that the operations give.\<close>

lemma spec_step_view: "spec_step c op c' \<Longrightarrow> sView c' = spec_apply op (sView c)"
  by (auto elim: spec_step.cases)

lemma spec_run_view: "spec_run c ops c' \<Longrightarrow> sView c' = fold spec_apply ops (sView c)"
  by (induction rule: spec_run.induct) (simp_all add: spec_step_view)

text \<open>The two rules of the machine, for a target state that is given by its fields.\<close>

lemma spec_step_userI:
  assumes "\<not> outcome op" and "precondition op (sView c)"
    and "sView c' = spec_apply op (sView c)"
    and "sInFlight c' = sInFlight c + request_of op (sView c)"
  shows "spec_step c op c'"
proof -
  from assms(3,4)
  have "c' = \<lparr>sView = spec_apply op (sView c), sInFlight = sInFlight c + request_of op (sView c)\<rparr>"
    by simp
  with assms(1,2) show ?thesis
    by (simp add: spec_step.user)
qed

lemma spec_step_settledI:
  assumes "q \<in># sInFlight c" and "answers op q"
    and "sView c' = spec_apply op (sView c)" and "sInFlight c' = sInFlight c - {#q#}"
  shows "spec_step c op c'"
proof -
  from assms(3,4)
  have "c' = \<lparr>sView = spec_apply op (sView c), sInFlight = sInFlight c - {#q#}\<rparr>"
    by simp
  with assms(1,2) show ?thesis
    by (simp add: spec_step.settled)
qed

lemma answers_outcome:
  "answers (list_outcome ''Failed to fetch movies'' r) SearchMovies"
  "answers (list_outcome ''Failed to fetch popular movies'' r) FetchPopularMovies"
  "answers (detail_outcome r) FetchMovieDetails"
  by (auto simp: list_outcome_def detail_outcome_def split: fetch_result.splits)

text \<open>
  Each conforming step of the application is a step of the machine, by the operation
  that the specification gives for the event.
\<close>

lemma step_simulates:
  assumes "step documented_service k a e a'" and "conforms a e"
  shows "spec_step (abs_app a) (spec_op_of a e) (abs_app a')"
proof -
  note view = step_abs_state [OF assms]
  from assms(1) show ?thesis
  proof (cases rule: step.cases)
    case (change_text t)
    with view show ?thesis
      by (intro spec_step_userI) simp_all
  next
    case (press act)
    from press(4) show ?thesis
    proof (cases rule: can_cases)
      case (row item)
      with press view show ?thesis
        by (intro spec_step_userI)
          (simp_all add: pending_perform has_id_not_nullish listable_printable)
    qed (use press view in \<open>auto intro!: spec_step_userI simp: pending_perform\<close>)
  next
    case (settle i r)
    then have "fst (pending a ! i) \<in># mset (map fst (pending a))"
      by simp
    moreover have "answers (spec_op_of a e) (fst (pending a ! i))"
      using settle(1) by (cases "fst (pending a ! i)") (simp_all add: answers_outcome)
    moreover have "mset (map fst (pending a')) =
        mset (map fst (pending a)) - {#fst (pending a ! i)#}"
      using settle by (simp add: map_remove_nth mset_remove_nth)
    ultimately show ?thesis
      using view by (intro spec_step_settledI [of "fst (pending a ! i)"]) simp_all
  qed
qed

section \<open>Refinement\<close>

text \<open>
  C5. The handlers implement the specified controller: along every run of the
  application under a service that answers as documented, whatever requests are in
  flight and in whatever order they settle, the application moves as the specified
  machine does under the operations that the specification gives for the events. Every
  movie that is opened is one of the list, every outcome belongs to a request in
  flight and takes it out, and the specified state at the end is the result of
  applying the operations in order. This holds provided no event of the run opens a
  movie over the details of an earlier one or answers a list request without results.
\<close>

theorem run_refines_spec:
  assumes "run documented_service k es a = Some a'" and "conforming k es a"
  shows "spec_run (abs_app a) (ops_of k es a) (abs_app a') \<and>
     abs_state (view a') = fold spec_apply (ops_of k es a) (abs_state (view a))"
proof -
  from assms have sim: "spec_run (abs_app a) (ops_of k es a) (abs_app a')"
  proof (induction es arbitrary: a)
    case Nil
    then show ?case by (simp add: spec_run_Nil)
  next
    case (Cons e es)
    then obtain b where b: "app_step k e a = Some b" "permits documented_service e a"
        "run documented_service k es b = Some a'"
      by (auto split: if_splits option.splits)
    then have "step documented_service k a e b"
      by (simp add: step_iff)
    with Cons.prems(2) have "spec_step (abs_app a) (spec_op_of a e) (abs_app b)"
      by (intro step_simulates) simp_all
    with Cons.IH [OF b(3)] Cons.prems(2) b(1) show ?case
      by (auto intro: spec_run_Cons)
  qed
  with spec_run_view [OF sim] show ?thesis
    by simp
qed

theorem run_refines_spec_witness:
  "run documented_service ''k'' open_batman initial_app = Some batman_opened \<and>
   conforming ''k'' open_batman initial_app \<and>
   spec_run (abs_app initial_app) [ListPopular, ListSucceeded [batman], OpenDetail batman]
     (abs_app batman_opened) \<and>
   abs_state (view batman_opened) =
     fold spec_apply [ListPopular, ListSucceeded [batman], OpenDetail batman]
       (abs_state initial_state) \<and>
   spec_runs [ListSucceeded [batman]] (abs_app initial_app) = []"
proof -
  have c: "conforming ''k'' open_batman initial_app"
    by (simp add: open_batman_def batman_def batman_page_def eval_defs show_simps)
  have "ops_of ''k'' open_batman initial_app =
      [ListPopular, ListSucceeded [batman], OpenDetail batman]"
    by (simp add: open_batman_def batman_def batman_page_def eval_defs show_simps
        list_outcome_def)
  moreover have "view initial_app = initial_state"
    and "spec_runs [ListSucceeded [batman]] (abs_app initial_app) = []"
    by (simp_all add: spec_next_def initial_app_def)
  ultimately show ?thesis
    using run_refines_spec [OF run_open_batman c] c by (simp add: run_open_batman)
qed

text \<open>
  C20. Opening a movie follows the specification exactly when there is nothing to clear:
  \<^verbatim>\<open>openMovieModal\<close> yields the state that the specification gives for opening the
  movie if and only if the state holds no trailer key and no providers; otherwise the
  details of the movie shown before remain where the specification clears them.
\<close>

theorem openMovieModal_refines_iff:
  "\<not> nullish movie \<Longrightarrow>
   abs_state (fst (openMovieModal k movie s)) = spec_apply (OpenDetail movie) (abs_state s) \<longleftrightarrow>
     sTrailerKey (abs_state s) = None \<and> sProviders (abs_state s) = []"
  by (cases "abs_state s") (auto simp: abs_openMovieModal)

theorem openMovieModal_refines_iff_witness:
  "\<not> nullish batman \<and>
   abs_state (fst (openMovieModal ''k'' batman (view brazil_shown))) \<noteq>
     spec_apply (OpenDetail batman) (abs_state (view brazil_shown)) \<and>
   abs_state (fst (openMovieModal ''k'' batman initial_state)) =
     spec_apply (OpenDetail batman) (abs_state initial_state)"
  using openMovieModal_refines_iff [of batman "''k''" "view brazil_shown"]
    openMovieModal_refines_iff [of batman "''k''" initial_state]
  by (simp add: batman_def brazil_shown_def)

end
