(* ===== verification/Styles.thy ===== *)
theory Styles
  imports View
begin

text \<open>
  The style sheet of \<^verbatim>\<open>src/App.js\<close>: the constant \<^verbatim>\<open>styles\<close> that
  \<^verbatim>\<open>StyleSheet.create\<close> makes from an object literal, as data, and its relation to
  the element tree, whose elements name their style (\<^verbatim>\<open>style={styles.title}\<close>). A
  name that the sheet does not hold reads as \<^verbatim>\<open>undefined\<close> in the source, and the
  element is drawn unstyled without any error; the theorems here show that this never
  happens and that the sheet holds nothing that no element uses.
\<close>

section \<open>The sheet\<close>

text \<open>
  The values of the sheet: whole numbers, decimal fractions (\<open>SDec m n\<close> is
  \<open>m / 10\<^sup>n\<close>, so \<^verbatim>\<open>0.1\<close> is \<open>SDec 1 1\<close>), strings, and nested objects.
\<close>

datatype style_value =
    SNum int
  | SDec int nat
  | SStr string
  | SObj "(string \<times> style_value) list"

type_synonym style = "(string \<times> style_value) list"

definition styles :: "(string \<times> style) list" where
  "styles =
     [
      (''container'',
        [(''flex'', SNum 1),
         (''padding'', SNum 20),
         (''backgroundColor'', SStr ''#f8f9fa'')]),
      (''input'',
        [(''height'', SNum 50),
         (''borderColor'', SStr ''#ced4da''),
         (''borderWidth'', SNum 1),
         (''borderRadius'', SNum 8),
         (''padding'', SNum 10),
         (''marginBottom'', SNum 15),
         (''backgroundColor'', SStr ''white'')]),
      (''buttonContainer'',
        [(''flexDirection'', SStr ''row''),
         (''justifyContent'', SStr ''space-between''),
         (''marginBottom'', SNum 20),
         (''gap'', SNum 10)]),
      (''movieItem'',
        [(''flexDirection'', SStr ''row''),
         (''backgroundColor'', SStr ''white''),
         (''borderRadius'', SNum 8),
         (''marginBottom'', SNum 10),
         (''padding'', SNum 10),
         (''shadowColor'', SStr ''#000''),
         (''shadowOffset'', SObj [(''width'', SNum 0), (''height'', SNum 2)]),
         (''shadowOpacity'', SDec 1 1),
         (''shadowRadius'', SNum 4),
         (''elevation'', SNum 2)]),
      (''poster'',
        [(''width'', SNum 100),
         (''height'', SNum 150),
         (''borderRadius'', SNum 8)]),
      (''movieInfo'',
        [(''flex'', SNum 1),
         (''marginLeft'', SNum 15),
         (''justifyContent'', SStr ''center'')]),
      (''title'',
        [(''fontSize'', SNum 16),
         (''fontWeight'', SStr ''bold''),
         (''marginBottom'', SNum 5)]),
      (''year'',
        [(''fontSize'', SNum 14),
         (''color'', SStr ''#6c757d'')]),
      (''error'',
        [(''color'', SStr ''#dc3545''),
         (''textAlign'', SStr ''center''),
         (''marginTop'', SNum 20)]),
      (''empty'',
        [(''textAlign'', SStr ''center''),
         (''marginTop'', SNum 20),
         (''color'', SStr ''#6c757d'')]),
      (''modalContainer'',
        [(''flex'', SNum 1),
         (''padding'', SNum 20),
         (''backgroundColor'', SStr ''white'')]),
      (''modalPoster'',
        [(''width'', SStr ''100%''),
         (''height'', SNum 300),
         (''resizeMode'', SStr ''contain'')]),
      (''modalTitle'',
        [(''fontSize'', SNum 24),
         (''fontWeight'', SStr ''bold''),
         (''marginVertical'', SNum 15)]),
      (''modalOverview'',
        [(''fontSize'', SNum 16),
         (''lineHeight'', SNum 24),
         (''marginBottom'', SNum 15)]),
      (''modalRating'',
        [(''fontSize'', SNum 16),
         (''fontWeight'', SStr ''bold''),
         (''marginBottom'', SNum 10)]),
      (''modalDate'',
        [(''fontSize'', SNum 14),
         (''color'', SStr ''#6c757d''),
         (''marginBottom'', SNum 20)]),
      (''trailerContainer'',
        [(''marginVertical'', SNum 15),
         (''height'', SNum 200)]),
      (''trailerVideo'',
        [(''flex'', SNum 1)]),
      (''downloadSection'',
        [(''marginTop'', SNum 10)]),
      (''serviceButton'',
        [(''flexDirection'', SStr ''row''),
         (''alignItems'', SStr ''center''),
         (''padding'', SNum 10),
         (''backgroundColor'', SStr ''#f0f0f0''),
         (''borderRadius'', SNum 8),
         (''marginVertical'', SNum 5)]),
      (''serviceLogo'',
        [(''width'', SNum 30),
         (''height'', SNum 30),
         (''marginRight'', SNum 10)]),
      (''serviceName'',
        [(''fontSize'', SNum 16)]),
      (''disclaimer'',
        [(''color'', SStr ''#666''),
         (''fontSize'', SNum 12),
         (''textAlign'', SStr ''center''),
         (''marginVertical'', SNum 10)]),
      (''noTrailer'',
        [(''textAlign'', SStr ''center''),
         (''color'', SStr ''#666''),
         (''marginVertical'', SNum 10)]),
      (''sectionTitle'',
        [(''fontSize'', SNum 18),
         (''fontWeight'', SStr ''bold''),
         (''marginBottom'', SNum 10)])
     ]"

text \<open>\<^verbatim>\<open>styles.name\<close>: the style under a name, if the sheet has one.\<close>

definition style_of :: "string \<Rightarrow> style option" where
  "style_of name = map_of styles name"

definition style_defined :: "string \<Rightarrow> bool" where
  "style_defined name \<longleftrightarrow> style_of name \<noteq> None"

section \<open>The styles that a tree names\<close>

text \<open>
  The \<^verbatim>\<open>style\<close> properties of the elements of a tree, in the order of the tree. The
  buttons, the spinner and plain values take no style; the list contributes its
  placeholder, and its rows are trees of their own.
\<close>

fun style_names :: "node \<Rightarrow> string list" where
  "style_names (View st cs) = st # concat (map style_names cs)"
| "style_names (Text st ps) = [st]"
| "style_names (TextInput st ph v a) = [st]"
| "style_names (Image st uri d) = [st]"
| "style_names (TouchableOpacity k st a cs) = st # concat (map style_names cs)"
| "style_names (WebView st js uri) = [st]"
| "style_names (FlatList data placeholder) = style_names placeholder"
| "style_names (Modal an tr vis a cs) = concat (map style_names cs)"
| "style_names (Fragment cs) = concat (map style_names cs)"
| "style_names n = []"

text \<open>States and an item used as concrete inputs.\<close>

definition detail_shown :: view_state where
  "detail_shown =
     initial_state\<lparr>
       selectedMovie := JObj [(''id'', JNum 268), (''title'', JStr ''Batman'')],
       modalVisible := True,
       trailerUrl := JStr ''y'',
       downloadLinks := JArr [JObj [(''provider_id'', JNum 8), (''provider_name'', JStr ''N'')]]\<rparr>"

definition failure_shown :: view_state where
  "failure_shown =
     initial_state\<lparr>error := ''Failed to fetch movies'',
       selectedMovie := JObj [(''id'', JNum 268)]\<rparr>"

section \<open>Facts\<close>

lemma style_defined_simps [simp]:
  "style_defined ''container''" "style_defined ''input''" "style_defined ''buttonContainer''"
  "style_defined ''movieItem''" "style_defined ''poster''" "style_defined ''movieInfo''"
  "style_defined ''title''" "style_defined ''year''" "style_defined ''error''"
  "style_defined ''empty''" "style_defined ''modalContainer''" "style_defined ''modalPoster''"
  "style_defined ''modalTitle''" "style_defined ''modalOverview''"
  "style_defined ''modalRating''" "style_defined ''modalDate''"
  "style_defined ''trailerContainer''" "style_defined ''trailerVideo''"
  "style_defined ''downloadSection''" "style_defined ''serviceButton''"
  "style_defined ''serviceLogo''" "style_defined ''serviceName''" "style_defined ''disclaimer''"
  "style_defined ''noTrailer''" "style_defined ''sectionTitle''"
  by (simp_all add: style_defined_def style_of_def styles_def)

lemma style_names_movie_row [simp]:
  "style_names (movie_row item) = [''movieItem'', ''poster'', ''movieInfo'', ''title'', ''year'']"
  by (simp add: movie_row_def)

lemma style_names_service_button [simp]:
  "style_names (service_button s service) = [''serviceButton'', ''serviceLogo'', ''serviceName'']"
  by (simp add: service_button_def)

lemma style_names_trailer_section:
  "style_names (trailer_section s) =
     (if truthy (trailerUrl s) then [''trailerContainer'', ''trailerVideo''] else [''noTrailer''])"
  by (simp add: trailer_section_def)

lemma style_names_list_section:
  "style_names (list_section s) =
     (if loading s then [] else if error s \<noteq> [] then [''error''] else [''empty''])"
  by (simp add: list_section_def)

lemma style_names_download_options:
  "renderDownloadOptions s = Inr options \<Longrightarrow>
   set (style_names options) \<subseteq>
     {''downloadSection'', ''sectionTitle'', ''serviceButton'', ''serviceLogo'', ''serviceName''}"
  by (auto dest!: renderDownloadOptions_Inr split: if_splits)

lemma style_names_modal_content:
  assumes "modal_content s = Inr content"
  shows "list_all style_defined (style_names content)"
  using assms
proof (cases rule: modal_content_cases)
  case (details options)
  from style_names_download_options [OF details(3)]
  have "list_all style_defined (style_names options)"
    by (auto simp: list_all_iff)
  with details(4) show ?thesis
    by (simp add: detail_view_def style_names_trailer_section)
qed simp

section \<open>Properties of the sheet\<close>

text \<open>
  C33. Every element is styled: whenever \<^verbatim>\<open>App\<close> returns a tree and the list draws
  its rows, every style that an element of the tree or of a row names is held by the
  style sheet, in every state.
\<close>

theorem every_style_named_is_defined:
  assumes "render s = Inr tree" and "list_rows items = Inr rows"
  shows "list_all style_defined (style_names tree) \<and>
     list_all (\<lambda>(k, row). list_all style_defined (style_names row)) rows"
proof
  from assms(1) show "list_all style_defined (style_names tree)"
    by (rule render_Inr) (simp add: style_names_list_section style_names_modal_content)
  from assms(2) show "list_all (\<lambda>(k, row). list_all style_defined (style_names row)) rows"
    by (auto simp: list_rows_eq list_all_iff split: if_splits)
qed

theorem every_style_named_is_defined_witness:
  "(\<exists>tree rows. render detail_shown = Inr tree \<and> list_rows two_rows = Inr rows \<and>
     length rows = 2 \<and>
     list_all style_defined (style_names tree) \<and>
     list_all (\<lambda>(k, row). list_all style_defined (style_names row)) rows)"
proof -
  have tree: "\<not> throws (render detail_shown)"
    by (simp add: render_throws_iff detail_shown_def renderDownloadOptions_array
        shows_details_def linkable_def)
  have rows: "list_rows two_rows =
      Inr (map (\<lambda>item. (to_string (opt_prop item ''id''), movie_row item)) two_rows)"
    by (simp add: list_rows_eq two_rows_def has_id_def listable_def)
  from tree obtain t where t: "render detail_shown = Inr t"
    by (auto simp: not_throws_iff)
  with every_style_named_is_defined [OF t rows] rows show ?thesis
    by (simp add: two_rows_def)
qed

text \<open>
  The sheet holds each style once and none that is never drawn: the names of the
  sheet are pairwise different, as are the attributes of each style, so no entry of the
  object literal silently replaces an earlier one; and every name of the sheet is the
  style of an element of the detail view with a trailer and a provider, of the screen
  with an error message, of the detail view without a trailer, or of a row of the list.
\<close>

lemma every_style_is_used:
  "distinct (map fst styles) \<and> list_all (\<lambda>(name, attrs). distinct (map fst attrs)) styles \<and>
   (\<exists>detail failure start.
     render detail_shown = Inr detail \<and> render failure_shown = Inr failure \<and>
     render initial_state = Inr start \<and>
     set (map fst styles) =
       set (style_names detail) \<union> set (style_names failure) \<union> set (style_names start) \<union>
       set (style_names (movie_row JNull)))"
proof (intro conjI)
  show "distinct (map fst styles)"
    and "list_all (\<lambda>(name, attrs). distinct (map fst attrs)) styles"
    by (simp_all add: styles_def)
  show "\<exists>detail failure start.
     render detail_shown = Inr detail \<and> render failure_shown = Inr failure \<and>
     render initial_state = Inr start \<and>
     set (map fst styles) =
       set (style_names detail) \<union> set (style_names failure) \<union> set (style_names start) \<union>
       set (style_names (movie_row JNull))"
    by (simp add: render_def modal_content_eq detail_view_def shows_details_def
        renderDownloadOptions_array detail_shown_def linkable_def
        failure_shown_def style_names_trailer_section style_names_list_section styles_def)
      (simp add: insert_commute)
qed

end
