(* ===== verification/Effects.thy ===== *)
theory Effects
  imports Scenarios "HOL-Library.Sublist"
begin

text \<open>
  What the application hands to its environment, and that it is always of the intended
  form: the requests that the handlers of \<^verbatim>\<open>src/App.js\<close> issue, the pages that the
  two link buttons open, and the addresses from which the elements of the tree load
  images and the player. The addresses are template literals with a fixed beginning;
  the data of the service only ever fills their end. The last part shows that the
  spinner goes away once the requests in flight have settled.
\<close>

section \<open>Requests\<close>

text \<open>
  A request as its handler builds it, with the key of the application: a search with a
  query that is not empty, the address of the popular movies, the detail address of
  some movie with the two appended parts.
\<close>

definition request_ok :: "string \<Rightarrow> request \<Rightarrow> bool" where
  "request_ok k q =
     (case fst q of
        SearchMovies \<Rightarrow> strict_prefix (search_url k []) (snd q)
      | FetchPopularMovies \<Rightarrow> snd q = popular_url k
      | FetchMovieDetails \<Rightarrow>
          prefix ''https://api.themoviedb.org/3/movie/'' (snd q) \<and>
          suffix (''?api_key='' @ k @ ''&append_to_response=videos,watch/providers'') (snd q))"

definition inv_requests :: "string \<Rightarrow> app \<Rightarrow> bool" where
  "inv_requests k a \<longleftrightarrow> list_all (request_ok k) (pending a)"

section \<open>Opened pages\<close>

text \<open>
  The pages that the application hands to the platform's link handler: the trailer on
  the video platform and the watch page of a movie on the catalog site.
\<close>

definition external_page :: "string \<Rightarrow> bool" where
  "external_page url \<longleftrightarrow>
     prefix ''https://www.youtube.com/watch?v='' url \<or>
     prefix ''https://www.themoviedb.org/movie/'' url \<and> suffix ''/watch'' url"

definition inv_opened :: "app \<Rightarrow> bool" where
  "inv_opened a \<longleftrightarrow> list_all external_page (opened a)"

section \<open>Loaded resources\<close>

text \<open>
  The addresses that the elements of a tree load: the sources of the images and of the
  embedded player. Each begins with the image server's or the video platform's fixed
  path.
\<close>

fun resources :: "node \<Rightarrow> string list" where
  "resources (View st cs) = concat (map resources cs)"
| "resources (Image st uri d) = [uri]"
| "resources (TouchableOpacity k st a cs) = concat (map resources cs)"
| "resources (WebView st js uri) = [uri]"
| "resources (FlatList data placeholder) = resources placeholder"
| "resources (Modal an tr vis a cs) = concat (map resources cs)"
| "resources (Fragment cs) = concat (map resources cs)"
| "resources n = []"

definition fixed_host :: "string \<Rightarrow> bool" where
  "fixed_host uri \<longleftrightarrow>
     prefix ''https://image.tmdb.org/t/p/'' uri \<or> prefix ''https://www.youtube.com/embed/'' uri"

section \<open>Logged errors\<close>

text \<open>
  The errors that \<^verbatim>\<open>console.error\<close> has received are failures of the network or of
  the parser, and no \<^verbatim>\<open>TypeError\<close> of the handler itself.
\<close>

definition inv_console :: "app \<Rightarrow> bool" where
  "inv_console a \<longleftrightarrow> list_all (\<lambda>err. err \<noteq> TypeError) (console a)"

section \<open>Settling what is in flight\<close>

text \<open>The events in which the requests in flight settle, oldest first, with given outcomes.\<close>

definition drain :: "fetch_result list \<Rightarrow> event list" where
  "drain rs = map (Settle 0) rs"

text \<open>The trailer page opened from the detail view of the second scenario.\<close>

definition trailer_page_opened :: app where
  "trailer_page_opened =
     brazil_shown\<lparr>opened := [''https://www.youtube.com/watch?v=trailer-of-brazil'']\<rparr>"

text \<open>The detail request of the third scenario rejected.\<close>

definition batman_details_failed :: app where
  "batman_details_failed = batman_opened\<lparr>pending := [], console := [NetworkFailure]\<rparr>"

section \<open>Facts\<close>

lemma request_ok_issued:
  "q \<noteq> [] \<Longrightarrow> request_ok k (SearchMovies, search_url k q)"
  "request_ok k (FetchPopularMovies, popular_url k)"
  "request_ok k (FetchMovieDetails, details_url k movieId)"
  by (simp_all add: request_ok_def search_url_def details_url_def strict_prefix_def suffix_def)

lemma step_inv_requests:
  assumes "step env k a e a'" and "inv_requests k a"
  shows "inv_requests k a'"
  using assms
  by (cases rule: step.cases)
    (auto simp: inv_requests_def pending_perform request_ok_issued list_all_remove_nth
      split: action.splits)

lemma external_page_simps [simp]:
  "trailer_page_url key = Inr url \<Longrightarrow> external_page url"
  "provider_page_url movie = Inr url \<Longrightarrow> external_page url"
  by (auto simp: external_page_def trailer_page_url_eq provider_page_url_eq suffix_def
      split: if_splits)

lemma step_inv_opened:
  assumes "step env k a e a'" and "inv_opened a"
  shows "inv_opened a'"
  using assms
  by (cases rule: step.cases)
    (auto simp: inv_opened_def opened_perform split: action.splits sum.splits)

lemma reachable_inv_requests: "reachable env k a \<Longrightarrow> inv_requests k a"
  by (erule reachable_invariant) (simp add: inv_requests_def initial_app_def, erule (1) step_inv_requests)

lemma reachable_inv_opened: "reachable env k a \<Longrightarrow> inv_opened a"
  by (erule reachable_invariant) (simp add: inv_opened_def initial_app_def, erule (1) step_inv_opened)

lemma resources_movie_row [simp]:
  "resources (movie_row item) = [poster_url (to_string (opt_prop item ''poster_path''))]"
  by (simp add: movie_row_def)

lemma resources_service_button [simp]:
  "resources (service_button s service) =
     [logo_url (to_string (opt_prop service ''logo_path''))]"
  by (simp add: service_button_def)

lemma fixed_host_simps [simp]:
  "fixed_host (poster_url v)" "fixed_host (logo_url v)" "fixed_host (embed_url v)"
  by (simp_all add: fixed_host_def poster_url_def logo_url_def embed_url_def)

lemma resources_download_options:
  "renderDownloadOptions s = Inr options \<Longrightarrow> list_all fixed_host (resources options)"
  by (auto dest!: renderDownloadOptions_Inr simp: list_all_iff)

lemma resources_modal_content:
  "modal_content s = Inr content \<Longrightarrow> list_all fixed_host (resources content)"
  by (cases rule: modal_content_cases)
    (auto simp: detail_view_def trailer_section_def dest: resources_download_options)

lemma reachable_trailer_page_opened:
  "reachable documented_service ''k'' trailer_page_opened"
proof -
  have "run documented_service ''k'' [Press (WatchTrailer (JStr ''trailer-of-brazil''))]
      brazil_shown = Some trailer_page_opened"
    by (simp add: trailer_page_opened_def brazil_shown_def eval_defs scenario_data)
  with reachable_brazil_shown show ?thesis
    by (rule run_reachable)
qed

lemma step_inv_console:
  assumes "step documented_service k a e a'" and "inv_console a"
  shows "inv_console a'"
  using assms(1)
proof (cases rule: step.cases)
  case (settle i r)
  show ?thesis
  proof (cases "fst (pending a ! i) = FetchMovieDetails")
    case True
    from documented_detail_outcome [OF settle(4) True] settle assms(2) True show ?thesis
      by (auto simp: inv_console_def console_resume fetchMovieDetails_settled_def
          store_details_eq find_trailer_document)
  next
    case False
    with settle assms(2) show ?thesis
      by (cases "fst (pending a ! i)") (simp_all add: inv_console_def console_resume)
  qed
next
  case (press act)
  from press(4) show ?thesis
  proof (cases rule: can_cases)
    case (row item)
    with press assms(2) show ?thesis
      by (simp add: inv_console_def console_perform listable_printable)
  qed (use press assms(2) in \<open>auto simp: inv_console_def console_perform\<close>)
qed (use assms(2) in \<open>simp_all add: inv_console_def\<close>)

lemma reachable_inv_console: "reachable documented_service k a \<Longrightarrow> inv_console a"
  by (erule reachable_invariant) (simp add: inv_console_def initial_app_def, erule (1) step_inv_console)

lemma reachable_batman_details_failed:
  "reachable documented_service ''k'' batman_details_failed"
proof -
  have "run documented_service ''k'' [Settle 0 Rejected] batman_opened =
      Some batman_details_failed"
    by (simp add: batman_details_failed_def batman_opened_def eval_defs)
  with reachable_batman_opened show ?thesis
    by (rule run_reachable)
qed

section \<open>Properties\<close>

text \<open>
  C30. What the application hands to the network and to the link handler is well-formed:
  in every reachable state, under any behaviour of the service, each request in flight
  is a search with a query that is not empty, the request for the popular movies, or a
  detail request, and carries the key of the application; and each address handed to
  the link handler begins with the trailer address of the video platform, or is a watch
  page of the catalog site.
\<close>

theorem requests_and_pages_are_well_formed:
  "reachable env k a \<Longrightarrow>
   list_all (request_ok k) (pending a) \<and> list_all external_page (opened a)"
  using reachable_inv_requests [of env k a] reachable_inv_opened [of env k a]
  by (simp add: inv_requests_def inv_opened_def)

theorem requests_and_pages_are_well_formed_witness:
  "reachable documented_service ''k'' trailer_page_opened \<and>
   pending trailer_page_opened \<noteq> [] \<and>
   opened trailer_page_opened = [''https://www.youtube.com/watch?v=trailer-of-brazil''] \<and>
   list_all (request_ok ''k'') (pending trailer_page_opened) \<and>
   list_all external_page (opened trailer_page_opened)"
  using requests_and_pages_are_well_formed [OF reachable_trailer_page_opened]
  by (simp add: reachable_trailer_page_opened)
    (simp add: trailer_page_opened_def brazil_shown_def initial_app_def)

text \<open>
  C31. With a service that answers as documented no handler fails on a document: in
  every reachable state the logged errors are failures of the network or of the parser,
  and none is a \<^verbatim>\<open>TypeError\<close> raised while a detail document was read.
\<close>

theorem documented_service_logs_no_type_error:
  "reachable documented_service k a \<Longrightarrow> list_all (\<lambda>err. err \<noteq> TypeError) (console a)"
  by (auto dest!: reachable_inv_console simp: inv_console_def)

theorem documented_service_logs_no_type_error_witness:
  "reachable documented_service ''k'' batman_details_failed \<and>
   console batman_details_failed = [NetworkFailure] \<and>
   list_all (\<lambda>err. err \<noteq> TypeError) (console batman_details_failed)"
  using documented_service_logs_no_type_error [OF reachable_batman_details_failed]
  by (simp add: reachable_batman_details_failed) (simp add: batman_details_failed_def)

text \<open>
  C32. Images and the player are loaded from their fixed servers only: whatever the
  state holds, every image of the returned tree and of the rows of the list has an
  address under the path of the image server, and the player one under the embed path
  of the video platform.
\<close>

theorem resources_from_fixed_hosts:
  assumes "render s = Inr tree" and "list_rows items = Inr rows"
  shows "list_all fixed_host (resources tree) \<and>
     list_all (\<lambda>(k, row). list_all fixed_host (resources row)) rows"
proof
  from assms(1) show "list_all fixed_host (resources tree)"
    by (auto simp: render_def and_then_eq_Inr_iff list_section_def
        dest: resources_modal_content)
  from assms(2) show "list_all (\<lambda>(k, row). list_all fixed_host (resources row)) rows"
    by (auto simp: list_rows_eq list_all_iff split: if_splits)
qed

theorem resources_from_fixed_hosts_witness:
  "\<exists>tree rows. render (view brazil_shown) = Inr tree \<and> list_rows two_rows = Inr rows \<and>
     resources tree \<noteq> [] \<and> length rows = 2 \<and>
     list_all fixed_host (resources tree) \<and>
     list_all (\<lambda>(k, row). list_all fixed_host (resources row)) rows"
proof -
  have "\<not> throws (render (view brazil_shown))"
    by (simp add: render_throws_iff brazil_shown_def initial_app_def renderDownloadOptions_array
        shows_details_def brazil_def)
  then obtain t where t: "render (view brazil_shown) = Inr t"
    by (auto simp: not_throws_iff)
  then have "resources t \<noteq> []"
    by (auto simp: render_def modal_content_eq detail_view_def and_then_eq_Inr_iff
        brazil_shown_def initial_app_def brazil_def shows_details_def)
  moreover have rows: "list_rows two_rows =
      Inr (map (\<lambda>item. (to_string (opt_prop item ''id''), movie_row item)) two_rows)"
    by (simp add: list_rows_eq two_rows_def has_id_def listable_def)
  ultimately show ?thesis
    using resources_from_fixed_hosts [OF t rows] t by (simp add: two_rows_def)
qed

lemma run_drain:
  assumes "length rs = length (pending a)" and "inv_loading a"
  shows "\<exists>a'. run any_service k (drain rs) a = Some a' \<and> pending a' = [] \<and>
     \<not> loading (view a')"
  using assms
proof (induction rs arbitrary: a)
  case Nil
  then show ?case by (simp add: drain_def inv_loading_def)
next
  case (Cons r rs)
  then obtain q qs where q: "pending a = q # qs" and len: "length rs = length qs"
    by (cases "pending a") auto
  let ?a = "resume q r (a\<lparr>pending := qs\<rparr>)"
  from q have step: "step any_service k a (Settle 0 r) ?a"
    by (simp add: step_iff remove_nth_def any_service_def)
  from step Cons.prems(2) have "inv_loading ?a"
    by (rule step_inv_loading)
  moreover from len have "length rs = length (pending ?a)"
    by simp
  ultimately obtain a' where "run any_service k (drain rs) ?a = Some a'"
    "pending a' = []" "\<not> loading (view a')"
    using Cons.IH by blast
  with step show ?case
    by (auto simp: step_iff drain_def)
qed

text \<open>
  C12. The spinner goes away when the network has answered: from every reachable state,
  once each request in flight has settled, in the order of issue and with any outcomes,
  no request is in flight and the loading flag is off.
\<close>

theorem settled_requests_clear_spinner:
  assumes "reachable env k a" and "length rs = length (pending a)"
  shows "\<exists>a'. run any_service k (drain rs) a = Some a' \<and> pending a' = [] \<and>
     \<not> loading (view a')"
  using assms(2) reachable_inv_loading [OF assms(1)] by (rule run_drain)

theorem settled_requests_clear_spinner_witness:
  "reachable documented_service ''k'' popular_requested \<and>
   length [Unparsable] = length (pending popular_requested) \<and>
   loading (view popular_requested) \<and>
   (\<exists>a'. run any_service ''k'' (drain [Unparsable]) popular_requested = Some a' \<and>
      pending a' = [] \<and> \<not> loading (view a'))"
  using settled_requests_clear_spinner [OF reachable_popular_requested, of "[Unparsable]"]
  by (simp add: reachable_popular_requested) (simp add: popular_requested_def initial_app_def)

end
