(* ===== verification/Dates.thy ===== *)
theory Dates
  imports View
begin

text \<open>
  The year that a row of the list shows for a movie:
  \<^verbatim>\<open>new Date(item.release_date).getFullYear()\<close> of \<^verbatim>\<open>renderMovieItem\<close>, for the
  dates that the service sends (\<^verbatim>\<open>YYYY-MM-DD\<close>). The engine reads a date without a
  time as midnight in universal time, and \<^verbatim>\<open>getFullYear\<close> gives the year of that
  instant in the time zone of the device. The time zone is a parameter: the offset of
  local time from universal time in minutes, positive to the east. The theory also holds
  the text that a text element shows for its children, and the texts of the detail view.
\<close>

section \<open>Calendar dates\<close>

text \<open>
  A date of the form \<^verbatim>\<open>YYYY-MM-DD\<close> as year, month and day; the dates of the
  calendar; the day before a date.
\<close>

definition is_digit :: "char \<Rightarrow> bool" where
  "is_digit c \<longleftrightarrow> c \<in> set ''0123456789''"

fun parse_date :: "string \<Rightarrow> (nat \<times> nat \<times> nat) option" where
  "parse_date [y1, y2, y3, y4, a, m1, m2, b, d1, d2] =
     (if a = CHR ''-'' \<and> b = CHR ''-'' \<and> list_all is_digit [y1, y2, y3, y4, m1, m2, d1, d2]
      then Some (read_nat [y1, y2, y3, y4], read_nat [m1, m2], read_nat [d1, d2])
      else None)"
| "parse_date s = None"

definition leap_year :: "nat \<Rightarrow> bool" where
  "leap_year y \<longleftrightarrow> y mod 4 = 0 \<and> (y mod 100 \<noteq> 0 \<or> y mod 400 = 0)"

definition days_in_month :: "nat \<Rightarrow> nat \<Rightarrow> nat" where
  "days_in_month y m =
     (if m = 2 then (if leap_year y then 29 else 28)
      else if m \<in> {4, 6, 9, 11} then 30 else 31)"

definition valid_date :: "nat \<times> nat \<times> nat \<Rightarrow> bool" where
  "valid_date date =
     (case date of (y, m, d) \<Rightarrow> 1 \<le> m \<and> m \<le> 12 \<and> 1 \<le> d \<and> d \<le> days_in_month y m)"

definition prev_day :: "int \<times> nat \<times> nat \<Rightarrow> int \<times> nat \<times> nat" where
  "prev_day date =
     (case date of (y, m, d) \<Rightarrow>
        if 1 < d then (y, m, d - 1)
        else if 1 < m then (y, m - 1, days_in_month (nat y) (m - 1))
        else (y - 1, 12, 31))"

section \<open>The year of a release date\<close>

text \<open>
  The local date of midnight in universal time of a date: the day before to the west
  of Greenwich, the same day elsewhere, for offsets of less than a day.
\<close>

definition local_date :: "int \<Rightarrow> nat \<times> nat \<times> nat \<Rightarrow> int \<times> nat \<times> nat" where
  "local_date tz date =
     (case date of (y, m, d) \<Rightarrow> if tz < 0 then prev_day (int y, m, d) else (int y, m, d))"

text \<open>
  \<^verbatim>\<open>new Date(v).getFullYear()\<close> for a string that is a date of the calendar in the
  form above. \<open>None\<close> stands for every other argument (other forms of date strings,
  dates that the calendar does not have, values that are no strings), which this
  development does not cover.
\<close>

definition full_year :: "int \<Rightarrow> jsval \<Rightarrow> int option" where
  "full_year tz v =
     (case v of
        JStr s \<Rightarrow>
          (case parse_date s of
             Some date \<Rightarrow>
               if valid_date date \<and> - 1440 < tz \<and> tz < 1440
               then Some (fst (local_date tz date)) else None
           | None \<Rightarrow> None)
      | _ \<Rightarrow> None)"

section \<open>The text that an element shows\<close>

text \<open>
  The text of a child of a \<^verbatim>\<open>Text\<close> element: a literal, a year, or the value of an
  expression (\<open>value_text\<close>), of which strings and numbers are shown,
  \<^verbatim>\<open>null\<close>, \<^verbatim>\<open>undefined\<close> and the booleans show nothing, an array shows its
  elements one after the other, and an object has no text (\<open>None\<close>: the platform
  refuses it). \<open>texts\<close> gives the text elements of a tree under their styles, and
  \<open>row_year\<close> the text of the year of a row.
\<close>

fun value_text :: "jsval \<Rightarrow> string option" where
  "value_text (JArr xs) = map_option concat (those (map value_text xs))"
| "value_text (JObj kvs) = None"
| "value_text (JBool b) = Some []"
| "value_text v = Some (if nullish v then [] else to_string v)"

fun part_text :: "int \<Rightarrow> part \<Rightarrow> string option" where
  "part_text tz (Lit s) = Some s"
| "part_text tz (FullYear v) = map_option show_int (full_year tz v)"
| "part_text tz (Interp v) = value_text v"

fun texts :: "node \<Rightarrow> (string \<times> part list) list" where
  "texts (Text st ps) = [(st, ps)]"
| "texts (View st cs) = concat (map texts cs)"
| "texts (TouchableOpacity k st a cs) = concat (map texts cs)"
| "texts (Fragment cs) = concat (map texts cs)"
| "texts (Modal an tr vis a cs) = concat (map texts cs)"
| "texts n = []"

definition row_year :: "int \<Rightarrow> jsval \<Rightarrow> string option" where
  "row_year tz item =
     (case renderMovieItem item of
        Inr row \<Rightarrow>
          (case map_of (texts row) ''year'' of Some [p] \<Rightarrow> part_text tz p | _ \<Rightarrow> None)
      | Inl err \<Rightarrow> None)"

text \<open>
  The text of a whole \<^verbatim>\<open>Text\<close> element, its parts one after the other, and the
  text that the detail view shows under a style: \<open>detail_fields\<close> are the text
  elements of the modal below the providers (lines 179 to 187), which come last and
  under styles of their own.
\<close>

fun parts_text :: "int \<Rightarrow> part list \<Rightarrow> string option" where
  "parts_text tz [] = Some []"
| "parts_text tz (p # ps) =
     (case part_text tz p of
        None \<Rightarrow> None
      | Some t \<Rightarrow> map_option ((@) t) (parts_text tz ps))"

definition detail_fields :: "view_state \<Rightarrow> (string \<times> part list) list" where
  "detail_fields s =
     [(''modalOverview'', [Interp (opt_prop (selectedMovie s) ''overview'')]),
      (''modalRating'',
         [Lit ''Rating: '', Interp (opt_prop (selectedMovie s) ''vote_average''), Lit ''/10'']),
      (''modalDate'',
         [Lit ''Release Date: '', Interp (opt_prop (selectedMovie s) ''release_date'')]),
      (''disclaimer'',
         [Lit ''This app does not support piracy. Please use official streaming services.''])]"

definition detail_text :: "int \<Rightarrow> view_state \<Rightarrow> string \<Rightarrow> string option" where
  "detail_text tz s style =
     (case modal_content s of
        Inl err \<Rightarrow> None
      | Inr content \<Rightarrow>
          (case map_of (texts content) style of
             None \<Rightarrow> None
           | Some ps \<Rightarrow> parts_text tz ps))"

text \<open>A movie released on the first day of a year.\<close>

definition new_year_release :: jsval where
  "new_year_release = JObj [(''id'', JNum 1), (''release_date'', JStr ''2021-01-01'')]"

section \<open>Facts\<close>

lemma prev_day_year:
  "fst (prev_day (y, m, d)) = (if m \<le> 1 \<and> d \<le> 1 then y - 1 else y)"
  by (simp add: prev_day_def)

lemma full_year_eq:
  assumes "parse_date s = Some (y, m, d)" and "valid_date (y, m, d)"
    and "- 1440 < tz" and "tz < 1440"
  shows "full_year tz (JStr s) = Some (if tz < 0 \<and> m = 1 \<and> d = 1 then int y - 1 else int y)"
  using assms by (auto simp: full_year_def local_date_def prev_day_year valid_date_def)

lemma row_year_eq:
  "\<not> nullish item \<Longrightarrow> printable (opt_prop item ''poster_path'') \<Longrightarrow>
   printable (opt_prop item ''release_date'') \<Longrightarrow>
   row_year tz item =
     (if truthy (opt_prop item ''release_date'')
      then map_option show_int (full_year tz (opt_prop item ''release_date''))
      else Some ''Unknown year'')"
  by (simp add: row_year_def renderMovieItem_eq movie_row_def)

lemma parse_date_nonempty: "parse_date s = Some date \<Longrightarrow> s \<noteq> []"
  by (cases s) simp_all

lemma value_text_string: "is_string v \<Longrightarrow> value_text v = Some (to_string v)"
  by (cases v) simp_all

lemma value_text_string_or_absent:
  "string_or_absent v \<Longrightarrow> value_text v = Some (if nullish v then [] else to_string v)"
  by (cases v) (simp_all add: string_or_absent_def)

lemma texts_trailer_section:
  "texts (trailer_section s) =
     (if truthy (trailerUrl s) then [] else [(''noTrailer'', [Lit ''No trailer available''])])"
  by (simp add: trailer_section_def)

lemma texts_download_options:
  assumes "renderDownloadOptions s = Inr options"
  shows "fst ` set (texts options) \<subseteq> {''sectionTitle'', ''serviceName''}"
  using renderDownloadOptions_Inr [OF assms] by (auto simp: service_button_def)

lemma texts_modal_content:
  assumes "modal_content s = Inr content" and "truthy (selectedMovie s)"
  obtains sections where
    "texts content =
      (''modalTitle'', [Interp (opt_prop (selectedMovie s) ''title'')]) # sections @
      detail_fields s"
    "fst ` set sections \<subseteq> {''noTrailer'', ''sectionTitle'', ''serviceName''}"
proof -
  from assms obtain options where options: "renderDownloadOptions s = Inr options"
    and content: "texts content =
      (''modalTitle'', [Interp (opt_prop (selectedMovie s) ''title'')]) #
      (texts (trailer_section s) @ texts options) @ detail_fields s"
    by (cases rule: modal_content_cases) (auto simp: detail_view_def detail_fields_def)
  from texts_download_options [OF options]
  have "fst ` set (texts (trailer_section s) @ texts options) \<subseteq>
      {''noTrailer'', ''sectionTitle'', ''serviceName''}"
    by (auto simp: texts_trailer_section split: if_splits)
  with content show ?thesis by (rule that)
qed

lemma detail_text_eq:
  assumes "modal_content s = Inr content" and "truthy (selectedMovie s)"
  shows "detail_text tz s ''modalTitle'' =
      part_text tz (Interp (opt_prop (selectedMovie s) ''title''))"
    and "style \<in> {''modalOverview'', ''modalRating'', ''modalDate''} \<Longrightarrow>
      detail_text tz s style =
        (case map_of (detail_fields s) style of None \<Rightarrow> None | Some ps \<Rightarrow> parts_text tz ps)"
proof -
  from assms obtain sections where texts: "texts content =
      (''modalTitle'', [Interp (opt_prop (selectedMovie s) ''title'')]) # sections @
      detail_fields s"
    and sections: "fst ` set sections \<subseteq> {''noTrailer'', ''sectionTitle'', ''serviceName''}"
    by (rule texts_modal_content)
  show "detail_text tz s ''modalTitle'' =
      part_text tz (Interp (opt_prop (selectedMovie s) ''title''))"
    by (simp add: detail_text_def assms(1) texts option.map_ident split: option.splits)
  assume "style \<in> {''modalOverview'', ''modalRating'', ''modalDate''}"
  with sections have "style \<notin> fst ` set sections" "style \<noteq> ''modalTitle''"
    by auto
  then show "detail_text tz s style =
      (case map_of (detail_fields s) style of None \<Rightarrow> None | Some ps \<Rightarrow> parts_text tz ps)"
    by (simp add: detail_text_def assms(1) texts map_of_append_other del: map_of_append)
qed

lemmas date_defs = full_year_def is_digit_def read_nat_def digit_val_def valid_date_def
  days_in_month_def leap_year_def local_date_def prev_day_def

section \<open>Properties\<close>

text \<open>
  C23. A row shows the year of the release date in the time zone of the device, which
  is not always the year of the date: for a movie that has a row and a date of the
  calendar in the form \<^verbatim>\<open>YYYY-MM-DD\<close>, the row shows the year before for a movie
  released on the first of January when the device is to the west of Greenwich, and the
  year of the date in every other case.
\<close>

theorem row_shows_local_year:
  assumes "\<not> throws (renderMovieItem item)" and "opt_prop item ''release_date'' = JStr s"
    and "parse_date s = Some (y, m, d)" and "valid_date (y, m, d)"
    and "- 1440 < tz" and "tz < 1440"
  shows "row_year tz item =
     Some (show_int (if tz < 0 \<and> m = 1 \<and> d = 1 then int y - 1 else int y))"
proof -
  from assms(1) have "\<not> nullish item" "printable (opt_prop item ''poster_path'')"
    "printable (opt_prop item ''release_date'')"
    by (auto simp: renderMovieItem_eq split: if_splits)
  with assms(2-) parse_date_nonempty [OF assms(3)] show ?thesis
    by (simp add: row_year_eq full_year_eq)
qed

theorem row_shows_local_year_witness:
  "\<not> throws (renderMovieItem new_year_release) \<and>
   opt_prop new_year_release ''release_date'' = JStr ''2021-01-01'' \<and>
   parse_date ''2021-01-01'' = Some (2021, 1, 1) \<and> valid_date (2021, 1, 1) \<and>
   row_year (- 300) new_year_release = Some ''2020'' \<and>
   row_year 60 new_year_release = Some ''2021''"
  using row_shows_local_year [of new_year_release "''2021-01-01''" 2021 1 1 "- 300"]
    row_shows_local_year [of new_year_release "''2021-01-01''" 2021 1 1 60]
  by (simp add: new_year_release_def date_defs show_simps renderMovieItem_eq)

end
