(* ===== verification/Progress.thy ===== *)
theory Progress
  imports Effects
begin

text \<open>
  How the requests in flight come and go. A handler of \<^verbatim>\<open>src/App.js\<close> calls
  \<^verbatim>\<open>fetch\<close> at most once, and what follows its \<^verbatim>\<open>await\<close> calls it never: nothing
  is retried. So the requests in flight are bounded by the presses, along every run.
  The loading flag follows the list requests in flight exactly as long as the user
  starts them one at a time, which the second part shows.
\<close>

section \<open>Counting requests\<close>

text \<open>
  The presses that can start a request (the two buttons of the search row and the rows
  of the list), and the events that end one.
\<close>

fun starts :: "event \<Rightarrow> nat" where
  "starts (Press RunSearchMovies) = 1"
| "starts (Press RunFetchPopularMovies) = 1"
| "starts (Press (RunOpenMovieModal item)) = 1"
| "starts e = 0"

fun ends :: "event \<Rightarrow> nat" where
  "ends (Settle i r) = 1"
| "ends e = 0"

definition started :: "event list \<Rightarrow> nat" where
  "started es = sum_list (map starts es)"

definition ended :: "event list \<Rightarrow> nat" where
  "ended es = sum_list (map ends es)"

section \<open>One list request at a time\<close>

text \<open>
  The specification takes \<^verbatim>\<open>loading\<close> to be true for the duration of exactly one
  request in flight, and notes that nothing keeps the user from starting a list request
  while another is in flight. An event overlaps when it starts a list request while one
  is in flight; a run is serial when none of its events does; \<open>loading_exact\<close> is
  the invariant of the specification.
\<close>

fun overlapping :: "event \<Rightarrow> app \<Rightarrow> bool" where
  "overlapping (Press RunSearchMovies) a =
     (query (view a) \<noteq> [] \<and> list_ex list_request (pending a))"
| "overlapping (Press RunFetchPopularMovies) a = list_ex list_request (pending a)"
| "overlapping e a = False"

fun serial :: "string \<Rightarrow> event list \<Rightarrow> app \<Rightarrow> bool" where
  "serial k [] a = True"
| "serial k (e # es) a =
     (\<not> overlapping e a \<and>
      (case app_step k e a of None \<Rightarrow> True | Some a' \<Rightarrow> serial k es a'))"

definition loading_exact :: "app \<Rightarrow> bool" where
  "loading_exact a \<longleftrightarrow>
     length (filter list_request (pending a)) = (if loading (view a) then 1 else 0)"

section \<open>The loading flag on serial runs\<close>

lemma filter_list_request_perform:
  "filter list_request (pending (perform k act a)) =
     filter list_request (pending a) @
     (case act of
        RunSearchMovies \<Rightarrow>
          (if query (view a) = [] then [] else [(SearchMovies, search_url k (query (view a)))])
      | RunFetchPopularMovies \<Rightarrow> [(FetchPopularMovies, popular_url k)]
      | _ \<Rightarrow> [])"
  by (cases act) (simp_all add: pending_perform list_request_def fetchMovieDetails_def)

lemma loading_perform:
  "loading (view (perform k act a)) =
     (case act of
        RunSearchMovies \<Rightarrow> query (view a) \<noteq> [] \<or> loading (view a)
      | RunFetchPopularMovies \<Rightarrow> True
      | _ \<Rightarrow> loading (view a))"
  by (cases act)
    (simp_all add: view_perform searchMovies_def fetchPopularMovies_def openMovieModal_def
      closeModal_def)

lemma app_step_loading_exact:
  assumes "app_step k e a = Some a'" and "\<not> overlapping e a" and "loading_exact a"
  shows "loading_exact a'"
proof (cases e)
  case (ChangeText t)
  with assms show ?thesis
    by (auto simp: loading_exact_def setQuery_def split: if_splits)
next
  case (Press act)
  with assms(1) have a': "a' = perform k act a"
    by (auto split: if_splits)
  from assms(2,3) Press show ?thesis
    unfolding a' loading_exact_def filter_list_request_perform loading_perform
    by (cases act) (auto simp: list_ex_iff filter_empty_conv split: if_splits)
next
  case (Settle i r)
  with assms(1) have i: "i < length (pending a)"
    and a': "a' = resume (pending a ! i) r (a\<lparr>pending := remove_nth i (pending a)\<rparr>)"
    by (auto split: if_splits)
  show ?thesis
  proof (cases "list_request (pending a ! i)")
    case True
    with i have "filter list_request (pending a) \<noteq> []"
      by (auto simp: filter_empty_conv)
    with assms(3) have "length (filter list_request (pending a)) = 1"
      by (auto simp: loading_exact_def split: if_splits)
    with True i show ?thesis
      unfolding a' loading_exact_def
      by (simp add: filter_remove_nth view_resume list_request_def split: caller.splits)
  next
    case False
    with i assms(3) show ?thesis
      unfolding a' loading_exact_def
      by (simp add: filter_remove_nth view_resume list_request_def frame split: caller.splits)
  qed
qed

lemma run_loading_exact:
  "run env k es a = Some a' \<Longrightarrow> serial k es a \<Longrightarrow> loading_exact a \<Longrightarrow> loading_exact a'"
proof (induction es arbitrary: a)
  case Nil
  then show ?case by simp
next
  case (Cons e es)
  from Cons.prems(1) obtain b where b: "app_step k e a = Some b"
    and rest: "run env k es b = Some a'"
    by (auto split: if_splits option.splits simp del: app_step.simps)
  from Cons.prems(2) b have "\<not> overlapping e a" "serial k es b"
    by simp_all
  with b rest Cons.prems(3) show ?case
    by (blast intro: Cons.IH app_step_loading_exact)
qed

text \<open>
  C11. On serial runs the loading flag is on exactly while a list request is in flight:
  after every run from the start in which no list request is started while another is
  in flight, under any service, one list request is in flight when the flag is on and
  none when it is off. This is the invariant that the specification gives for
  \<^verbatim>\<open>loading\<close>; with overlapping requests it fails, since the first answer clears
  the flag for all.
\<close>

theorem loading_is_one_request_on_serial_runs:
  assumes "run env k es initial_app = Some a" and "serial k es initial_app"
  shows "length (filter list_request (pending a)) = (if loading (view a) then 1 else 0)"
proof -
  have "loading_exact initial_app"
    by (simp add: loading_exact_def initial_app_def)
  with assms have "loading_exact a"
    by (rule run_loading_exact)
  then show ?thesis by (simp add: loading_exact_def)
qed

theorem loading_is_one_request_on_serial_runs_witness:
  "run documented_service ''k'' [Press RunFetchPopularMovies] initial_app =
     Some popular_requested \<and>
   serial ''k'' [Press RunFetchPopularMovies] initial_app \<and>
   loading (view popular_requested) \<and>
   length (filter list_request (pending popular_requested)) = 1 \<and>
   \<not> serial ''k'' overlapping_searches initial_app \<and>
   \<not> loading (view second_search_settled) \<and>
   length (filter list_request (pending second_search_settled)) = 1"
proof -
  note run = run_popular_requested
  have serial: "serial ''k'' [Press RunFetchPopularMovies] initial_app"
    by (simp add: initial_app_def)
  have "\<not> serial ''k'' overlapping_searches initial_app"
    by (simp add: overlapping_searches_def eval_defs list_request_def)
  with loading_is_one_request_on_serial_runs [OF run serial] run serial show ?thesis
    by (simp add: popular_requested_def second_search_settled_def initial_app_def
        list_request_def)
qed

section \<open>The requests in flight are bounded\<close>

lemma app_step_in_flight:
  assumes "app_step k e a = Some a'"
  shows "length (pending a') + ends e \<le> length (pending a) + starts e \<and>
     length (pending a) \<le> length (pending a') + ends e"
proof (cases e)
  case (ChangeText t)
  with assms show ?thesis by (auto split: if_splits)
next
  case (Press act)
  with assms have "a' = perform k act a"
    by (auto split: if_splits)
  with Press show ?thesis
    by (cases act) (simp_all add: pending_perform)
next
  case (Settle i r)
  with assms show ?thesis
    by (auto simp: length_remove_nth split: if_splits)
qed

lemma run_in_flight:
  "run env k es a = Some a' \<Longrightarrow>
   length (pending a') + ended es \<le> length (pending a) + started es \<and>
   length (pending a) \<le> length (pending a') + ended es"
proof (induction es arbitrary: a)
  case Nil
  then show ?case by (simp add: started_def ended_def)
next
  case (Cons e es)
  then obtain b where b: "app_step k e a = Some b" and rest: "run env k es b = Some a'"
    by (auto split: if_splits option.splits simp del: app_step.simps)
  from app_step_in_flight [OF b] Cons.IH [OF rest] show ?case
    by (simp add: started_def ended_def)
qed

text \<open>
  C18. The requests in flight are bounded by the presses and leave by settling only:
  along every run, the requests in flight at its end and the settlements of the run
  together are at most the requests in flight at its start and the presses of the
  search button, the popular button and the rows of the list in the run, and at least
  the requests in flight at its start. Each such press starts at most one request,
  nothing else starts one, each settlement ends exactly one, and nothing else ends one.
\<close>

theorem in_flight_bounded_by_presses:
  assumes "run env k es a = Some a'"
  shows "length (pending a') + ended es \<le> length (pending a) + started es \<and>
     length (pending a) \<le> length (pending a') + ended es"
  using assms by (rule run_in_flight)

theorem in_flight_bounded_by_presses_witness:
  "run documented_service ''k'' two_movies_opened initial_app = Some brazil_shown \<and>
   length (pending brazil_shown) = 1 \<and> ended two_movies_opened = 2 \<and>
   started two_movies_opened = 3 \<and> length (pending initial_app) = 0 \<and>
   length (pending brazil_shown) + ended two_movies_opened \<le>
     length (pending initial_app) + started two_movies_opened"
  using in_flight_bounded_by_presses [OF run_two_movies_opened]
  by (simp add: run_two_movies_opened)
    (simp add: brazil_shown_def initial_app_def two_movies_opened_def started_def ended_def)

end
