(* ===== verification/Typed.thy ===== *)
theory Typed
  imports Scenarios
begin

text \<open>
  The data model of the specification as shapes of documents, the service that answers
  with documents of these shapes, and what the platform is given to mount under it. The
  application stores what the service sends without looking at it, and
  \<^verbatim>\<open>src/App.js\<close> places the fields of the stored movies and providers into
  \<^verbatim>\<open>Text\<close> elements as they are. The platform refuses an object as a child of an
  element, also inside an array, and text outside a \<^verbatim>\<open>Text\<close> element, so the screen
  depends on the types of the fields.
\<close>

section \<open>The data model\<close>

text \<open>
  A number of the data model is an integer or another number; a movie and a provider
  have the fields of \<^verbatim>\<open>MovieSummary\<close> and of the providers of \<^verbatim>\<open>MovieDetail\<close>, under
  the names that the service gives them. A list of movies has one entry per identifier.
\<close>

fun is_numeric :: "jsval \<Rightarrow> bool" where
  "is_numeric (JNum n) = True"
| "is_numeric (JDec t) = True"
| "is_numeric v = False"

definition movie_summary :: "jsval \<Rightarrow> bool" where
  "movie_summary m \<longleftrightarrow>
     is_object m \<and> is_number (opt_prop m ''id'') \<and> is_string (opt_prop m ''title'') \<and>
     string_or_absent (opt_prop m ''poster_path'') \<and>
     string_or_absent (opt_prop m ''release_date'') \<and>
     is_numeric (opt_prop m ''vote_average'') \<and> is_string (opt_prop m ''overview'')"

definition provider_entry :: "jsval \<Rightarrow> bool" where
  "provider_entry p \<longleftrightarrow>
     is_object p \<and> is_number (opt_prop p ''provider_id'') \<and>
     is_string (opt_prop p ''provider_name'') \<and> is_string (opt_prop p ''logo_path'')"

definition movie_list :: "jsval \<Rightarrow> bool" where
  "movie_list v \<longleftrightarrow>
     is_array v \<and> list_all movie_summary (elements v) \<and>
     distinct (map (\<lambda>m. opt_prop m ''id'') (elements v))"

definition provider_list :: "jsval \<Rightarrow> bool" where
  "provider_list v \<longleftrightarrow> is_array v \<and> list_all provider_entry (elements v)"

text \<open>
  The documents of the three endpoints: a page of movies, or an object without results
  such as an error document, for the two lists; a detail document whose providers of
  the region, when it has them, are providers of the data model.
\<close>

definition typed_list_document :: "jsval \<Rightarrow> bool" where
  "typed_list_document data \<longleftrightarrow>
     list_document data \<and>
     (nullish (opt_prop data ''results'') \<or> movie_list (opt_prop data ''results''))"

definition typed_detail_document :: "jsval \<Rightarrow> bool" where
  "typed_detail_document data \<longleftrightarrow>
     detail_document data \<and>
     (nullish (us_flatrate data) \<or> provider_list (us_flatrate data))"

fun typed_service :: service where
  "typed_service (FetchMovieDetails, url) (Body data) = typed_detail_document data"
| "typed_service (c, url) (Body data) = typed_list_document data"
| "typed_service q r = True"

text \<open>The states whose movies, trailer key and providers are of the data model.\<close>

definition typed_state :: "view_state \<Rightarrow> bool" where
  "typed_state s \<longleftrightarrow>
     movie_list (movies s) \<and>
     (selectedMovie s = JNull \<or> movie_summary (selectedMovie s)) \<and>
     string_or_absent (trailerUrl s) \<and>
     provider_list (downloadLinks s)"

section \<open>What the platform mounts\<close>

text \<open>
  A condition under which the platform mounts a tree. It is a rule of the platform,
  which the source relies on and the specification does not state. The value of an
  expression among the children of a \<^verbatim>\<open>Text\<close> element is a child that the platform
  accepts: not an object, and an array only of such values, which stands for its
  elements. A value that stands among the children of another element is one that
  shows nothing (\<^verbatim>\<open>null\<close>, \<^verbatim>\<open>undefined\<close>, a boolean), since text may stand in a
  \<^verbatim>\<open>Text\<close> element only; the data of a list is an array or absent.
\<close>

fun renderable :: "jsval \<Rightarrow> bool" where
  "renderable (JArr xs) = list_all renderable xs"
| "renderable (JObj kvs) = False"
| "renderable v = True"

fun child_ok :: "part \<Rightarrow> bool" where
  "child_ok (Interp v) = renderable v"
| "child_ok p = True"

fun shows_nothing :: "jsval \<Rightarrow> bool" where
  "shows_nothing JUndefined = True"
| "shows_nothing JNull = True"
| "shows_nothing (JBool b) = True"
| "shows_nothing v = False"

fun mounts :: "node \<Rightarrow> bool" where
  "mounts (View st cs) = list_all mounts cs"
| "mounts (Text st ps) = list_all child_ok ps"
| "mounts (FlatList data placeholder) = ((nullish data \<or> is_array data) \<and> mounts placeholder)"
| "mounts (TouchableOpacity k st a cs) = list_all mounts cs"
| "mounts (Modal an tr vis a cs) = list_all mounts cs"
| "mounts (Fragment cs) = list_all mounts cs"
| "mounts (Value v) = shows_nothing v"
| "mounts n = True"

text \<open>
  The expressions in braces that the rows, the buttons of the providers and the modal
  place in their text elements: the title of an item, the name of a provider, and the
  title, the overview, the rating and the release date of the selected movie.
\<close>

definition title_of :: "jsval \<Rightarrow> part" where
  "title_of item = Interp (opt_prop item ''title'')"

definition name_of :: "jsval \<Rightarrow> part" where
  "name_of service = Interp (opt_prop service ''provider_name'')"

definition detail_parts :: "view_state \<Rightarrow> part list" where
  "detail_parts s =
     map (\<lambda>field. Interp (opt_prop (selectedMovie s) field))
       [''title'', ''overview'', ''vote_average'', ''release_date'']"

text \<open>A movie and a provider of the data model, and the run that shows them.\<close>

definition heat :: jsval where
  "heat = JObj [(''id'', JNum 949), (''title'', JStr ''Heat''), (''poster_path'', JNull),
     (''release_date'', JStr ''1995-12-15''), (''vote_average'', JDec ''7.9''),
     (''overview'', JStr ''A crew of thieves.'')]"

definition heat_details :: jsval where
  "heat_details = JObj [(''id'', JNum 949), (''watch/providers'', JObj [(''results'',
     JObj [(''US'', JObj [(''flatrate'', JArr [JObj [(''provider_id'', JNum 8),
       (''provider_name'', JStr ''Netflix''), (''logo_path'', JStr ''/n.jpg'')]])])])])]"

definition open_heat :: "event list" where
  "open_heat =
     [Press RunFetchPopularMovies, Settle 0 (Body (JObj [(''results'', JArr [heat])])),
      Press (RunOpenMovieModal heat), Settle 0 (Body heat_details)]"

definition heat_shown :: app where
  "heat_shown =
     initial_app\<lparr>view := initial_state\<lparr>movies := JArr [heat], selectedMovie := heat,
       modalVisible := True, trailerUrl := JUndefined,
       downloadLinks := JArr [JObj [(''provider_id'', JNum 8),
         (''provider_name'', JStr ''Netflix''), (''logo_path'', JStr ''/n.jpg'')]]\<rparr>\<rparr>"

text \<open>
  A page of the documented shape whose movie has an object for a title, and the state in
  which it is listed.
\<close>

definition object_title :: jsval where
  "object_title = JObj [(''id'', JNum 3), (''title'', JObj [(''en'', JStr ''Ran'')])]"

definition object_title_listed :: app where
  "object_title_listed = initial_app\<lparr>view := initial_state\<lparr>movies := JArr [object_title]\<rparr>\<rparr>"

section \<open>Facts about the data model\<close>

lemma movie_summary_has_id: "movie_summary m \<Longrightarrow> has_id m"
  by (simp add: movie_summary_def numeric_id_has_id numeric_id_def)

lemma movie_summary_listable: "movie_summary m \<Longrightarrow> listable m"
  by (simp add: movie_summary_def listable_def numeric_id_has_id numeric_id_def
      is_number_printable string_or_absent_printable)

lemma movie_summary_truthy: "movie_summary m \<Longrightarrow> truthy m"
  by (cases m) (simp_all add: movie_summary_def)

lemma provider_list_link_array: "provider_list v \<Longrightarrow> link_array v"
  by (auto simp: provider_list_def link_array_def linkable_def list_all_iff provider_entry_def
      is_object_not_nullish is_number_printable is_string_printable)

lemma provider_list_js_or:
  "nullish v \<or> provider_list v \<Longrightarrow> provider_list (js_or v (JArr []))"
  by (cases v) (auto simp: js_or_def provider_list_def)

lemma typed_state_well_formed: "typed_state s \<Longrightarrow> well_formed s"
  by (auto simp: typed_state_def well_formed_def movie_list_def movie_array_def list_all_iff
      movie_summary_listable provider_list_link_array)

lemma typed_service_documented: "typed_service q r \<Longrightarrow> documented_service q r"
  by (cases q; cases r; cases "fst q")
    (auto simp: typed_list_document_def typed_detail_document_def)

lemma typed_list_outcome:
  assumes "typed_service q r" and "fst q \<noteq> FetchMovieDetails"
  shows "list_fails r \<or> (\<exists>data. r = Body data \<and> typed_list_document data)"
  using assms by (cases q; cases r; cases "fst q") (auto simp: list_fails_def)

lemma typed_detail_outcome:
  assumes "typed_service q r" and "fst q = FetchMovieDetails"
  shows "r = Rejected \<or> r = Unparsable \<or> (\<exists>data. r = Body data \<and> typed_detail_document data)"
  using assms by (cases q; cases r) auto

section \<open>Each step keeps the state typed\<close>

lemma typed_state_list_settled:
  assumes "typed_state s" and "list_fails r \<or> (\<exists>data. r = Body data \<and> typed_list_document data)"
  shows "typed_state (list_settled message r s)"
proof (cases rule: list_settled_cases [of r message s])
  case failure
  with assms(1) show ?thesis by (simp add: typed_state_def)
next
  case (success data)
  with assms(2) have "movie_list (opt_prop data ''results'')"
    by (auto simp: typed_list_document_def list_fails_def nullish_not_truthy)
  with assms(1) success show ?thesis by (simp add: typed_state_def)
next
  case (ignored data)
  with assms(1) show ?thesis by (simp add: typed_state_def)
qed

lemma typed_state_details_settled:
  assumes "typed_state s"
    and "r = Rejected \<or> r = Unparsable \<or> (\<exists>data. r = Body data \<and> typed_detail_document data)"
  shows "typed_state (fst (fetchMovieDetails_settled r s))"
proof (cases r)
  case (Body data)
  with assms(2) have doc: "typed_detail_document data" by simp
  then have "fetchMovieDetails_settled r s =
      (s\<lparr>trailerUrl := opt_prop (first_trailer (elements (video_results data))) ''key'',
         downloadLinks := js_or (us_flatrate data) (JArr [])\<rparr>, None)"
    unfolding Body
    by (simp add: fetchMovieDetails_settled_def store_details_eq find_trailer_document
        typed_detail_document_def)
  with assms(1) doc show ?thesis
    by (simp add: typed_state_def typed_detail_document_def provider_list_js_or
        detail_document_trailer)
qed (use assms(1) in \<open>simp_all add: fetchMovieDetails_settled_def\<close>)

lemma step_typed_state:
  assumes "step typed_service k a e a'" and "typed_state (view a)"
  shows "typed_state (view a')"
  using assms(1)
proof (cases rule: step.cases)
  case (change_text t)
  with assms(2) show ?thesis by (simp add: typed_state_def frame)
next
  case (press act)
  from press(4) show ?thesis
  proof (cases rule: can_cases)
    case (row item)
    with assms(2) have "movie_summary item"
      by (auto simp: typed_state_def movie_list_def list_all_iff)
    with row press assms(2) show ?thesis
      by (simp add: typed_state_def perform_fields frame has_id_not_nullish)
  qed (use press assms(2) in \<open>auto simp: typed_state_def perform_fields frame\<close>)
next
  case (settle i r)
  obtain c url where q: "pending a ! i = (c, url)" by (cases "pending a ! i")
  with settle assms(2) typed_list_outcome [of "pending a ! i" r]
    typed_detail_outcome [of "pending a ! i" r]
  show ?thesis
    by (cases c)
      (simp_all add: view_resume searchMovies_settled_def fetchPopularMovies_settled_def
        typed_state_list_settled typed_state_details_settled)
qed

lemma reachable_typed_state: "reachable typed_service k a \<Longrightarrow> typed_state (view a)"
  by (erule reachable_invariant)
    (simp add: initial_app_def typed_state_def movie_list_def provider_list_def
        string_or_absent_def,
      erule (1) step_typed_state)

lemma reachable_typed_documented:
  "reachable typed_service k a \<Longrightarrow> reachable documented_service k a"
  by (erule reachable_mono) (rule typed_service_documented)

section \<open>Which fields the screen depends on\<close>

lemma renderable_string_or_absent: "string_or_absent v \<Longrightarrow> renderable v"
  by (cases v) (simp_all add: string_or_absent_def)

lemma renderable_string: "is_string v \<Longrightarrow> renderable v"
  by (cases v) simp_all

lemma renderable_numeric: "is_numeric v \<Longrightarrow> renderable v"
  by (cases v) simp_all

lemmas child_ok_typed = renderable_string_or_absent renderable_string renderable_numeric

lemma mounts_movie_row:
  "mounts (movie_row item) \<longleftrightarrow> child_ok (Interp (opt_prop item ''title''))"
  by (simp add: movie_row_def)

lemma mounts_service_button:
  "mounts (service_button s p) \<longleftrightarrow> child_ok (Interp (opt_prop p ''provider_name''))"
  by (simp add: service_button_def)

lemma mounts_trailer_section [simp]: "mounts (trailer_section s)"
  by (simp add: trailer_section_def)

lemma mounts_list_section [simp]:
  "mounts (list_section s) \<longleftrightarrow>
     loading s \<or> error s \<noteq> [] \<or> nullish (movies s) \<or> is_array (movies s)"
  by (simp add: list_section_def)

lemma mounts_rows_iff:
  assumes "list_rows items = Inr rows"
  shows "list_all (\<lambda>(key, row). mounts row) rows \<longleftrightarrow> list_all (\<lambda>item. child_ok (title_of item)) items"
  using assms
  by (auto simp: list_rows_eq list_all_iff title_of_def mounts_movie_row split: if_splits)

lemma mounts_download_options_iff:
  assumes "renderDownloadOptions s = Inr options"
  shows "mounts options \<longleftrightarrow> list_all (\<lambda>p. child_ok (name_of p)) (elements (downloadLinks s))"
proof (cases "downloadLinks s")
  case (JArr services)
  with assms show ?thesis
    by (auto simp: renderDownloadOptions_array list_all_iff name_of_def mounts_service_button
        split: if_splits)
qed (use renderDownloadOptions_Inr [OF assms] in auto)

lemma mounts_modal_content_iff:
  assumes "modal_content s = Inr content"
  shows "mounts content \<longleftrightarrow>
     (if truthy (selectedMovie s)
      then list_all child_ok (detail_parts s) \<and>
        list_all (\<lambda>p. child_ok (name_of p)) (elements (downloadLinks s))
      else shows_nothing (selectedMovie s))"
  using assms
  by (cases rule: modal_content_cases)
    (auto simp: detail_view_def detail_parts_def mounts_download_options_iff)

lemma mounts_render_iff:
  assumes "render s = Inr tree"
  shows "mounts tree \<longleftrightarrow>
     mounts (list_section s) \<and>
     (if truthy (selectedMovie s)
      then list_all child_ok (detail_parts s) \<and>
        list_all (\<lambda>p. child_ok (name_of p)) (elements (downloadLinks s))
      else shows_nothing (selectedMovie s))"
proof -
  from assms show ?thesis
    by (rule render_Inr) (simp add: mounts_modal_content_iff)
qed

section \<open>A typed state mounts\<close>

lemma typed_state_mounts:
  assumes "typed_state s"
  shows "\<exists>tree rows. render s = Inr tree \<and> mounts tree \<and>
     list_rows (elements (movies s)) = Inr rows \<and> list_all (\<lambda>(key, row). mounts row) rows \<and>
     distinct (map fst rows)"
proof -
  from assms have movies: "list_all movie_summary (elements (movies s))"
    "distinct (map (\<lambda>m. opt_prop m ''id'') (elements (movies s)))" "is_array (movies s)"
    by (simp_all add: typed_state_def movie_list_def)
  from movies(1) have ids: "list_all numeric_id (elements (movies s))"
    and listed: "list_all listable (elements (movies s))"
    by (auto simp: list_all_iff movie_summary_def numeric_id_def movie_summary_listable)
  from row_keys_distinct [OF ids listed movies(2)] obtain rows
    where rows: "list_rows (elements (movies s)) = Inr rows" "distinct (map fst rows)"
    by blast
  from movies(1) have "list_all (\<lambda>(key, row). mounts row) rows"
    unfolding mounts_rows_iff [OF rows(1)]
    by (auto simp: list_all_iff movie_summary_def title_of_def child_ok_typed)
  moreover from assms have "\<not> throws (render s)"
    by (intro render_well_formed typed_state_well_formed)
  then obtain tree where tree: "render s = Inr tree"
    by (auto simp: not_throws_iff)
  from assms have "if truthy (selectedMovie s) then movie_summary (selectedMovie s)
      else selectedMovie s = JNull"
    by (auto simp: typed_state_def movie_summary_truthy)
  with assms movies(3) have "mounts tree"
    unfolding mounts_render_iff [OF tree]
    by (auto simp: typed_state_def movie_summary_def detail_parts_def name_of_def
        provider_list_def provider_entry_def list_all_iff child_ok_typed split: if_splits)
  ultimately show ?thesis using rows tree by blast
qed

lemma run_open_heat: "run typed_service ''k'' open_heat initial_app = Some heat_shown"
  by (simp add: open_heat_def heat_shown_def heat_def heat_details_def eval_defs show_simps
      typed_list_document_def typed_detail_document_def movie_list_def provider_list_def
      movie_summary_def provider_entry_def find_trailer_eq)

lemma reachable_heat_shown: "reachable typed_service ''k'' heat_shown"
  using reachable.start run_open_heat by (rule run_reachable)

section \<open>Properties\<close>

text \<open>
  C17. Under a service whose documents are of the data model, the platform mounts every
  screen: in every state that the application can reach, rendering throws nothing, no
  object stands among the children of a text element of the tree or of a row of the
  list, no text stands outside a text element, and the rows have different keys.
\<close>

theorem typed_service_screen_mounts:
  assumes "reachable typed_service k a"
  shows "\<exists>tree rows. render (view a) = Inr tree \<and> mounts tree \<and>
     list_rows (elements (movies (view a))) = Inr rows \<and>
     list_all (\<lambda>(key, row). mounts row) rows \<and> distinct (map fst rows)"
  using reachable_typed_state [OF assms] by (rule typed_state_mounts)

theorem typed_service_screen_mounts_witness:
  "reachable typed_service ''k'' heat_shown \<and>
   (\<exists>tree rows. render (view heat_shown) = Inr tree \<and> mounts tree \<and>
      list_rows (elements (movies (view heat_shown))) = Inr rows \<and>
      list_all (\<lambda>(key, row). mounts row) rows \<and> map fst rows = [''949''])"
proof -
  have "list_rows (elements (movies (view heat_shown))) = Inr [(''949'', movie_row heat)]"
    by (simp add: heat_shown_def initial_app_def list_rows_eq heat_def has_id_def listable_def
        show_simps)
  with typed_service_screen_mounts [OF reachable_heat_shown] reachable_heat_shown
  show ?thesis by auto
qed

lemma reachable_object_title_listed: "reachable documented_service ''k'' object_title_listed"
proof -
  have "run documented_service ''k''
      [Press RunFetchPopularMovies, Settle 0 (Body (JObj [(''results'', JArr [object_title])]))]
      initial_app = Some object_title_listed"
    by (simp add: object_title_listed_def object_title_def eval_defs)
  with reachable.start show ?thesis by (rule run_reachable)
qed

text \<open>
  C25. The screen mounts exactly when the fields that it shows are text. For a state
  that renders, the tree and the rows of the list mount if and only if the title of
  every movie of the list holds no object, the title, the overview, the rating and the
  release date of the selected movie and the name of every provider hold no object
  (none is an object or an array with an object among its elements, at any depth),
  the list is an array, and a value that stands for a missing selection shows nothing.
  Nothing else of a response decides whether the screen can be shown, and nothing in
  the application checks these fields.
\<close>

theorem screen_mounts_iff_fields_are_text:
  assumes "render s = Inr tree" and "list_rows (elements (movies s)) = Inr rows"
  shows "mounts tree \<and> list_all (\<lambda>(key, row). mounts row) rows \<longleftrightarrow>
     (loading s \<or> error s \<noteq> [] \<or> nullish (movies s) \<or> is_array (movies s)) \<and>
     list_all (\<lambda>item. child_ok (title_of item)) (elements (movies s)) \<and>
     (if truthy (selectedMovie s)
      then list_all child_ok (detail_parts s) \<and>
        list_all (\<lambda>p. child_ok (name_of p)) (elements (downloadLinks s))
      else shows_nothing (selectedMovie s))"
  by (auto simp: mounts_render_iff [OF assms(1)] mounts_rows_iff [OF assms(2)])

theorem screen_mounts_iff_fields_are_text_witness:
  "reachable documented_service ''k'' object_title_listed \<and>
   (\<exists>tree rows. render (view object_title_listed) = Inr tree \<and>
      list_rows (elements (movies (view object_title_listed))) = Inr rows \<and>
      mounts tree \<and> \<not> list_all (\<lambda>(key, row). mounts row) rows)"
proof -
  let ?s = "view object_title_listed"
  have "\<not> throws (render ?s)"
    using reachable_object_title_listed by (intro render_well_formed reachable_well_formed)
  then obtain tree where tree: "render ?s = Inr tree"
    by (auto simp: not_throws_iff)
  have rows: "list_rows (elements (movies ?s)) = Inr [(''3'', movie_row object_title)]"
    by (simp add: object_title_listed_def initial_app_def list_rows_eq object_title_def
        has_id_def listable_def show_simps)
  have "mounts tree"
    by (simp add: mounts_render_iff [OF tree] object_title_listed_def initial_app_def)
  moreover from screen_mounts_iff_fields_are_text [OF tree rows]
  have "\<not> (mounts tree \<and> list_all (\<lambda>(key, row). mounts row) [(''3'', movie_row object_title)])"
    by (simp add: object_title_listed_def initial_app_def object_title_def title_of_def)
  ultimately show ?thesis
    using tree rows reachable_object_title_listed by blast
qed

end
