(* ===== verification/Setters.thy ===== *)
theory Setters
  imports Typed "HOL-Library.Sublist"
begin

text \<open>
  The handlers of \<^verbatim>\<open>src/App.js\<close> call by call. A handler changes the state through
  the setters of the \<^verbatim>\<open>useState\<close> variables only, one call after the other, and the
  platform may call \<^verbatim>\<open>App\<close> again between two of them: it renders after each call
  that is made outside one of its own event handlers (after an \<^verbatim>\<open>await\<close>) unless it
  batches the calls. Here each segment of a handler is the list of its setter calls in
  the order of the source. A lemma checks that the handlers of \<open>Handlers\<close> are
  these calls taken together (both are written from the same lines, so this checks
  the one against the other and is no property of the program); the theorem shows
  that every state between two calls can be rendered.
\<close>

section \<open>Setter calls\<close>

text \<open>A call of a setter with its argument, and what it does to the state.\<close>

datatype setter =
    Set_query string
  | Set_movies jsval
  | Set_loading bool
  | Set_error string
  | Set_selectedMovie jsval
  | Set_modalVisible bool
  | Set_trailerUrl jsval
  | Set_downloadLinks jsval

fun call :: "setter \<Rightarrow> view_state \<Rightarrow> view_state" where
  "call (Set_query t) s = s\<lparr>query := t\<rparr>"
| "call (Set_movies v) s = s\<lparr>movies := v\<rparr>"
| "call (Set_loading b) s = s\<lparr>loading := b\<rparr>"
| "call (Set_error t) s = s\<lparr>error := t\<rparr>"
| "call (Set_selectedMovie v) s = s\<lparr>selectedMovie := v\<rparr>"
| "call (Set_modalVisible b) s = s\<lparr>modalVisible := b\<rparr>"
| "call (Set_trailerUrl v) s = s\<lparr>trailerUrl := v\<rparr>"
| "call (Set_downloadLinks v) s = s\<lparr>downloadLinks := v\<rparr>"

definition after :: "setter list \<Rightarrow> view_state \<Rightarrow> view_state" where
  "after cs s = fold call cs s"

section \<open>The calls of each handler\<close>

text \<open>
  \<^verbatim>\<open>searchMovies\<close> and \<^verbatim>\<open>fetchPopularMovies\<close> up to the \<^verbatim>\<open>fetch\<close> call, the body
  of their \<^verbatim>\<open>try\<close> block after the document has arrived, and their
  \<^verbatim>\<open>try\<close>/\<^verbatim>\<open>catch\<close>/\<^verbatim>\<open>finally\<close>: the call of the \<^verbatim>\<open>finally\<close> block comes last
  on every path.
\<close>

definition searchMovies_calls :: "view_state \<Rightarrow> setter list" where
  "searchMovies_calls s = (if query s = [] then [] else [Set_loading True])"

definition fetchPopularMovies_calls :: "setter list" where
  "fetchPopularMovies_calls = [Set_loading True]"

definition store_results_calls :: "jsval \<Rightarrow> setter list js" where
  "store_results_calls data =
     and_then (get_prop data ''results'') (\<lambda>results.
       Inr (if truthy results then [Set_movies results, Set_error []] else []))"

definition list_settled_calls :: "string \<Rightarrow> fetch_result \<Rightarrow> setter list" where
  "list_settled_calls message r =
     (case and_then (await_json r) store_results_calls of
        Inl err \<Rightarrow> [Set_error message]
      | Inr cs \<Rightarrow> cs)
     @ [Set_loading False]"

text \<open>
  The \<^verbatim>\<open>try\<close> block of \<^verbatim>\<open>fetchMovieDetails\<close>: the trailer key is set as soon as
  the search has returned, the providers after that; an exception ends the block, and
  the \<^verbatim>\<open>catch\<close> clause calls no setter.
\<close>

definition store_details_calls :: "jsval \<Rightarrow> setter list" where
  "store_details_calls data =
     (case find_trailer data of
        Inl err \<Rightarrow> []
      | Inr trailer \<Rightarrow>
          Set_trailerUrl (opt_prop trailer ''key'') #
          (case flatrate_providers data of
             Inl err \<Rightarrow> []
           | Inr links \<Rightarrow> [Set_downloadLinks links]))"

definition fetchMovieDetails_calls :: "fetch_result \<Rightarrow> setter list" where
  "fetchMovieDetails_calls r =
     (case await_json r of
        Inl err \<Rightarrow> []
      | Inr data \<Rightarrow> store_details_calls data)"

definition openMovieModal_calls :: "jsval \<Rightarrow> setter list" where
  "openMovieModal_calls movie = [Set_selectedMovie movie, Set_modalVisible True]"

text \<open>
  The calls of one event: those of the handler that the pressed element carries, or of
  what follows the \<^verbatim>\<open>await\<close> of the handler whose request settles.
\<close>

fun calls :: "event \<Rightarrow> app \<Rightarrow> setter list" where
  "calls (ChangeText t) a = [Set_query t]"
| "calls (Press RunSearchMovies) a = searchMovies_calls (view a)"
| "calls (Press RunFetchPopularMovies) a = fetchPopularMovies_calls"
| "calls (Press (RunOpenMovieModal item)) a = openMovieModal_calls item"
| "calls (Press RunCloseModal) a = [Set_modalVisible False]"
| "calls (Press act) a = []"
| "calls (Settle i r) a =
     (if i < length (pending a)
      then (case fst (pending a ! i) of
              SearchMovies \<Rightarrow> list_settled_calls ''Failed to fetch movies'' r
            | FetchPopularMovies \<Rightarrow> list_settled_calls ''Failed to fetch popular movies'' r
            | FetchMovieDetails \<Rightarrow> fetchMovieDetails_calls r)
      else [])"

text \<open>
  The states that the platform may render during a step: the state after each number
  of its calls, from none to all.
\<close>

definition renders :: "event \<Rightarrow> app \<Rightarrow> view_state list" where
  "renders e a = map (\<lambda>cs. after cs (view a)) (prefixes (calls e a))"

text \<open>
  The arguments that keep a state well-formed: a list of movies that can be listed, a
  selection that is \<^verbatim>\<open>null\<close> or such a movie, a trailer key that is a string or
  absent, a list of providers that can be drawn.
\<close>

fun sets_well_formed :: "setter \<Rightarrow> bool" where
  "sets_well_formed (Set_movies v) = movie_array v"
| "sets_well_formed (Set_selectedMovie v) = (v = JNull \<or> listable v)"
| "sets_well_formed (Set_trailerUrl v) = string_or_absent v"
| "sets_well_formed (Set_downloadLinks v) = link_array v"
| "sets_well_formed c = True"

text \<open>The popular list shown, with one movie.\<close>

definition batman_listed :: app where
  "batman_listed = initial_app\<lparr>view := initial_state\<lparr>movies := JArr [batman]\<rparr>\<rparr>"

text \<open>
  The invariant that the specification gives for the modal: it is open only when a
  movie is selected.
\<close>

definition modal_has_movie :: "view_state \<Rightarrow> bool" where
  "modal_has_movie s \<longleftrightarrow> (modalVisible s \<longrightarrow> is_object (selectedMovie s))"

section \<open>The handlers are their calls\<close>

lemma after_simps [simp]:
  "after [] s = s" "after (c # cs) s = after cs (call c s)"
  "after (cs @ ds) s = after ds (after cs s)"
  by (simp_all add: after_def)

lemma after_searchMovies: "fst (searchMovies k s) = after (searchMovies_calls s) s"
  by (simp add: searchMovies_calls_def searchMovies_def)

lemma after_fetchPopularMovies: "fst (fetchPopularMovies k s) = after fetchPopularMovies_calls s"
  by (simp add: fetchPopularMovies_calls_def fetchPopularMovies_def)

lemma after_store_results:
  "store_results data s = (case store_results_calls data of
     Inl err \<Rightarrow> Inl err | Inr cs \<Rightarrow> Inr (after cs s))"
  by (cases "get_prop data ''results''") (simp_all add: store_results_def store_results_calls_def)

lemma after_list_settled: "list_settled message r s = after (list_settled_calls message r) s"
  by (cases "await_json r")
    (auto simp: list_settled_calls_def list_settled_def after_store_results split: sum.splits)

lemma after_store_details: "fst (store_details data s) = after (store_details_calls data) s"
  by (simp add: store_details_calls_def store_details_def Let_def split: sum.splits)

lemma after_fetchMovieDetails:
  "fst (fetchMovieDetails_settled r s) = after (fetchMovieDetails_calls r) s"
  by (simp add: fetchMovieDetails_calls_def fetchMovieDetails_settled_def after_store_details
      split: sum.splits)

lemma after_openMovieModal: "fst (openMovieModal k movie s) = after (openMovieModal_calls movie) s"
  by (simp add: openMovieModal_calls_def openMovieModal_def)

lemmas after_handlers = after_searchMovies after_fetchPopularMovies after_list_settled
  after_fetchMovieDetails after_openMovieModal

lemma view_app_step:
  assumes "app_step k e a = Some a'"
  shows "view a' = after (calls e a) (view a)"
proof (cases e)
  case (ChangeText t)
  with assms show ?thesis by (auto simp: setQuery_def split: if_splits)
next
  case (Press act)
  with assms have "a' = perform k act a"
    by (auto split: if_splits)
  with Press show ?thesis
    by (cases act) (simp_all add: view_perform after_handlers closeModal_def)
next
  case (Settle i r)
  with assms show ?thesis
    by (auto simp: view_resume after_handlers searchMovies_settled_def
        fetchPopularMovies_settled_def split: if_splits caller.splits)
qed

section \<open>The states between two calls\<close>

lemma well_formed_call: "well_formed s \<Longrightarrow> sets_well_formed c \<Longrightarrow> well_formed (call c s)"
  by (cases c) (simp_all add: well_formed_def)

lemma prefixes_invariant:
  assumes "P s" and "\<And>c s. P s \<Longrightarrow> c \<in> set cs \<Longrightarrow> P (call c s)"
  shows "list_all (\<lambda>ds. P (after ds s)) (prefixes cs)"
  using assms
proof (induction cs arbitrary: s)
  case Nil
  then show ?case by simp
next
  case (Cons c cs)
  from Cons.prems have "P (call c s)" by simp
  then have "list_all (\<lambda>ds. P (after ds (call c s))) (prefixes cs)"
    using Cons.prems(2) by (intro Cons.IH) simp_all
  with Cons.prems(1) show ?case
    by (simp add: list_all_iff)
qed

lemma renders_well_formed:
  assumes "well_formed (view a)" and "list_all sets_well_formed (calls e a)"
  shows "list_all well_formed (renders e a)"
proof -
  have "list_all (\<lambda>ds. well_formed (after ds (view a))) (prefixes (calls e a))"
    using assms by (intro prefixes_invariant) (auto simp: list_all_iff intro: well_formed_call)
  then show ?thesis by (simp add: renders_def list_all_iff)
qed

lemma list_settled_calls_documented:
  assumes "list_fails r \<or> (\<exists>data. r = Body data \<and> list_document data)"
  shows "list_all sets_well_formed (list_settled_calls message r)"
proof (cases "list_fails r")
  case True
  then show ?thesis
    by (cases r)
      (simp_all add: list_settled_calls_def list_fails_def await_json_def store_results_calls_def
        get_prop_nullish)
next
  case False
  with assms obtain data where r: "r = Body data" and doc: "list_document data"
    by blast
  from False r have "\<not> nullish data" by (simp add: list_fails_def)
  with doc show ?thesis
    unfolding r
    by (auto simp: list_settled_calls_def await_json_def store_results_calls_def
        get_prop_opt_prop list_document_def results_page_def nullish_not_truthy)
qed

lemma fetchMovieDetails_calls_documented:
  assumes "r = Rejected \<or> r = Unparsable \<or> (\<exists>data. r = Body data \<and> detail_document data)"
  shows "list_all sets_well_formed (fetchMovieDetails_calls r)"
proof (cases r)
  case (Body data)
  with assms have doc: "detail_document data" by simp
  then show ?thesis
    unfolding Body
    using detail_document_trailer [OF doc] detail_document_links [OF doc]
    by (simp add: fetchMovieDetails_calls_def await_json_def store_details_calls_def
        find_trailer_document flatrate_providers_eq detail_document_def is_object_not_nullish
        split: sum.splits)
qed (simp_all add: fetchMovieDetails_calls_def await_json_def)

lemma calls_documented:
  assumes "step documented_service k a e a'"
  shows "list_all sets_well_formed (calls e a)"
  using assms
proof (cases rule: step.cases)
  case (change_text t)
  then show ?thesis by simp
next
  case (press act)
  from press(4) show ?thesis
  proof (cases rule: can_cases)
    case (row item)
    with press show ?thesis
      by (simp add: openMovieModal_calls_def)
  qed (use press in \<open>auto simp: searchMovies_calls_def fetchPopularMovies_calls_def\<close>)
next
  case (settle i r)
  obtain c url where q: "pending a ! i = (c, url)" by (cases "pending a ! i")
  with settle documented_list_outcome [of "pending a ! i" r]
    documented_detail_outcome [of "pending a ! i" r]
  show ?thesis
    by (cases c)
      (simp_all add: list_settled_calls_documented fetchMovieDetails_calls_documented)
qed

lemma renders_unchanged:
  assumes "P (view a)" and "\<And>c s. c \<in> set (calls e a) \<Longrightarrow> P (call c s) = P s"
  shows "list_all P (renders e a)"
proof -
  have "list_all (\<lambda>ds. P (after ds (view a))) (prefixes (calls e a))"
    using assms by (intro prefixes_invariant) simp_all
  then show ?thesis by (simp add: renders_def list_all_iff)
qed

lemma settled_calls_keep_modal:
  "c \<in> set (list_settled_calls message r) \<Longrightarrow> modal_has_movie (call c s) = modal_has_movie s"
  "c \<in> set (fetchMovieDetails_calls r) \<Longrightarrow> modal_has_movie (call c s) = modal_has_movie s"
  by (auto simp: list_settled_calls_def store_results_calls_def fetchMovieDetails_calls_def
      store_details_calls_def modal_has_movie_def and_then_eq_Inr_iff
      split: sum.splits if_splits)

lemma renders_modal_has_movie:
  assumes "step env k a e a'" and "inv_modal a"
  shows "list_all modal_has_movie (renders e a)"
proof -
  from assms(2) have start: "modal_has_movie (view a)"
    by (auto simp: inv_modal_def modal_has_movie_def listable_is_object)
  from assms(1) show ?thesis
  proof (cases rule: step.cases)
    case (change_text t)
    with start show ?thesis
      by (intro renders_unchanged) (simp_all add: modal_has_movie_def)
  next
    case (press act)
    from press(4) show ?thesis
    proof (cases rule: can_cases)
      case (row item)
      with press start show ?thesis
        by (simp add: renders_def openMovieModal_calls_def modal_has_movie_def has_id_is_object)
    next
      case main
      with press start show ?thesis
        by (intro renders_unchanged)
          (auto simp: searchMovies_calls_def fetchPopularMovies_calls_def modal_has_movie_def
            split: if_splits)
    qed (use press start in \<open>simp_all add: renders_def modal_has_movie_def\<close>)
  next
    case (settle i r)
    with start show ?thesis
      by (intro renders_unchanged) (simp_all add: settled_calls_keep_modal split: caller.splits)
  qed
qed

section \<open>Properties\<close>

text \<open>
  C10. Every state between two setter calls can be rendered: under a service that answers
  as documented, for every step from a reachable state, the state after each number of
  the calls of the step is well-formed, \<^verbatim>\<open>App\<close> returns its tree for it, and
  the modal is visible in it only with a movie selected, since \<^verbatim>\<open>openMovieModal\<close>
  selects the movie before it shows the modal. So no render that the platform makes in
  the middle of a handler throws or shows an empty modal, whether it batches the calls
  or not, and the handler runs on as described.
\<close>

theorem every_render_of_a_step_succeeds:
  assumes "reachable documented_service k a" and "step documented_service k a e a'"
  shows "list_all (\<lambda>s. well_formed s \<and> modal_has_movie s \<and>
       \<not> throws (render s) \<and> \<not> throws (available s))
     (renders e a)"
proof -
  from assms(1) have "well_formed (view a)"
    by (rule reachable_well_formed)
  then have "list_all well_formed (renders e a)"
    using calls_documented [OF assms(2)] by (rule renders_well_formed)
  moreover have "list_all modal_has_movie (renders e a)"
    using assms(2) reachable_inv_modal [OF assms(1)] by (rule renders_modal_has_movie)
  ultimately show ?thesis
    by (auto simp: list_all_iff dest: render_well_formed well_formed_available)
qed

theorem every_render_of_a_step_succeeds_witness:
  "reachable documented_service ''k'' batman_listed \<and>
   step documented_service ''k'' batman_listed (Press (RunOpenMovieModal batman))
     batman_opened \<and>
   renders (Press (RunOpenMovieModal batman)) batman_listed =
     [initial_state\<lparr>movies := JArr [batman]\<rparr>,
      initial_state\<lparr>movies := JArr [batman], selectedMovie := batman\<rparr>,
      initial_state\<lparr>movies := JArr [batman], selectedMovie := batman, modalVisible := True\<rparr>] \<and>
   list_all (\<lambda>s. well_formed s \<and> modal_has_movie s \<and>
       \<not> throws (render s) \<and> \<not> throws (available s))
     (renders (Press (RunOpenMovieModal batman)) batman_listed)"
proof -
  have listed: "run documented_service ''k''
      [Press RunFetchPopularMovies, Settle 0 (Body batman_page)] initial_app = Some batman_listed"
    by (simp add: batman_listed_def batman_page_def batman_def eval_defs)
  with reachable.start have reach: "reachable documented_service ''k'' batman_listed"
    by (rule run_reachable)
  have step: "step documented_service ''k'' batman_listed (Press (RunOpenMovieModal batman))
      batman_opened"
    by (simp add: step_iff batman_listed_def batman_opened_def batman_def eval_defs show_simps)
  have "renders (Press (RunOpenMovieModal batman)) batman_listed =
     [initial_state\<lparr>movies := JArr [batman]\<rparr>,
      initial_state\<lparr>movies := JArr [batman], selectedMovie := batman\<rparr>,
      initial_state\<lparr>movies := JArr [batman], selectedMovie := batman, modalVisible := True\<rparr>]"
    by (simp add: renders_def batman_listed_def initial_app_def openMovieModal_calls_def)
  with every_render_of_a_step_succeeds [OF reach step] reach step
  show ?thesis by simp
qed

end
