(* ===== verification/Spec2Isabelle.thy ===== *)
theory Spec2Isabelle
  imports Controller Styles Effects Dates Progress Typed Setters
begin

text \<open>
  \<^bold>\<open>The program.\<close> \<^verbatim>\<open>src/App.js\<close> is one React Native component, \<^verbatim>\<open>App\<close>: a
  screen on which the user searches a movie catalog, lists the popular movies and
  opens a modal with the details of a movie. It has four parts. \<^emph>\<open>State\<close>: eight
  \<^verbatim>\<open>useState\<close> variables (lines 6 to 13). \<^emph>\<open>Handlers\<close>: \<^verbatim>\<open>searchMovies\<close>,
  \<^verbatim>\<open>fetchPopularMovies\<close>, \<^verbatim>\<open>fetchMovieDetails\<close> and \<^verbatim>\<open>openMovieModal\<close> (lines
  18 to 78), asynchronous functions that issue one request to the catalog service and
  store parts of its answer, and the two inline handlers that close the modal and take
  the text of the input field. \<^emph>\<open>Render functions\<close>: \<^verbatim>\<open>renderMovieItem\<close>,
  \<^verbatim>\<open>renderTrailerSection\<close>, \<^verbatim>\<open>renderDownloadOptions\<close> and the \<^verbatim>\<open>return\<close>
  statement of \<^verbatim>\<open>App\<close> (lines 80 to 195), which build the tree of elements from the
  state and attach the handlers to it. \<^emph>\<open>Style sheet\<close>: the constant \<^verbatim>\<open>styles\<close>
  (lines 198 to 332). The parts interact through the state only: a handler writes it,
  the platform calls the component again, the tree offers the handlers for the next
  event. The catalog service, the image server, the video player and the platform's
  link handler are outside the program.

  \<^bold>\<open>The theories.\<close>
  \<^item> \<open>Prelude\<close>: the result type of code that may throw with its sequencing
    \<open>and_then\<close>, the list functions \<open>join\<close> and \<open>remove_nth\<close> with the facts
    that the components share, and the fact
    collections \<open>handler_defs\<close> (the definitions of the handlers, which the
    evaluation of concrete runs unfolds) and \<open>frame\<close> (the fields that a handler
    leaves unchanged).
  \<^item> \<open>JsValue\<close>: the values of the program as the datatype \<open>jsval\<close> and the
    operators that the source applies to them, one definition each: \<open>truthy\<close> for a
    condition, \<open>get_prop\<close> for \<^verbatim>\<open>v.k\<close> (a \<^verbatim>\<open>TypeError\<close> on \<^verbatim>\<open>null\<close> and
    \<^verbatim>\<open>undefined\<close>), \<open>opt_prop\<close> for \<^verbatim>\<open>v?.k\<close>, \<open>js_or\<close> for \<^verbatim>\<open>||\<close>,
    \<open>js_find\<close> and \<open>js_map\<close> for the array methods with a callback that may
    throw, \<open>js_length\<close>, and the conversion to a string of the template
    literals, \<open>js_string\<close>: \<open>printable\<close> says when it returns and
    \<open>to_string\<close> what. Its lemmas give the operators on each kind of value, show
    that JSON values are closed under property access, relate \<open>js_find\<close> to
    \<open>List.find\<close>, and show that different integers print differently.
  \<^item> \<open>Catalog\<close>: the three request addresses (lines 23, 41, 58), the outcomes of
    \<^verbatim>\<open>await fetch\<close> followed by \<^verbatim>\<open>await response.json()\<close> as the datatype
    \<open>fetch_result\<close>, and the documented shapes of the answers (\<open>results_page\<close>,
    \<open>detail_document\<close>, with \<open>listable\<close> for a movie that the list can show and
    \<open>linkable\<close> for a provider that the detail view can), which are hypotheses and
    never part of a handler.
  \<^item> \<open>ViewState\<close>: the record \<open>view_state\<close> with one field per \<^verbatim>\<open>useState\<close>
    variable under the name of the source, \<open>initial_state\<close>, and \<open>well_formed\<close>,
    the states that the render functions draw without an exception.
  \<^item> \<open>Handlers\<close>: each asynchronous handler as one definition per segment between
    two \<^verbatim>\<open>await\<close>s: \<open>searchMovies\<close> and \<open>fetchPopularMovies\<close> run to the
    \<^verbatim>\<open>fetch\<close> call and return the new state and the request;
    \<open>searchMovies_settled\<close> and \<open>fetchPopularMovies_settled\<close> are their
    \<^verbatim>\<open>try\<close>/\<^verbatim>\<open>catch\<close>/\<^verbatim>\<open>finally\<close> on the outcome (shared as \<open>list_settled\<close>
    and \<open>store_results\<close>); \<open>fetchMovieDetails_settled\<close> with \<open>find_trailer\<close>,
    \<open>flatrate_providers\<close> and \<open>store_details\<close>; \<open>openMovieModal\<close> with
    \<open>fetchMovieDetails\<close>, which builds the address of the detail request;
    \<open>closeModal\<close>, \<open>setQuery\<close>. Its lemmas give every handler on every branch,
    the fields each leaves unchanged (collection \<open>frame\<close>), and the agreement of
    the trailer search with \<open>first_trailer\<close>.
  \<^item> \<open>View\<close>: the element tree as the datatype \<open>node\<close>, the handlers attached to
    elements as the datatype \<open>action\<close>, and \<open>renderMovieItem\<close>, \<open>key_of\<close>,
    \<open>renderTrailerSection\<close>, \<open>renderDownloadOptions\<close>, \<open>list_section\<close>,
    \<open>modal_content\<close> and \<open>render\<close> for the code of the same name or place, with
    the conversions to strings that building an element applies. The reference trees
    (\<open>movie_row\<close>, \<open>service_button\<close>, \<open>trailer_section\<close>, \<open>detail_view\<close>)
    are what the functions return when nothing throws. Its lemmas give each function in
    closed form, and its theorem the states and the items on which drawing throws,
    exactly.
  \<^item> \<open>App\<close>: the running application as the record \<open>app\<close> (view state, requests
    in flight, logged errors, opened pages, unhandled exceptions), the events
    \<open>ChangeText\<close>, \<open>Press\<close> and \<open>Settle\<close>, the step function \<open>app_step\<close>,
    the step relation \<open>step\<close> with the service as a parameter, \<open>reachable\<close>
    and \<open>run\<close>. An element can be pressed when \<open>available\<close> finds its action in
    the tree that \<open>render\<close> builds.
  \<^item> \<open>Invariants\<close>: \<open>inv_modal\<close>, \<open>inv_error\<close>, \<open>inv_loading\<close>, one lemma
    per invariant that every step keeps it, and the same for \<open>well_formed\<close> under
    \<open>documented_service\<close>.
  \<^item> \<open>Scenarios\<close>: concrete runs, the theorems on overlapping and late requests
    (the answer that settles last wins, whichever request it belongs to), the theorem
    that a list answer with an item that cannot be drawn leaves a screen that offers
    nothing (\<open>blocked\<close>), for good when no other list request is in flight, and
    the theorem that a list answer and a detail answer commute.
  \<^item> \<open>Controller\<close>: the controller of the specification (its typed state
    \<open>spec_state\<close>, its operations \<open>spec_op\<close> with their effect \<open>spec_apply\<close>),
    the abstraction \<open>abs_state\<close> from the view state, and the controller as a
    transition system \<open>spec_step\<close> over the specified state and the multiset of
    requests in flight (\<open>spec_app\<close>, with \<open>spec_next\<close> and \<open>spec_runs\<close>
    computing it). The refinement is a simulation: along every run under the documented
    service the application moves as the specified machine does under the operations
    of its events (\<open>ops_of\<close>), so the specified state changes as the operations
    say, each movie that is opened is one of the list, and each request is answered
    once. It holds on the runs that \<open>conforming\<close> admits; the two kinds of steps
    that \<open>conforms\<close> excludes are where the source and the specification differ,
    and each is characterised by a theorem of its own.
  \<^item> \<open>Styles\<close>: the style sheet (lines 198 to 332) as the list \<open>styles\<close>, entry
    by entry, and \<open>style_names\<close>, the styles that the elements of a tree name. Its
    theorems show that every style named is defined, that every style defined is
    named, and that no name is defined twice.
  \<^item> \<open>Effects\<close>: what the application hands to its environment. \<open>request_ok\<close>,
    \<open>external_page\<close> and \<open>fixed_host\<close> describe the requests issued, the pages
    opened and the addresses loaded (\<open>resources\<close>); the theorems show that they
    hold in every reachable state and for every tree, that no handler raises a
    \<^verbatim>\<open>TypeError\<close> on a document of the documented service (\<open>inv_console\<close>), and
    that the spinner is off once the requests in flight have settled (\<open>drain\<close>).
  \<^item> \<open>Dates\<close>: the year that a row shows: dates of the form \<^verbatim>\<open>YYYY-MM-DD\<close>
    (\<open>parse_date\<close>, \<open>valid_date\<close>), \<open>full_year\<close> for
    \<^verbatim>\<open>new Date(d).getFullYear()\<close> on them, and \<open>row_year\<close>, the text of the
    year of a row. Its theorem gives that text for every date and time zone. It also
    holds the text that a value shows as a child of a text element (\<open>value_text\<close>),
    the text of a whole text element (\<open>parts_text\<close>) and of the text elements of
    the detail view (\<open>detail_text\<close>, \<open>detail_fields\<close>).
  \<^item> \<open>Progress\<close>: how requests come and go. \<open>started\<close> and \<open>ended\<close>
    count the presses of a run that can start a request and its settlements; the
    theorem bounds the requests in flight by them. \<open>serial\<close> are the runs in which no list request is
    started while another is in flight (\<open>overlapping\<close>); on them the loading
    flag is on exactly while one list request is in flight (\<open>loading_exact\<close>),
    which is the invariant of the specification.
  \<^item> \<open>Typed\<close>: the data model of the specification as shapes of documents
    (\<open>movie_summary\<close>, \<open>provider_entry\<close>), the service that answers with them
    (\<open>typed_service\<close>), the states that hold them (\<open>typed_state\<close>, kept by
    every step), and \<open>mounts\<close>, the condition on the children of elements under
    which the platform mounts a tree. Its theorems show that the screen mounts in
    every state reachable under the typed service, and that it mounts exactly when
    the fields that the source places in text elements (\<open>title_of\<close>,
    \<open>name_of\<close>, \<open>detail_parts\<close>) hold no objects.
  \<^item> \<open>Setters\<close>: the handlers call by call. \<open>setter\<close> is a call of one of
    the eight setters with its argument, \<open>call\<close> its effect, and each segment of a
    handler is the list of its calls in the order of the source
    (\<open>list_settled_calls\<close>, \<open>fetchMovieDetails_calls\<close>,
    \<open>openMovieModal_calls\<close>, \<dots>; \<open>calls\<close> for an event). A lemma checks
    this second reading of the handlers against the first (every step is its calls
    applied in order); the theorem shows that under the documented service every
    state between two calls (\<open>renders\<close>) is well-formed, renders, and shows the
    modal only with a movie selected.
  \<^item> This theory: the properties of reachable states and of handlers together with
    the render functions, which need all of the above: the invariants as theorems, the
    request that a pressed row starts, the trailer section after a detail response, the
    texts of the detail view for a movie of the data model, and the agreement of the
    step function with the step relation.

  \<^bold>\<open>Modelling decisions.\<close>
  \<^item> A setter call is a record update. Every setter call of the source passes a
    value, so the state after a segment does not depend on how the platform batches
    the calls. \<open>Handlers\<close> gives a segment as one change of the state,
    \<open>Setters\<close> as the list of its calls, and the two agree. The platform may
    render between two calls of a segment that follows an \<^verbatim>\<open>await\<close>; the states
    that it then sees are \<open>renders\<close>. A render that throws there would throw
    inside the handler: this is excluded for the documented service by a theorem, and
    what the platform does with such an exception otherwise is not modelled.
  \<^item> A handler reads the state of the latest render. The only state a handler
    reads is \<^verbatim>\<open>query\<close>, in \<^verbatim>\<open>searchMovies\<close>; the tree is rebuilt before the next
    event.
  \<^item> No expression of the source computes with numbers; they are tested for truth,
    compared and printed. A number is therefore an integer that prints as its digits
    (\<open>JNum\<close>, of magnitude below \<open>2\<^sup>5\<^sup>3\<close>, where a double holds every
    integer exactly) or any other number, given by the text that the engine prints
    for it (\<open>JDec\<close>, a rating such as \<^verbatim>\<open>7.5\<close>, an identifier of twenty digits);
    how the engine finds that text is not modelled.
  \<^item> Strings are lists of characters. The source concatenates strings, compares them
    with literals and tests them for emptiness, which does not depend on the encoding.
  \<^item> \<open>get_prop\<close> is the access to a data property. The property names of the source
    are neither array indices nor members of a built-in prototype. An object is the
    list of its bindings, of which the first for a key counts; the values of a parsed
    response have one binding per key (\<open>is_json\<close>).
  \<^item> The conversion of a value to a string can throw: an object of a response that
    has a property named \<^verbatim>\<open>toString\<close> of its own has nothing to call, and an array
    converts its elements. The template literals, \<^verbatim>\<open>item.id.toString()\<close>,
    \<^verbatim>\<open>new Date(v)\<close> and the \<^verbatim>\<open>key\<close> of an element all convert under this one
    condition (\<open>printable\<close>), and each is a branch of the function that holds it:
    in a render function the render throws, in the closure of a button the press
    throws, in \<^verbatim>\<open>fetchMovieDetails\<close> the \<^verbatim>\<open>catch\<close> clause logs. The functions
    that build an address (\<open>poster_url\<close>, \<open>details_url\<close>, \<dots>) take the text
    that the conversion gave. That the platform converts a key when the element is
    created is a rule of the platform, stated in \<open>element_key\<close>.
  \<^item> The API key is a parameter of the handlers: line 16 of the source, which holds
    it, is not a complete statement.
  \<^item> The year of a release date (\<^verbatim>\<open>new Date(d).getFullYear()\<close>) is the part
    \<open>FullYear d\<close> of a text element; \<open>Dates\<close> gives its value for dates of the
    form \<^verbatim>\<open>YYYY-MM-DD\<close>, with the time zone of the device as a parameter.
  \<^item> The list component is described by \<open>list_rows\<close>: one row per item of array
    data. Which rows it mounts at a time is not modelled.
  \<^item> A visible modal takes every touch; the modal of the source is opaque.
  \<^item> The source has no types. The types that the specification gives to the fields
    of a movie and a provider are predicates on values (\<open>movie_summary\<close>,
    \<open>provider_entry\<close>) and hypotheses on the service; the state keeps the values
    as the service sent them, as the source does.
  \<^item> \<open>mounts\<close> is a rule of the platform that the development assumes; neither
    the source nor the specification states it. An object among the children of a
    text element, also inside an array, and a string or a number outside a text
    element are refused; an array of other values stands for its elements. Data of a
    list that is neither an array nor absent is refused, which is stricter than the
    platform, and what else the platform checks of a tree is not described.
  \<^item> No function of the development needs fuel or a bound. The source has no loop
    and no retry; every recursion of the model is over the structure of a list or a
    value, or over the digits of a number.

  \<^bold>\<open>Not modelled.\<close> What the platform draws from a tree and a style (layout,
  fonts, images), which rows of the list it mounts at a time, the network, the image
  server, the video player, the text of logged errors, and line 16 of the source.
  Release dates in other forms than \<^verbatim>\<open>YYYY-MM-DD\<close> are not covered: the service
  sends this form only, and the date library reads other strings by rules that differ
  between engines. The imports of lines 1 to 3 name library
  code; \<^verbatim>\<open>useEffect\<close> is imported and never called.

  \<^bold>\<open>Plan.\<close> Every statement of the source is modelled. Open is the restriction
  named above: release dates in other forms.
\<close>

section \<open>Inputs\<close>

text \<open>A detail document whose first trailer has no key and whose second has one.\<close>

definition keyless_then_keyed :: jsval where
  "keyless_then_keyed =
     JObj [(''videos'', JObj [(''results'',
       JArr [JObj [(''type'', JStr ''Trailer'')],
             JObj [(''type'', JStr ''Trailer''), (''key'', JStr ''y'')]])])]"

text \<open>A movie of the data model without a release date, selected.\<close>

definition undated :: jsval where
  "undated = JObj [(''id'', JNum 5), (''title'', JStr ''Ran''), (''release_date'', JNull),
     (''vote_average'', JNum 8), (''overview'', JStr ''A king divides his realm.'')]"

definition undated_selected :: view_state where
  "undated_selected = initial_state\<lparr>selectedMovie := undated\<rparr>"

section \<open>Properties of reachable states\<close>

text \<open>
  C6. The spinner shows only while a list request is in flight: in every reachable
  state in which the loading flag is on, under any behaviour of the service, a request
  of \<^verbatim>\<open>searchMovies\<close> or \<^verbatim>\<open>fetchPopularMovies\<close> has not settled yet, so the
  flag is cleared eventually when that request settles.
\<close>

theorem loading_has_request_in_flight:
  "reachable env k a \<Longrightarrow> loading (view a) \<Longrightarrow> list_ex list_request (pending a)"
  by (auto dest!: reachable_inv_loading simp: inv_loading_def)

theorem loading_has_request_in_flight_witness:
  "reachable documented_service ''k'' popular_requested \<and> loading (view popular_requested) \<and>
   list_ex list_request (pending popular_requested)"
  using loading_has_request_in_flight [OF reachable_popular_requested]
  by (simp add: reachable_popular_requested) (simp add: popular_requested_def initial_app_def)

text \<open>
  C7. The modal always has a movie to show, and no handler throws: in every reachable
  state, under any behaviour of the service, no exception has left a handler, and when
  the modal is visible the selected movie is an object with an \<^verbatim>\<open>id\<close> that converts
  to a string. A row can be pressed only after \<^verbatim>\<open>keyExtractor\<close> and
  \<^verbatim>\<open>renderMovieItem\<close> have drawn it, which they do for such objects only; so
  \<^verbatim>\<open>movie.id\<close> does not throw in \<^verbatim>\<open>openMovieModal\<close>, and the addresses that
  the buttons of the detail view hand to the link handler can be built.
\<close>

theorem modal_shows_selected_movie:
  "reachable env k a \<Longrightarrow>
   unhandled a = [] \<and>
   (modalVisible (view a) \<longrightarrow>
      is_object (selectedMovie (view a)) \<and> listable (selectedMovie (view a)))"
  by (auto dest!: reachable_inv_modal simp: inv_modal_def listable_is_object)

theorem modal_shows_selected_movie_witness:
  "reachable documented_service ''k'' batman_opened \<and> modalVisible (view batman_opened) \<and>
   is_object (selectedMovie (view batman_opened)) \<and>
   listable (selectedMovie (view batman_opened)) \<and> unhandled batman_opened = []"
  using modal_shows_selected_movie [OF reachable_batman_opened]
  by (simp add: reachable_batman_opened) (simp add: batman_opened_def initial_app_def)

text \<open>
  C24. The error on screen is one of the two messages of the list handlers or empty: in
  every reachable state, under any behaviour of the service. A failed detail request
  never sets it.
\<close>

theorem error_is_handler_message:
  "reachable env k a \<Longrightarrow>
   error (view a) = [] \<or> error (view a) = ''Failed to fetch movies'' \<or>
   error (view a) = ''Failed to fetch popular movies''"
  by (auto dest!: reachable_inv_error simp: inv_error_def)

theorem error_is_handler_message_witness:
  "reachable documented_service ''k'' popular_failed \<and>
   error (view popular_failed) = ''Failed to fetch popular movies''"
  using error_is_handler_message [OF reachable_popular_failed]
  by (simp add: reachable_popular_failed) (simp add: popular_failed_def initial_app_def)

text \<open>
  C8. With a service that answers as documented no render function throws: every
  reachable state is well-formed, \<^verbatim>\<open>App\<close> returns its tree for it, and the list gets
  a key and a row for every movie, whatever the user does and however the requests
  fail or overlap.
\<close>

theorem documented_service_keeps_screen_drawable:
  "reachable documented_service k a \<Longrightarrow>
   well_formed (view a) \<and> \<not> throws (render (view a)) \<and> \<not> throws (available (view a))"
  by (auto dest!: reachable_well_formed dest: render_well_formed well_formed_available)

theorem documented_service_keeps_screen_drawable_witness:
  "reachable documented_service ''k'' batman_opened \<and> well_formed (view batman_opened) \<and>
   \<not> throws (render (view batman_opened)) \<and> \<not> throws (available (view batman_opened))"
  using documented_service_keeps_screen_drawable [OF reachable_batman_opened]
  by (simp add: reachable_batman_opened)

text \<open>
  C29. Searching with an empty query does nothing: when the Search button is on screen
  and the query is empty, pressing it leaves the whole application as it is; no request
  is issued and the loading flag is not set.
\<close>

theorem search_with_empty_query_is_noop:
  "can RunSearchMovies a \<Longrightarrow> query (view a) = [] \<Longrightarrow>
   app_step k (Press RunSearchMovies) a = Some a"
  by (simp add: step_simps searchMovies_def issue_def)

theorem search_with_empty_query_is_noop_witness:
  "can RunSearchMovies initial_app \<and> query (view initial_app) = [] \<and>
   app_step ''k'' (Press RunSearchMovies) initial_app = Some initial_app"
  using search_with_empty_query_is_noop [of initial_app "''k''"]
  by (simp add: eval_defs)

text \<open>
  C15. A row that can be pressed gets its details requested: in every state, whatever
  the service has sent, pressing a row of the list selects its movie, opens the modal
  and puts exactly one request in flight, for the detail address of the text of its
  \<^verbatim>\<open>id\<close>; nothing is logged and nothing throws. The two ways in which
  \<^verbatim>\<open>openMovieModal\<close> can fail before its request (a movie that is \<^verbatim>\<open>null\<close>, an
  \<^verbatim>\<open>id\<close> that does not convert to a string) cannot be reached from the screen,
  since \<^verbatim>\<open>keyExtractor\<close> has thrown on such an entry before a row exists.
\<close>

theorem pressed_row_requests_its_details:
  assumes "can (RunOpenMovieModal item) a"
  shows "app_step k (Press (RunOpenMovieModal item)) a =
     Some (a\<lparr>view := (view a)\<lparr>selectedMovie := item, modalVisible := True\<rparr>,
        pending := pending a @
          [(FetchMovieDetails, details_url k (to_string (opt_prop item ''id'')))]\<rparr>)"
  using assms
proof (cases rule: can_cases)
  case (row item')
  then have "\<not> nullish item" "printable (opt_prop item ''id'')"
    by (simp_all add: listable_not_nullish listable_printable)
  with assms show ?thesis
    by (simp add: step_simps openMovieModal_eq fetchMovieDetails_eq issue_def)
qed simp_all

theorem pressed_row_requests_its_details_witness:
  "can (RunOpenMovieModal batman) batman_listed \<and>
   app_step ''k'' (Press (RunOpenMovieModal batman)) batman_listed = Some batman_opened"
proof -
  have "can (RunOpenMovieModal batman) batman_listed"
    by (simp add: batman_listed_def batman_def eval_defs)
  with pressed_row_requests_its_details [of batman batman_listed "''k''"] show ?thesis
    by (simp add: batman_listed_def batman_opened_def batman_def initial_app_def
        details_url_def show_simps)
qed

section \<open>From a response to the screen\<close>

text \<open>
  C22. The trailer section shows what the detail response holds: after a detail
  document of the documented shape has been stored, the section is the player for the
  key of the first video of type \<^verbatim>\<open>Trailer\<close>, with the button that opens its page,
  and the placeholder when there is no such video or when that video has no key, even
  if a later trailer has one.
\<close>

theorem details_drive_trailer_section:
  assumes "detail_document data"
  shows "renderTrailerSection (fst (fetchMovieDetails_settled (Body data) s)) =
    Inr (case List.find (\<lambda>v. opt_prop v ''type'' = JStr ''Trailer'')
             (elements (video_results data)) of
       Some v \<Rightarrow>
         if truthy (opt_prop v ''key'')
         then View ''trailerContainer''
           [WebView ''trailerVideo'' True
              (''https://www.youtube.com/embed/'' @ to_string (opt_prop v ''key'')),
            Button ''Watch Full Trailer on YouTube'' (WatchTrailer (opt_prop v ''key''))]
         else Text ''noTrailer'' [Lit ''No trailer available'']
     | None \<Rightarrow> Text ''noTrailer'' [Lit ''No trailer available''])"
  using assms string_or_absent_printable [OF detail_document_trailer [OF assms]]
  by (simp add: fetchMovieDetails_settled_def store_details_eq find_trailer_document
      first_trailer_def renderTrailerSection_eq trailer_section_def embed_url_def
      split: option.splits)

theorem details_drive_trailer_section_witness:
  "detail_document keyless_then_keyed \<and> detail_document teaser_only \<and>
   renderTrailerSection (fst (fetchMovieDetails_settled (Body keyless_then_keyed) initial_state)) =
     Inr (Text ''noTrailer'' [Lit ''No trailer available'']) \<and>
   renderTrailerSection (fst (fetchMovieDetails_settled (Body teaser_only)
       (initial_state\<lparr>trailerUrl := JStr ''old''\<rparr>))) =
     Inr (Text ''noTrailer'' [Lit ''No trailer available'']) \<and>
   renderTrailerSection (fst (fetchMovieDetails_settled (Body teaser_then_trailer) initial_state)) =
     Inr (View ''trailerContainer''
       [WebView ''trailerVideo'' True ''https://www.youtube.com/embed/y'',
        Button ''Watch Full Trailer on YouTube'' (WatchTrailer (JStr ''y''))])"
proof -
  have d: "detail_document keyless_then_keyed" "detail_document teaser_only"
    by (simp_all add: keyless_then_keyed_def teaser_only_def detail_document_def
        video_results_def us_flatrate_def object_array_def string_or_absent_def)
  from details_drive_trailer_section [OF d(1), of initial_state]
    details_drive_trailer_section [OF d(2), of "initial_state\<lparr>trailerUrl := JStr ''old''\<rparr>"]
    details_drive_trailer_section [OF detail_document_example, of initial_state]
  show ?thesis
    by (simp add: d)
      (simp add: keyless_then_keyed_def teaser_only_def teaser_then_trailer_def video_results_def)
qed

section \<open>What the detail view shows\<close>

text \<open>The children that the platform accepts in a text element are those with a text.\<close>

lemma renderable_iff_value_text: "renderable v \<longleftrightarrow> value_text v \<noteq> None"
proof (induction v)
  case (JArr xs)
  then have "list_all renderable xs \<longleftrightarrow> None \<notin> set (map value_text xs)"
    by (force simp: list_all_iff)
  then show ?case
    by (simp add: those_eq_None_iff)
qed simp_all

lemma value_text_numeric: "is_numeric v \<Longrightarrow> value_text v = Some (to_string v)"
  by (cases v) simp_all

text \<open>
  C26. The detail view shows the fields of the selected movie as the service sent them:
  in a state of the data model with a movie selected, the texts under the title, the
  overview, the rating and the release date are the title, the overview, the rating
  between \<^verbatim>\<open>Rating: \<close> and \<^verbatim>\<open>/10\<close>, and the date after \<^verbatim>\<open>Release Date: \<close>. A
  movie without a release date shows the label with nothing after it: the detail view
  has no placeholder for it, unlike the row of the list.
\<close>

theorem detail_view_shows_fields:
  assumes "typed_state s" and "truthy (selectedMovie s)"
  shows "detail_text tz s ''modalTitle'' = Some (to_string (opt_prop (selectedMovie s) ''title'')) \<and>
     detail_text tz s ''modalOverview'' =
       Some (to_string (opt_prop (selectedMovie s) ''overview'')) \<and>
     detail_text tz s ''modalRating'' =
       Some (''Rating: '' @ to_string (opt_prop (selectedMovie s) ''vote_average'') @ ''/10'') \<and>
     detail_text tz s ''modalDate'' =
       Some (''Release Date: '' @
         (if nullish (opt_prop (selectedMovie s) ''release_date'') then []
          else to_string (opt_prop (selectedMovie s) ''release_date'')))"
proof -
  from assms have m: "movie_summary (selectedMovie s)"
    by (auto simp: typed_state_def)
  from typed_state_mounts [OF assms(1)] obtain content
    where content: "modal_content s = Inr content"
    by (auto elim: render_Inr)
  from m show ?thesis
    by (simp add: detail_text_eq [OF content assms(2)] detail_fields_def movie_summary_def
        value_text_string value_text_numeric value_text_string_or_absent)
qed

theorem detail_view_shows_fields_witness:
  "typed_state undated_selected \<and> truthy (selectedMovie undated_selected) \<and>
   detail_text 0 undated_selected ''modalRating'' = Some ''Rating: 8/10'' \<and>
   detail_text 0 undated_selected ''modalDate'' = Some ''Release Date: ''"
  using detail_view_shows_fields [of undated_selected 0]
  by (simp add: undated_selected_def typed_state_def movie_list_def provider_list_def
      movie_summary_def undated_def string_or_absent_def show_simps)

section \<open>The two descriptions of the application\<close>

text \<open>
  The step function and the step relation describe the same application: a state
  follows another by an event in the relation exactly when the service permits the
  event and the function returns the state, and the states that the relation reaches
  from the start are exactly the results of the runs of the function from the start.
  So what is proved of the reachable states holds of every state that evaluating a run
  gives, and the other way round.
\<close>

lemma step_function_agrees:
  "(step env k a e a' \<longleftrightarrow> permits env e a \<and> app_step k e a = Some a') \<and>
   (reachable env k b \<longleftrightarrow> (\<exists>es. run env k es initial_app = Some b))"
  using run_reachable [OF reachable.start, of env k _ b] reachable_run [of env k b]
  by (auto simp: step_iff)

end
